(* ===== verification/Prelude.thy ===== *)
theory Prelude
  imports Complex_Main "HOL-Library.Product_Lexorder" "HOL-Library.Multiset"
begin

text \<open>
  Shared vocabulary of the development: the JavaScript values the analyzers compute with.
  \<^item> \<open>jsnum\<close>: a JavaScript number as a finite value, \<open>Infinity\<close>, \<open>-Infinity\<close> or
    \<open>NaN\<close>. Finite values are exact reals: IEEE rounding and the sign of zero are not
    modelled. Addition is the IEEE case table (infinities absorb, opposite infinities give
    \<open>NaN\<close>, \<open>NaN\<close> absorbs everything) and forms a commutative monoid, so the library's
    \<open>sum_list\<close> is the code's left-to-right \<open>+=\<close> loop.
  \<^item> the operators \<open>*\<close>, \<open>/\<close>, unary \<open>-\<close>, the relations \<open><\<close>, \<open><=\<close>, \<open>===\<close>
    (false whenever \<open>NaN\<close> is involved), truthiness and \<open>x || y\<close>, \<open>Math.round\<close>;
  \<^item> plain objects used as dictionaries (\<open>'v obj\<close>, an association list in insertion
    order) with the code's upsert idiom \<open>if (!m[k]) m[k] = init; m[k].f += v\<close> and the
    enumeration order of \<open>Object.entries\<close>;
  \<^item> \<open>Array.prototype.sort\<close> with a numeric comparator \<open>(a, b) => f a - f b\<close>, and
    \<open>slice\<close>.
  The named collection \<open>js_simps\<close> holds the evaluation rules of these operations.
\<close>

named_theorems js_simps "evaluation rules of the JavaScript value model"

section \<open>JavaScript numbers\<close>

datatype jsnum = Fin real | PInf | NInf | NaN

instantiation jsnum :: comm_monoid_add
begin

definition zero_jsnum :: jsnum where
  "zero_jsnum = Fin 0"

fun plus_jsnum :: "jsnum \<Rightarrow> jsnum \<Rightarrow> jsnum" where
  "plus_jsnum (Fin a) (Fin b) = Fin (a + b)"
| "plus_jsnum NaN y = NaN"
| "plus_jsnum x NaN = NaN"
| "plus_jsnum PInf NInf = NaN"
| "plus_jsnum NInf PInf = NaN"
| "plus_jsnum PInf y = PInf"
| "plus_jsnum NInf y = NInf"
| "plus_jsnum (Fin a) y = y"

lemma plus_jsnum_assoc: "((x::jsnum) + y) + z = x + (y + z)"
  by (cases x; cases y; cases z) simp_all

lemma plus_jsnum_commute: "(x::jsnum) + y = y + x"
  by (cases x; cases y) simp_all

lemma plus_jsnum_zero: "(0::jsnum) + x = x"
  by (cases x) (simp_all add: zero_jsnum_def)

instance
  by standard (rule plus_jsnum_assoc plus_jsnum_commute plus_jsnum_zero)+

end

text \<open>The sign of a non-\<open>NaN\<close> value and the infinity of a given sign.\<close>

fun js_sgn :: "jsnum \<Rightarrow> real" where
  "js_sgn (Fin a) = sgn a"
| "js_sgn PInf = 1"
| "js_sgn NInf = -1"
| "js_sgn NaN = 0"

definition inf_of_sign :: "real \<Rightarrow> jsnum" where
  "inf_of_sign s = (if 0 < s then PInf else if s < 0 then NInf else NaN)"

text \<open>Unary minus, subtraction, multiplication and division (IEEE 754 case tables).\<close>

fun js_neg :: "jsnum \<Rightarrow> jsnum" where
  "js_neg (Fin a) = Fin (- a)"
| "js_neg PInf = NInf"
| "js_neg NInf = PInf"
| "js_neg NaN = NaN"

definition js_sub :: "jsnum \<Rightarrow> jsnum \<Rightarrow> jsnum" where
  "js_sub x y = x + js_neg y"

fun js_mul :: "jsnum \<Rightarrow> jsnum \<Rightarrow> jsnum" where
  "js_mul (Fin a) (Fin b) = Fin (a * b)"
| "js_mul NaN y = NaN"
| "js_mul x NaN = NaN"
| "js_mul x y = inf_of_sign (js_sgn x * js_sgn y)"

fun js_div :: "jsnum \<Rightarrow> jsnum \<Rightarrow> jsnum" where
  "js_div (Fin a) (Fin b) = (if b \<noteq> 0 then Fin (a / b) else inf_of_sign (sgn a))"
| "js_div NaN y = NaN"
| "js_div x NaN = NaN"
| "js_div (Fin a) y = Fin 0"
| "js_div x (Fin b) = inf_of_sign (js_sgn x * (if b = 0 then 1 else sgn b))"
| "js_div x y = NaN"

text \<open>
  Relations. \<open>js_key\<close> places the non-\<open>NaN\<close> numbers on a line; every relation
  with a \<open>NaN\<close> operand is false.
\<close>

fun js_key :: "jsnum \<Rightarrow> int \<times> real" where
  "js_key NInf = (-1, 0)"
| "js_key (Fin r) = (0, r)"
| "js_key PInf = (1, 0)"
| "js_key NaN = (0, 0)"

definition js_lt :: "jsnum \<Rightarrow> jsnum \<Rightarrow> bool" where
  "js_lt x y \<longleftrightarrow> x \<noteq> NaN \<and> y \<noteq> NaN \<and> js_key x < js_key y"

definition js_le :: "jsnum \<Rightarrow> jsnum \<Rightarrow> bool" where
  "js_le x y \<longleftrightarrow> x \<noteq> NaN \<and> y \<noteq> NaN \<and> js_key x \<le> js_key y"

text \<open>\<open>x > y\<close> and \<open>x >= y\<close>, written as the code writes them.\<close>

abbreviation js_gt :: "jsnum \<Rightarrow> jsnum \<Rightarrow> bool" where
  "js_gt x y \<equiv> js_lt y x"

abbreviation js_ge :: "jsnum \<Rightarrow> jsnum \<Rightarrow> bool" where
  "js_ge x y \<equiv> js_le y x"

definition js_eq :: "jsnum \<Rightarrow> jsnum \<Rightarrow> bool" where
  "js_eq x y \<longleftrightarrow> x \<noteq> NaN \<and> x = y"

text \<open>Truthiness (\<open>0\<close> and \<open>NaN\<close> are falsy) and \<open>x || y\<close> on numbers.\<close>

fun js_truthy :: "jsnum \<Rightarrow> bool" where
  "js_truthy (Fin r) = (r \<noteq> 0)"
| "js_truthy NaN = False"
| "js_truthy PInf = True"
| "js_truthy NInf = True"

definition js_or :: "jsnum \<Rightarrow> jsnum \<Rightarrow> jsnum" where
  "js_or x y = (if js_truthy x then x else y)"

text \<open>\<open>Math.round\<close>: the integer nearest, halves rounded up; non-finite values unchanged.\<close>

fun js_round :: "jsnum \<Rightarrow> jsnum" where
  "js_round (Fin r) = Fin (of_int \<lfloor>r + 1 / 2\<rfloor>)"
| "js_round x = x"

fun is_finite :: "jsnum \<Rightarrow> bool" where
  "is_finite (Fin r) = True"
| "is_finite _ = False"

section \<open>Characters and strings\<close>

text \<open>
  Strings are Isabelle \<open>string\<close>s: a character is one of the 256 Latin-1 code units
  (UTF-16 code units above 255 are outside the model). \<open>toLowerCase\<close> and
  \<open>toUpperCase\<close> are modelled on the letters they map one-to-one inside Latin-1: ASCII
  A-Z/a-z and the accented letters U+00C0-U+00DE/U+00E0-U+00FE (except the signs U+00D7
  and U+00F7), which include the Spanish letters of the analyzers' keyword lists. The
  three Latin-1 letters whose case partner lies outside it (U+00B5, U+00DF, U+00FF) are
  left unchanged, as is every other character.
\<close>

definition is_digit :: "char \<Rightarrow> bool" where
  "is_digit c \<longleftrightarrow> 48 \<le> (of_char c :: nat) \<and> (of_char c :: nat) \<le> 57"

definition digit_val :: "char \<Rightarrow> nat" where
  "digit_val c = of_char c - 48"

definition digits_val :: "string \<Rightarrow> nat" where
  "digits_val ds = foldl (\<lambda>n c. 10 * n + digit_val c) 0 ds"

definition to_lower_char :: "char \<Rightarrow> char" where
  "to_lower_char c =
     (let n = (of_char c :: nat)
      in if (65 \<le> n \<and> n \<le> 90) \<or> (192 \<le> n \<and> n \<le> 222 \<and> n \<noteq> 215)
         then char_of (n + 32) else c)"

definition to_upper_char :: "char \<Rightarrow> char" where
  "to_upper_char c =
     (let n = (of_char c :: nat)
      in if (97 \<le> n \<and> n \<le> 122) \<or> (224 \<le> n \<and> n \<le> 254 \<and> n \<noteq> 247)
         then char_of (n - 32) else c)"

definition to_lower :: "string \<Rightarrow> string" where
  "to_lower s = map to_lower_char s"

definition to_upper :: "string \<Rightarrow> string" where
  "to_upper s = map to_upper_char s"

text \<open>\<open>String.prototype.includes\<close> and the case-insensitive test of a regular
  expression made of a literal word.\<close>

fun starts_with :: "string \<Rightarrow> string \<Rightarrow> bool" where
  "starts_with [] s = True"
| "starts_with (c # k) [] = False"
| "starts_with (c # k) (d # s) = (c = d \<and> starts_with k s)"

text \<open>\<open>s.endsWith(k)\<close>\<close>

definition ends_with :: "string \<Rightarrow> string \<Rightarrow> bool" where
  "ends_with k s \<longleftrightarrow> starts_with (rev k) (rev s)"

fun contains :: "string \<Rightarrow> string \<Rightarrow> bool" where
  "contains k [] = (k = [])"
| "contains k (c # s) = (starts_with k (c # s) \<or> contains k s)"

definition contains_ci :: "string \<Rightarrow> string \<Rightarrow> bool" where
  "contains_ci k s \<longleftrightarrow> contains (to_lower k) (to_lower s)"

section \<open>Lemmas on numbers and strings\<close>

lemma jsnum_zero_Fin [js_simps]: "(0::jsnum) = Fin 0"
  by (simp add: zero_jsnum_def)

lemma Fin_add_Fin [js_simps]: "Fin a + Fin b = Fin (a + b)"
  by simp

lemma sum_list_Fin [js_simps]: "sum_list (map (\<lambda>x. Fin (f x)) xs) = Fin (sum_list (map f xs))"
  by (induction xs) (simp_all add: zero_jsnum_def)

lemma js_lt_Fin [simp, js_simps]: "js_lt (Fin a) (Fin b) \<longleftrightarrow> a < b"
  by (simp add: js_lt_def)

lemma js_le_Fin [simp, js_simps]: "js_le (Fin a) (Fin b) \<longleftrightarrow> a \<le> b"
  by (simp add: js_le_def)

lemma js_lt_NaN [simp, js_simps]: "\<not> js_lt NaN y" "\<not> js_lt x NaN"
  by (simp_all add: js_lt_def)

lemma js_le_NaN [simp, js_simps]: "\<not> js_le NaN y" "\<not> js_le x NaN"
  by (simp_all add: js_le_def)

lemma js_lt_PInf [simp, js_simps]: "\<not> js_lt PInf y" "js_lt (Fin a) PInf"
  by (cases y; simp add: js_lt_def)+

lemma js_le_PInf [simp, js_simps]: "js_le PInf y \<longleftrightarrow> y = PInf" "js_le (Fin a) PInf"
  by (cases y) (simp_all add: js_le_def)

lemma js_lt_le_trans: "js_lt x y \<Longrightarrow> js_le y z \<Longrightarrow> js_lt x z"
  unfolding js_lt_def js_le_def by (blast intro: less_le_trans)

lemma js_lt_asym: "js_lt x y \<Longrightarrow> \<not> js_lt y x"
  by (auto simp: js_lt_def)

text \<open>Division and multiplication by a positive finite number are monotone.\<close>

lemma js_div_mono: "js_le x y \<Longrightarrow> 0 < c \<Longrightarrow> js_le (js_div x (Fin c)) (js_div y (Fin c))"
  by (cases x; cases y) (auto simp: js_le_def inf_of_sign_def divide_right_mono)

lemma js_mul_mono: "js_le x y \<Longrightarrow> 0 < k \<Longrightarrow> js_le (js_mul x (Fin k)) (js_mul y (Fin k))"
  by (cases x; cases y) (auto simp: js_le_def inf_of_sign_def)

lemma js_eq_Fin [simp, js_simps]: "js_eq (Fin a) (Fin b) \<longleftrightarrow> a = b"
  by (simp add: js_eq_def)

lemma js_div_Fin_nz [simp, js_simps]: "b \<noteq> 0 \<Longrightarrow> js_div (Fin a) (Fin b) = Fin (a / b)"
  by simp

lemma js_mul_Fin [js_simps]: "js_mul (Fin a) (Fin b) = Fin (a * b)"
  by simp

lemma js_or_Fin [simp, js_simps]: "js_or (Fin r) y = (if r \<noteq> 0 then Fin r else y)"
  by (simp add: js_or_def)

lemma js_or_NaN [simp, js_simps]: "js_or NaN y = y"
  by (simp add: js_or_def)

lemma js_or_inf [simp, js_simps]: "js_or PInf y = PInf" "js_or NInf y = NInf"
  by (simp_all add: js_or_def)

lemma js_or_not_NaN: "y \<noteq> NaN \<Longrightarrow> js_or x y \<noteq> NaN"
  by (cases x) (simp_all add: js_or_def)

lemma js_mul_pos_not_NaN: "x \<noteq> NaN \<Longrightarrow> 0 < k \<Longrightarrow> js_mul x (Fin k) \<noteq> NaN"
  by (cases x) (simp_all add: inf_of_sign_def)

lemma js_div_not_NaN:
  "b \<noteq> 0 \<Longrightarrow> js_div (Fin a) (Fin b) \<noteq> NaN"
  "a \<noteq> 0 \<Longrightarrow> js_div (Fin a) (Fin b) \<noteq> NaN"
  by (simp_all add: inf_of_sign_def)

lemma js_scaled_quot_not_NaN:
  assumes "a \<noteq> 0" and "0 < k"
  shows "js_mul (js_div (Fin a) (Fin b)) (Fin k) \<noteq> NaN"
  using assms by (cases "b = 0") (auto simp: inf_of_sign_def sgn_if)

lemma is_finite_iff: "is_finite x \<longleftrightarrow> (\<exists>r. x = Fin r)"
  by (cases x) simp_all

lemma js_sum_not_NaN_finite: "\<forall>x \<in> set xs. is_finite x \<Longrightarrow> is_finite (sum_list xs)"
  by (induction xs) (auto simp: is_finite_iff zero_jsnum_def)

text \<open>
  A loop whose body adds \<open>\<delta> x\<close> to a quantity \<open>g\<close> of the state adds the sum of
  the \<open>\<delta> x\<close>: the shape of every accumulator in the analyzers.
\<close>

lemma foldl_additive:
  fixes g :: "'s \<Rightarrow> 'a::comm_monoid_add"
  assumes "\<And>m x. x \<in> set xs \<Longrightarrow> g (f m x) = g m + \<delta> x"
  shows "g (foldl f m xs) = g m + sum_list (map \<delta> xs)"
  using assms by (induction xs arbitrary: m) (simp_all add: add.assoc)

lemma foldl_invariant:
  assumes "P m" and "\<And>m x. x \<in> set xs \<Longrightarrow> P m \<Longrightarrow> P (f m x)"
  shows "P (foldl f m xs)"
  using assms by (induction xs arbitrary: m) simp_all

lemma mset_filter_partition: "mset (filter (\<lambda>x. \<not> P x) xs) + mset (filter P xs) = mset xs"
  by (induction xs) auto

lemma length_filter_mset: "mset xs = mset ys \<Longrightarrow> length (filter P xs) = length (filter P ys)"
  by (metis mset_filter size_mset)

lemma starts_with_iff: "starts_with k s \<longleftrightarrow> (\<exists>t. s = k @ t)"
  by (induction k s rule: starts_with.induct) auto

lemma contains_iff: "contains k s \<longleftrightarrow> (\<exists>p t. s = p @ k @ t)"
proof (induction s)
  case Nil
  then show ?case by simp
next
  case (Cons c s)
  show ?case
  proof
    assume "contains k (c # s)"
    then consider "starts_with k (c # s)" | "contains k s" by auto
    then show "\<exists>p t. c # s = p @ k @ t"
    proof cases
      case 1
      then obtain t where "c # s = k @ t" by (auto simp: starts_with_iff)
      then have "c # s = [] @ k @ t" by simp
      then show ?thesis by blast
    next
      case 2
      with Cons.IH obtain p t where "s = p @ k @ t" by blast
      then have "c # s = (c # p) @ k @ t" by simp
      then show ?thesis by blast
    qed
  next
    assume "\<exists>p t. c # s = p @ k @ t"
    then obtain p t where eq: "c # s = p @ k @ t" by blast
    show "contains k (c # s)"
    proof (cases p)
      case Nil
      with eq have "starts_with k (c # s)" by (auto simp: starts_with_iff)
      then show ?thesis by simp
    next
      case (Cons c' p')
      with eq have "s = p' @ k @ t" by simp
      with Cons.IH show ?thesis by auto
    qed
  qed
qed

lemma contains_append_right [intro]: "contains k s \<Longrightarrow> contains k (s @ t)"
proof -
  assume "contains k s"
  then obtain p t' where "s = p @ k @ t'" by (auto simp: contains_iff)
  then have "s @ t = p @ k @ (t' @ t)" by simp
  then show ?thesis by (auto simp: contains_iff)
qed

lemma contains_self [simp]: "contains k k"
  unfolding contains_iff by (rule exI [of _ "[]"], rule exI [of _ "[]"]) simp

text \<open>A fold that keeps the least (greatest) of the values its steps offer, as \<open>Min\<close>
  (\<open>Max\<close>) of the values seen.\<close>

lemma Min_Max_insert_sel:
  fixes S :: "'a::linorder set"
  assumes "finite S"
  shows "Min (insert (min a b) S) = min a (Min (insert b S))"
    and "Max (insert (max a b) S) = max a (Max (insert b S))"
  using assms by (cases "S = {}"; simp add: min.assoc max.assoc)+

lemma foldl_opt_Min:
  fixes g :: "'s \<Rightarrow> 'a::linorder option"
  assumes "\<And>acc r. g (step acc r) = (case h r of None \<Rightarrow> g acc
                     | Some t \<Rightarrow> Some (case g acc of None \<Rightarrow> t | Some m \<Rightarrow> min t m))"
  shows "g (foldl step acc rs)
         = (if g acc = None \<and> List.map_filter h rs = [] then None
            else Some (Min (set_option (g acc) \<union> set (List.map_filter h rs))))"
proof (induction rs arbitrary: acc)
  case Nil
  then show ?case by (cases "g acc") simp_all
next
  case (Cons r rs)
  show ?case
    using Cons [of "step acc r"] assms [of acc r]
    by (cases "h r"; cases "g acc") (auto simp: map_filter_simps Min_Max_insert_sel)
qed

lemma foldl_opt_Max:
  fixes g :: "'s \<Rightarrow> 'a::linorder option"
  assumes "\<And>acc r. g (step acc r) = (case h r of None \<Rightarrow> g acc
                     | Some t \<Rightarrow> Some (case g acc of None \<Rightarrow> t | Some m \<Rightarrow> max t m))"
  shows "g (foldl step acc rs)
         = (if g acc = None \<and> List.map_filter h rs = [] then None
            else Some (Max (set_option (g acc) \<union> set (List.map_filter h rs))))"
proof (induction rs arbitrary: acc)
  case Nil
  then show ?case by (cases "g acc") simp_all
next
  case (Cons r rs)
  show ?case
    using Cons [of "step acc r"] assms [of acc r]
    by (cases "h r"; cases "g acc") (auto simp: map_filter_simps Min_Max_insert_sel)
qed

end
