(* ===== verification/JsObjects.thy ===== *)
theory JsObjects
  imports Prelude
begin

text \<open>
  Plain JavaScript objects used as dictionaries, and the array operations the analyzers
  apply to their entries.
  \<^item> An object is an association list in insertion order (\<open>'v obj\<close>); its keys are
    distinct. \<open>obj_upsert k init f m\<close> is the code's idiom
    \<open>if (!m[k]) m[k] = init; m[k] = f(m[k])\<close>. A key that names a property inherited
    from \<open>Object.prototype\<close> (\<open>constructor\<close>, \<open>toString\<close>, \<dots>) reads as a truthy
    function, so no entry is created and the update goes to the inherited property: the
    object's own entries are unchanged.
  \<^item> \<open>obj_entries\<close> is \<open>Object.entries\<close>: keys that are array indices (canonical
    decimal integers below \<open>2^32 - 1\<close>) first in ascending numeric order, then the other
    keys in insertion order.
  \<^item> \<open>js_sort_by f\<close> is \<open>xs.sort((a, b) => f(a) - f(b))\<close>. Since ES2019 the sort is
    stable, and with a consistent comparator its result is determined: the stable sort by
    the key. When some key is \<open>NaN\<close> the comparator is inconsistent and the order is
    implementation-defined: the model returns \<open>None\<close>. A refinement theorem below
    shows that \<open>sort_key\<close> is the only result the language specification allows.
\<close>

type_synonym 'v obj = "(string \<times> 'v) list"

section \<open>Objects as dictionaries\<close>

definition proto_names :: "string list" where
  "proto_names = [''constructor'', ''__defineGetter__'', ''__defineSetter__'',
     ''hasOwnProperty'', ''__lookupGetter__'', ''__lookupSetter__'', ''isPrototypeOf'',
     ''propertyIsEnumerable'', ''toString'', ''valueOf'', ''__proto__'', ''toLocaleString'']"

fun obj_upd_own :: "string \<Rightarrow> 'v \<Rightarrow> ('v \<Rightarrow> 'v) \<Rightarrow> 'v obj \<Rightarrow> 'v obj" where
  "obj_upd_own k d f [] = [(k, f d)]"
| "obj_upd_own k d f ((k', v) # m) =
     (if k = k' then (k', f v) # m else (k', v) # obj_upd_own k d f m)"

definition obj_upsert :: "string \<Rightarrow> 'v \<Rightarrow> ('v \<Rightarrow> 'v) \<Rightarrow> 'v obj \<Rightarrow> 'v obj" where
  "obj_upsert k d f m = (if k \<in> set proto_names then m else obj_upd_own k d f m)"

definition obj_keys :: "'v obj \<Rightarrow> string list" where
  "obj_keys m = map fst m"

definition obj_wf :: "'v obj \<Rightarrow> bool" where
  "obj_wf m \<longleftrightarrow> distinct (obj_keys m) \<and> (\<forall>k \<in> set (obj_keys m). k \<notin> set proto_names)"

text \<open>\<open>Object.entries\<close>.\<close>

definition is_array_index :: "string \<Rightarrow> bool" where
  "is_array_index k \<longleftrightarrow>
     k \<noteq> [] \<and> list_all is_digit k \<and> (k = ''0'' \<or> hd k \<noteq> CHR ''0'') \<and> digits_val k < 4294967295"

definition obj_entries :: "'v obj \<Rightarrow> (string \<times> 'v) list" where
  "obj_entries m =
     sort_key (\<lambda>e. digits_val (fst e)) (filter (\<lambda>e. is_array_index (fst e)) m)
     @ filter (\<lambda>e. \<not> is_array_index (fst e)) m"

section \<open>Sorting and slicing\<close>

definition js_sort_by :: "('a \<Rightarrow> jsnum) \<Rightarrow> 'a list \<Rightarrow> 'a list option" where
  "js_sort_by f xs =
     (if list_all (\<lambda>x. f x \<noteq> NaN) xs then Some (sort_key (\<lambda>x. js_key (f x)) xs) else None)"

text \<open>\<open>xs.sort((a, b) => f(b) - f(a))\<close>: descending.\<close>

definition js_sort_desc_by :: "('a \<Rightarrow> jsnum) \<Rightarrow> 'a list \<Rightarrow> 'a list option" where
  "js_sort_desc_by f xs = js_sort_by (\<lambda>x. js_neg (f x)) xs"

text \<open>\<open>xs.slice(-n)\<close> for \<open>n > 0\<close>: the last \<open>n\<close> elements.\<close>

definition slice_last :: "nat \<Rightarrow> 'a list \<Rightarrow> 'a list" where
  "slice_last n xs = drop (length xs - n) xs"

text \<open>\<open>xs[0]\<close>: \<open>undefined\<close> on an empty array.\<close>

definition first_opt :: "'a list \<Rightarrow> 'a option" where
  "first_opt xs = (case xs of [] \<Rightarrow> None | x # _ \<Rightarrow> Some x)"

text \<open>
  What the language specification asks of \<open>sort\<close> with comparator
  \<open>(a, b) => f(a) - f(b)\<close>: a permutation in which no element compares strictly below
  an earlier one (a \<open>NaN\<close> comparison counts as equal), and which keeps the input order
  of elements that compare equal.
\<close>

definition sort_spec :: "('a \<Rightarrow> jsnum) \<Rightarrow> 'a list \<Rightarrow> 'a list \<Rightarrow> bool" where
  "sort_spec f xs ys \<longleftrightarrow>
     mset ys = mset xs
     \<and> sorted_wrt (\<lambda>a b. \<not> js_lt (js_sub (f b) (f a)) (Fin 0)) ys
     \<and> (\<forall>x \<in> set xs. filter (\<lambda>y. js_key (f y) = js_key (f x)) ys
                     = filter (\<lambda>y. js_key (f y) = js_key (f x)) xs)"

text \<open>
  Sums over the values of an object: an upsert whose update adds \<open>\<delta>\<close> to a field, with
  an initial value whose field is zero, adds \<open>\<delta>\<close> to the sum of that field.
\<close>

definition obj_sum :: "('v \<Rightarrow> 'a::comm_monoid_add) \<Rightarrow> 'v obj \<Rightarrow> 'a" where
  "obj_sum g m = sum_list (map (\<lambda>e. g (snd e)) m)"

section \<open>Lemmas on objects\<close>

lemma obj_upd_own_fst [simp]:
  "fst ` set (obj_upd_own k d f m) = insert k (fst ` set m)"
  by (induction k d f m rule: obj_upd_own.induct) auto

lemma obj_upd_own_keys [simp]:
  "set (obj_keys (obj_upd_own k d f m)) = insert k (set (obj_keys m))"
  by (simp add: obj_keys_def)

lemma obj_upd_own_distinct:
  "distinct (obj_keys m) \<Longrightarrow> distinct (obj_keys (obj_upd_own k d f m))"
  by (induction k d f m rule: obj_upd_own.induct) (auto simp: obj_keys_def)

lemma obj_upsert_wf [intro]: "obj_wf m \<Longrightarrow> obj_wf (obj_upsert k d f m)"
  by (auto simp: obj_wf_def obj_upsert_def obj_upd_own_distinct)

text \<open>Insert/lookup: after an upsert the key holds the updated value, other keys keep theirs.\<close>

lemma map_of_obj_upd_own:
  "map_of (obj_upd_own k d f m) = (map_of m)(k \<mapsto> f (case map_of m k of None \<Rightarrow> d | Some v \<Rightarrow> v))"
  by (induction k d f m rule: obj_upd_own.induct) (auto simp: fun_eq_iff)

lemma map_of_obj_upsert:
  "map_of (obj_upsert k d f m) =
     (if k \<in> set proto_names then map_of m
      else (map_of m)(k \<mapsto> f (case map_of m k of None \<Rightarrow> d | Some v \<Rightarrow> v)))"
  by (simp add: obj_upsert_def map_of_obj_upd_own)

lemma obj_sum_Nil [simp]: "obj_sum g [] = 0"
  by (simp add: obj_sum_def)

lemma obj_sum_upd_own:
  assumes "\<And>v. g (f v) = g v + \<delta>" and "g d = 0"
  shows "obj_sum g (obj_upd_own k d f m) = obj_sum g m + \<delta>"
  using assms
  by (induction k d f m rule: obj_upd_own.induct) (simp_all add: obj_sum_def add_ac)

lemma obj_sum_upsert:
  assumes "\<And>v. g (f v) = g v + \<delta>" and "g d = 0" and "k \<notin> set proto_names"
  shows "obj_sum g (obj_upsert k d f m) = obj_sum g m + \<delta>"
  using assms by (simp add: obj_upsert_def obj_sum_upd_own)

lemma obj_sum_upsert_proto:
  "k \<in> set proto_names \<Longrightarrow> obj_sum g (obj_upsert k d f m) = obj_sum g m"
  by (simp add: obj_upsert_def)

lemma mset_obj_entries: "mset (obj_entries m) = mset m"
  by (simp add: obj_entries_def)

lemma obj_sum_entries: "sum_list (map (\<lambda>e. g (snd e)) (obj_entries m)) = obj_sum g m"
proof -
  have "mset (map (\<lambda>e. g (snd e)) (obj_entries m)) = mset (map (\<lambda>e. g (snd e)) m)"
    by (simp add: mset_obj_entries)
  then show ?thesis
    unfolding obj_sum_def by (metis sum_mset_sum_list)
qed

section \<open>Lemmas on sorting\<close>

lemma js_cmp_neg_iff:
  assumes "x \<noteq> NaN" and "y \<noteq> NaN"
  shows "js_lt (js_sub y x) (Fin 0) \<longleftrightarrow> js_key y < js_key x"
  using assms by (cases x; cases y) (auto simp: js_sub_def js_lt_def)

lemma sorted_wrt_cmp_iff:
  assumes "\<forall>y \<in> set ys. f y \<noteq> NaN"
  shows "sorted_wrt (\<lambda>a b. \<not> js_lt (js_sub (f b) (f a)) (Fin 0)) ys
         \<longleftrightarrow> sorted (map (\<lambda>x. js_key (f x)) ys)"
  using assms by (simp add: sorted_map sorted_wrt_iff_nth_less js_cmp_neg_iff not_less)

text \<open>
  Refinement: on keys without \<open>NaN\<close>, a list satisfies the language's specification of
  \<open>sort\<close> exactly when it is the model's result, so the model's choice of
  \<open>sort_key\<close> is forced.
\<close>

theorem js_sort_by_refines:
  assumes nan: "list_all (\<lambda>x. f x \<noteq> NaN) xs"
  shows "sort_spec f xs ys \<longleftrightarrow> js_sort_by f xs = Some ys"
proof
  assume spec: "sort_spec f xs ys"
  then have ms: "mset ys = mset xs" by (simp add: sort_spec_def)
  then have set_eq: "set ys = set xs" by (metis set_mset_mset)
  have "sorted (map (\<lambda>x. js_key (f x)) ys)"
    using spec nan set_eq sorted_wrt_cmp_iff [of ys f] by (simp add: sort_spec_def list_all_iff)
  moreover have "filter (\<lambda>x. js_key (f k) = js_key (f x)) ys
                 = filter (\<lambda>x. js_key (f k) = js_key (f x)) xs" if "k \<in> set ys" for k
  proof -
    from that set_eq have "k \<in> set xs" by simp
    with spec have "filter (\<lambda>y. js_key (f y) = js_key (f k)) ys
                    = filter (\<lambda>y. js_key (f y) = js_key (f k)) xs"
      by (simp add: sort_spec_def)
    moreover have "(\<lambda>x. js_key (f k) = js_key (f x)) = (\<lambda>y. js_key (f y) = js_key (f k))"
      by auto
    ultimately show ?thesis by simp
  qed
  ultimately have "sort_key (\<lambda>x. js_key (f x)) xs = ys"
    using ms by (blast intro: properties_for_sort_key)
  with nan show "js_sort_by f xs = Some ys" by (simp add: js_sort_by_def)
next
  assume "js_sort_by f xs = Some ys"
  with nan have ys: "ys = sort_key (\<lambda>x. js_key (f x)) xs"
    by (simp add: js_sort_by_def split: if_splits)
  have "mset ys = mset xs" by (simp add: ys)
  moreover have "sorted_wrt (\<lambda>a b. \<not> js_lt (js_sub (f b) (f a)) (Fin 0)) ys"
    using sorted_wrt_cmp_iff [of ys f] nan by (simp add: ys list_all_iff sorted_sort_key)
  moreover have "\<forall>x \<in> set xs. filter (\<lambda>y. js_key (f y) = js_key (f x)) ys
                   = filter (\<lambda>y. js_key (f y) = js_key (f x)) xs"
    by (simp add: ys sort_key_stable)
  ultimately show "sort_spec f xs ys" by (simp add: sort_spec_def)
qed

lemma js_sort_by_Some:
  "list_all (\<lambda>x. f x \<noteq> NaN) xs \<Longrightarrow> js_sort_by f xs = Some (sort_key (\<lambda>x. js_key (f x)) xs)"
  by (simp add: js_sort_by_def)

lemma js_sort_by_mset: "js_sort_by f xs = Some ys \<Longrightarrow> mset ys = mset xs"
proof -
  assume "js_sort_by f xs = Some ys"
  then have "ys = sort_key (\<lambda>x. js_key (f x)) xs"
    by (simp add: js_sort_by_def split: if_splits)
  then show ?thesis by simp
qed

lemma js_sort_by_set: "js_sort_by f xs = Some ys \<Longrightarrow> set ys = set xs"
  by (metis js_sort_by_mset mset_eq_setD)

lemma set_obj_entries: "set (obj_entries m) = set m"
  by (metis mset_obj_entries mset_eq_setD)

lemma js_sort_by_take_drop:
  assumes "js_sort_by f xs = Some s" and "x \<in> set (take k s)" and "y \<in> set (drop k s)"
  shows "js_le (f x) (f y)"
proof -
  from assms(1) have nan: "list_all (\<lambda>x. f x \<noteq> NaN) xs" and s: "s = sort_key (\<lambda>x. js_key (f x)) xs"
    by (simp_all add: js_sort_by_def split: if_splits)
  have "sorted (map (\<lambda>x. js_key (f x)) s)" by (simp add: s sorted_sort_key)
  then have "sorted (map (\<lambda>x. js_key (f x)) (take k s) @ map (\<lambda>x. js_key (f x)) (drop k s))"
    by (metis append_take_drop_id map_append)
  then have "js_key (f x) \<le> js_key (f y)"
    using assms(2,3) by (auto simp: sorted_append)
  moreover have "x \<in> set xs" "y \<in> set xs"
    using assms(2,3) s by (auto dest: in_set_takeD in_set_dropD)
  ultimately show ?thesis using nan by (auto simp: js_le_def list_all_iff)
qed

lemma js_sort_by_sorted:
  assumes "js_sort_by f xs = Some ys"
  shows "sorted_wrt (\<lambda>x y. js_le (f x) (f y)) ys"
  unfolding sorted_wrt_iff_nth_less
proof (intro allI impI)
  fix i j assume ij: "i < j" "j < length ys"
  then have "ys ! i \<in> set (take j ys)" by (metis in_set_conv_nth length_take min.absorb2 less_imp_le nth_take)
  moreover from ij have "ys ! j \<in> set (drop j ys)" by (metis Cons_nth_drop_Suc list.set_intros(1))
  ultimately show "js_le (f (ys ! i)) (f (ys ! j))" using js_sort_by_take_drop [OF assms] by blast
qed

text \<open>Two keys that order the elements alike sort alike.\<close>

lemma insort_key_order_cong:
  assumes "\<And>x y. h x \<le> h y \<longleftrightarrow> g x \<le> g y"
  shows "insort_key h a xs = insort_key g a xs"
  using assms by (induction xs) auto

lemma sort_key_order_cong:
  assumes "\<And>x y. h x \<le> h y \<longleftrightarrow> g x \<le> g y"
  shows "sort_key h xs = sort_key g xs"
  using assms by (induction xs) (simp_all add: insort_key_order_cong [of h g])

lemma js_sort_by_Fin:
  "js_sort_by (\<lambda>x. Fin (g x)) xs = Some (sort_key g xs)"
proof -
  have "sort_key (\<lambda>x. js_key (Fin (g x))) xs = sort_key g xs"
    by (rule sort_key_order_cong) simp
  then show ?thesis by (simp add: js_sort_by_def list_all_iff)
qed

theorem js_sort_by_refines_witness:
  "js_sort_by (\<lambda>x. Fin x) [3, 1, 2::real] = Some [1, 2, 3]"
proof -
  have h: "list_all (\<lambda>x. Fin x \<noteq> NaN) [3, 1, 2::real]" by simp
  have "sort_spec (\<lambda>x. Fin x) [3, 1, 2::real] [1, 2, 3]"
    by (simp add: sort_spec_def js_sub_def)
  with js_sort_by_refines [OF h] show ?thesis by blast
qed

end
