(* ===== verification/Normalizer.thy ===== *)
theory Normalizer
  imports JsObjects
begin

text \<open>
  The record normalizer: how the analyzers read one CSV row. There is no normalizing
  function in the source; every analyzer reads the raw PapaParse row in place, with
  \<open>parseFloat(row[col]) || 0\<close> for numbers and \<open>row[col] || default\<close> for text
  (src/analyzer-comparative.js \<open>calculateDeepMetrics\<close>, src/analyzer-generic.js
  \<open>calculateMetrics\<close>, src/analyzer.js). The definitions here are those expressions.
  \<^item> \<open>cell\<close> is the value PapaParse puts in a numeric column: a number or boolean (with
    \<open>dynamicTyping\<close>), a string, or nothing (\<open>null\<close> or \<open>undefined\<close>).
  \<^item> \<open>parse_float\<close> is \<open>parseFloat\<close>: leading white space skipped, then the longest
    prefix that is a decimal literal (sign, \<open>Infinity\<close>, digits, fraction, exponent);
    \<open>NaN\<close> if there is none. Values are exact (no rounding to double).
  \<^item> \<open>num_or_zero\<close> is \<open>parseFloat(x) || 0\<close>.
  \<^item> Text columns are strings, the empty string standing for a missing value;
    \<open>js_or_str\<close> is \<open>s || default\<close>.
\<close>

datatype cell = CNum real | CStr string | CBool bool | CNone

section \<open>parseFloat\<close>

definition is_js_space :: "char \<Rightarrow> bool" where
  "is_js_space c \<longleftrightarrow> (of_char c :: nat) \<in> {9, 10, 11, 12, 13, 32, 160}"

definition exp_value :: "real \<Rightarrow> int \<Rightarrow> real" where
  "exp_value m e = (if 0 \<le> e then m * 10 ^ nat e else m / 10 ^ nat (- e))"

text \<open>The exponent part \<open>(e|E)[+-]?digits\<close>, if the string starts with one.\<close>

definition scan_exponent :: "string \<Rightarrow> int option" where
  "scan_exponent s =
     (case s of
        [] \<Rightarrow> None
      | c # r \<Rightarrow>
          if c = CHR ''e'' \<or> c = CHR ''E'' then
            (let (sg, r') = (case r of
                               d # r'' \<Rightarrow> if d = CHR ''+'' then (1::int, r'')
                                          else if d = CHR ''-'' then (-1, r'') else (1, r)
                             | [] \<Rightarrow> (1, r));
                 ds = takeWhile is_digit r'
             in if ds = [] then None else Some (sg * int (digits_val ds)))
          else None)"

text \<open>The value of the longest StrUnsignedDecimalLiteral prefix.\<close>

definition scan_unsigned :: "string \<Rightarrow> jsnum option" where
  "scan_unsigned s =
     (if starts_with ''Infinity'' s then Some PInf
      else
        let ip = takeWhile is_digit s;
            r1 = dropWhile is_digit s;
            (fp, r2) = (case r1 of
                          c # r \<Rightarrow> if c = CHR ''.'' then (takeWhile is_digit r, dropWhile is_digit r)
                                   else ([], r1)
                        | [] \<Rightarrow> ([], []))
        in if ip = [] \<and> fp = [] then None
           else
             let m = real (digits_val (ip @ fp)) / 10 ^ length fp
             in Some (Fin (case scan_exponent r2 of None \<Rightarrow> m | Some e \<Rightarrow> exp_value m e)))"

definition parse_float_str :: "string \<Rightarrow> jsnum" where
  "parse_float_str s =
     (let t = dropWhile is_js_space s;
          r = (case t of
                 c # u \<Rightarrow> if c = CHR ''+'' then scan_unsigned u
                          else if c = CHR ''-'' then map_option js_neg (scan_unsigned u)
                          else scan_unsigned t
               | [] \<Rightarrow> None)
      in case r of None \<Rightarrow> NaN | Some v \<Rightarrow> v)"

fun parse_float :: "cell \<Rightarrow> jsnum" where
  "parse_float (CNum r) = Fin r"
| "parse_float (CStr s) = parse_float_str s"
| "parse_float (CBool b) = NaN"
| "parse_float CNone = NaN"

definition num_or_zero :: "cell \<Rightarrow> jsnum" where
  "num_or_zero c = js_or (parse_float c) (Fin 0)"

text \<open>Truthiness of a cell (\<open>row[col] && ...\<close>).\<close>

fun cell_truthy :: "cell \<Rightarrow> bool" where
  "cell_truthy (CNum r) = (r \<noteq> 0)"
| "cell_truthy (CStr s) = (s \<noteq> [])"
| "cell_truthy (CBool b) = b"
| "cell_truthy CNone = False"

definition js_or_str :: "string \<Rightarrow> string \<Rightarrow> string" where
  "js_or_str s d = (if s = [] then d else s)"

section \<open>Rows\<close>

text \<open>
  One PapaParse row, by the columns the analyzers read: \<open>Nombre del anuncio\<close>,
  \<open>Tipo de resultado\<close>, \<open>Inicio\<close>, \<open>Importe gastado (USD)\<close>, \<open>Resultados\<close>,
  \<open>Alcance\<close>, \<open>Impresiones\<close>, \<open>Clics (todos)\<close>, \<open>CTR (todos)\<close>, \<open>Edad\<close>,
  \<open>Sexo\<close>, \<open>Estado de la entrega\<close>, and the report columns \<open>Inicio del informe\<close>,
  \<open>Fin del informe\<close> and \<open>Fin\<close> that the generic analyzer's date detection reads.
\<close>

record row =
  ad_name :: string
  result_type :: string
  start_date :: string
  spend_cell :: cell
  results_cell :: cell
  reach_cell :: cell
  impressions_cell :: cell
  clicks_cell :: cell
  ctr_cell :: cell
  age :: string
  sex :: string
  delivery :: string
  report_start :: string
  report_end :: string
  end_date :: string

definition row_spend :: "row \<Rightarrow> jsnum" where
  "row_spend r = num_or_zero (spend_cell r)"

definition row_results :: "row \<Rightarrow> jsnum" where
  "row_results r = num_or_zero (results_cell r)"

definition row_reach :: "row \<Rightarrow> jsnum" where
  "row_reach r = num_or_zero (reach_cell r)"

definition row_impressions :: "row \<Rightarrow> jsnum" where
  "row_impressions r = num_or_zero (impressions_cell r)"

definition row_clicks :: "row \<Rightarrow> jsnum" where
  "row_clicks r = num_or_zero (clicks_cell r)"

text \<open>\<open>row['Sexo'] === 'male' ? 'Hombres' : row['Sexo'] === 'female' ? 'Mujeres' : 'Otro'\<close>\<close>

definition gender_label :: "string \<Rightarrow> string" where
  "gender_label s = (if s = ''male'' then ''Hombres'' else if s = ''female'' then ''Mujeres'' else ''Otro'')"

lemmas row_num_defs = row_spend_def row_results_def row_reach_def row_impressions_def row_clicks_def

text \<open>Digits, decimal rendering of naturals.\<close>

definition digit_char :: "nat \<Rightarrow> char" where
  "digit_char d = char_of (48 + d)"

fun show_nat :: "nat \<Rightarrow> string" where
  "show_nat n = (if n < 10 then [digit_char n] else show_nat (n div 10) @ [digit_char (n mod 10)])"

declare show_nat.simps [simp del]

section \<open>Properties of the number reading\<close>

text \<open>The zero fallback: a number read from a row is never \<open>NaN\<close>.\<close>

lemma num_or_zero_not_NaN [simp]: "num_or_zero c \<noteq> NaN"
  by (simp add: num_or_zero_def js_or_not_NaN)

lemma row_nums_not_NaN [simp]:
  "row_spend r \<noteq> NaN" "row_results r \<noteq> NaN" "row_reach r \<noteq> NaN"
  "row_impressions r \<noteq> NaN" "row_clicks r \<noteq> NaN"
  by (simp_all add: row_num_defs)

lemma num_or_zero_missing [simp]: "num_or_zero CNone = Fin 0" "num_or_zero (CStr []) = Fin 0"
  by (simp_all add: num_or_zero_def parse_float_str_def)

lemma num_or_zero_CNum [simp]: "num_or_zero (CNum r) = Fin r"
  by (simp add: num_or_zero_def)

lemma digit_char_props [simp]:
  "d < 10 \<Longrightarrow> is_digit (digit_char d)" "d < 10 \<Longrightarrow> digit_val (digit_char d) = d"
  by (simp_all add: digit_char_def is_digit_def digit_val_def)

lemma digits_val_snoc [simp]: "digits_val (ds @ [c]) = 10 * digits_val ds + digit_val c"
  by (simp add: digits_val_def)

lemma show_nat_nonempty: "show_nat n \<noteq> []"
  by (subst show_nat.simps) simp

lemma show_nat_digits: "list_all is_digit (show_nat n)"
proof (induction n rule: show_nat.induct)
  case (1 n)
  then show ?case by (subst show_nat.simps) simp
qed

lemma digits_val_show_nat: "digits_val (show_nat n) = n"
proof (induction n rule: show_nat.induct)
  case (1 n)
  show ?case
  proof (cases "n < 10")
    case True
    then show ?thesis
      by (subst show_nat.simps) (simp add: digits_val_def)
  next
    case False
    with "1.IH" show ?thesis
      by (subst show_nat.simps) simp
  qed
qed

lemma takeWhile_digits_prefix:
  assumes "list_all is_digit ds" and "t = [] \<or> \<not> is_digit (hd t)"
  shows "takeWhile is_digit (ds @ t) = ds" and "dropWhile is_digit (ds @ t) = t"
proof -
  from assms(2) have "takeWhile is_digit t = [] \<and> dropWhile is_digit t = t"
    by (cases t) auto
  with assms(1) show "takeWhile is_digit (ds @ t) = ds" and "dropWhile is_digit (ds @ t) = t"
    by (induction ds) auto
qed

lemma digit_not_special:
  assumes "is_digit c"
  shows "\<not> is_js_space c" "c \<noteq> CHR ''+''" "c \<noteq> CHR ''-''" "c \<noteq> CHR ''I''" "c \<noteq> CHR ''.''"
    "c \<noteq> CHR ''e''" "c \<noteq> CHR ''E''"
  using assms by (auto simp: is_digit_def is_js_space_def)

lemma scan_exponent_other: "t = [] \<or> hd t \<notin> {CHR ''e'', CHR ''E''} \<Longrightarrow> scan_exponent t = None"
  by (cases t) (auto simp: scan_exponent_def)

lemma scan_unsigned_digits_prefix:
  assumes ds: "ds \<noteq> []" "list_all is_digit ds"
    and t: "t = [] \<or> (\<not> is_digit (hd t) \<and> hd t \<notin> {CHR ''.'', CHR ''e'', CHR ''E''})"
  shows "scan_unsigned (ds @ t) = Some (Fin (real (digits_val ds)))"
proof -
  from ds obtain c ds' where c: "ds = c # ds'" "is_digit c" by (cases ds) auto
  have ninf: "\<not> starts_with ''Infinity'' (ds @ t)"
    using c digit_not_special(4) [of c] by simp
  from t have tdig: "t = [] \<or> \<not> is_digit (hd t)" by auto
  note tw = takeWhile_digits_prefix [OF ds(2) tdig]
  have split: "(case t of c # r \<Rightarrow> if c = CHR ''.'' then (takeWhile is_digit r, dropWhile is_digit r)
                   else ([], t) | [] \<Rightarrow> ([], [])) = ([], t)"
    using t by (cases t) auto
  have "scan_exponent t = None"
    using t by (intro scan_exponent_other) auto
  then show ?thesis
    using ninf tw split ds by (simp add: scan_unsigned_def Let_def)
qed

lemma parse_float_digits_prefix:
  assumes "ds \<noteq> []" "list_all is_digit ds"
    and "t = [] \<or> (\<not> is_digit (hd t) \<and> hd t \<notin> {CHR ''.'', CHR ''e'', CHR ''E''})"
  shows "parse_float_str (ds @ t) = Fin (real (digits_val ds))"
proof -
  from assms(1,2) obtain c ds' where c: "ds = c # ds'" "is_digit c" by (cases ds) auto
  then have "dropWhile is_js_space (ds @ t) = ds @ t"
    using digit_not_special(1) by simp
  moreover have "scan_unsigned (ds @ t) = Some (Fin (real (digits_val ds)))"
    using assms by (rule scan_unsigned_digits_prefix)
  ultimately show ?thesis
    using c digit_not_special(2,3) [of c] by (simp add: parse_float_str_def)
qed

text \<open>
  Round trip: \<open>parseFloat\<close> reads back the decimal rendering of every natural
  number.
\<close>

theorem parse_float_show_nat: "parse_float_str (show_nat n) = Fin (real n)"
  using parse_float_digits_prefix [of "show_nat n" "[]"]
  by (simp add: show_nat_nonempty show_nat_digits digits_val_show_nat)

text \<open>
  A number written with a decimal comma, as Spanish-locale exports do, is cut at the comma:
  \<open>parseFloat("12,50")\<close> is 12, not 12.5, and no error is reported.
\<close>

theorem parse_float_decimal_comma: "num_or_zero (CStr ''12,50'') = Fin 12"
proof -
  have "parse_float_str (''12'' @ '',50'') = Fin (real (digits_val ''12''))"
    by (rule parse_float_digits_prefix) (simp_all add: is_digit_def)
  then show ?thesis by (simp add: num_or_zero_def digits_val_def digit_val_def)
qed

end
