(* ===== verification/Dates.thy ===== *)
theory Dates
  imports Normalizer
begin

text \<open>
  The JavaScript \<open>Date\<close> operations the period classifiers use.
  \<^item> A \<open>Date\<close> object holds a time value: milliseconds since 1970-01-01 UTC, or
    \<open>NaN\<close> (an Invalid Date): \<open>jsdate\<close>.
  \<^item> \<open>make_day\<close> is ECMAScript's MakeDay on integers, through the days-from-civil
    count of the proleptic Gregorian calendar; months outside 0..11 roll over into the
    year, days outside the month roll over into the next.
  \<^item> Local time is UTC plus a fixed offset \<open>tz\<close> in milliseconds (daylight saving
    time is not modelled): \<open>new Date(y, m, d)\<close> is local midnight, \<open>date_local\<close>.
  \<^item> \<open>to_number_str\<close> is ToNumber on strings (\<open>"15" - 1\<close>): white space trimmed,
    the empty string is 0, a decimal or \<open>0x\<close>/\<open>0o\<close>/\<open>0b\<close> literal is its value,
    anything else \<open>NaN\<close>.
  \<^item> \<open>date_parse host s\<close> is \<open>new Date(s)\<close>: strings in the ISO format
    \<open>YYYY[-MM[-DD]][THH:mm[:ss[.sss]][Z|+HH:mm|-HH:mm]]\<close> with valid fields are read
    as the language specification says (date-only forms as UTC, date-time forms without
    offset as local time); every other string goes to the engine's own parser, which the
    model leaves as the parameter \<open>host\<close>, so that the theorems hold for every engine.
\<close>

datatype jsdate = Invalid | TV int

section \<open>Calendar arithmetic\<close>

definition ms_per_day :: int where
  "ms_per_day = 86400000"

definition days_from_civil :: "int \<Rightarrow> int \<Rightarrow> int \<Rightarrow> int" where
  "days_from_civil y m d =
     (let y' = (if m \<le> 2 then y - 1 else y);
          era = y' div 400;
          yoe = y' - era * 400;
          mp = (if 2 < m then m - 3 else m + 9);
          doy = (153 * mp + 2) div 5 + d - 1;
          doe = yoe * 365 + yoe div 4 - yoe div 100 + doy
      in era * 146097 + doe - 719468)"

text \<open>MakeDay(year, month, date) for integer arguments; \<open>month\<close> counts from 0.\<close>

definition make_day :: "int \<Rightarrow> int \<Rightarrow> int \<Rightarrow> int" where
  "make_day y mo d = days_from_civil (y + mo div 12) (mo mod 12 + 1) 1 + d - 1"

definition is_leap :: "int \<Rightarrow> bool" where
  "is_leap y \<longleftrightarrow> (y mod 4 = 0 \<and> y mod 100 \<noteq> 0) \<or> y mod 400 = 0"

definition days_in_month :: "int \<Rightarrow> int \<Rightarrow> int" where
  "days_in_month y m =
     (if m = 2 then (if is_leap y then 29 else 28)
      else if m \<in> {4, 6, 9, 11} then 30 else 31)"

text \<open>TimeClip: time values beyond 8.64e15 ms are \<open>NaN\<close>.\<close>

definition time_clip :: "int \<Rightarrow> jsdate" where
  "time_clip t = (if \<bar>t\<bar> \<le> 8640000000000000 then TV t else Invalid)"

text \<open>ToIntegerOrInfinity on finite numbers: truncation towards zero.\<close>

definition js_trunc :: "real \<Rightarrow> int" where
  "js_trunc r = (if 0 \<le> r then \<lfloor>r\<rfloor> else \<lceil>r\<rceil>)"

text \<open>\<open>new Date(year, month, date)\<close> in local time: years 0..99 mean 1900..1999.\<close>

fun date_local :: "int \<Rightarrow> jsnum \<Rightarrow> jsnum \<Rightarrow> jsnum \<Rightarrow> jsdate" where
  "date_local tz (Fin y) (Fin m) (Fin d) =
     (let yi = js_trunc y; yr = (if 0 \<le> yi \<and> yi \<le> 99 then 1900 + yi else yi)
      in time_clip (make_day yr (js_trunc m) (js_trunc d) * ms_per_day - tz))"
| "date_local tz y m d = Invalid"

section \<open>ToNumber on strings\<close>

definition is_exponent_part :: "string \<Rightarrow> bool" where
  "is_exponent_part s =
     (case s of
        [] \<Rightarrow> False
      | c # r \<Rightarrow> (c = CHR ''e'' \<or> c = CHR ''E'') \<and>
          (let ds = (case r of [] \<Rightarrow> [] | d # q \<Rightarrow> if d = CHR ''+'' \<or> d = CHR ''-'' then q else r)
           in ds \<noteq> [] \<and> list_all is_digit ds))"

text \<open>The whole string is a StrUnsignedDecimalLiteral.\<close>

definition is_unsigned_decimal :: "string \<Rightarrow> bool" where
  "is_unsigned_decimal s \<longleftrightarrow>
     s = ''Infinity'' \<or>
     (let ip = takeWhile is_digit s;
          r1 = dropWhile is_digit s;
          (fp, r2) = (case r1 of
                        c # r \<Rightarrow> if c = CHR ''.'' then (takeWhile is_digit r, dropWhile is_digit r)
                                 else ([], r1)
                      | [] \<Rightarrow> ([], []))
      in (ip \<noteq> [] \<or> fp \<noteq> []) \<and> (r2 = [] \<or> is_exponent_part r2))"

definition is_str_decimal :: "string \<Rightarrow> bool" where
  "is_str_decimal s =
     (case s of
        [] \<Rightarrow> False
      | c # r \<Rightarrow> if c = CHR ''+'' \<or> c = CHR ''-'' then is_unsigned_decimal r else is_unsigned_decimal s)"

definition hex_val :: "char \<Rightarrow> nat option" where
  "hex_val c =
     (let n = (of_char c :: nat)
      in if 48 \<le> n \<and> n \<le> 57 then Some (n - 48)
         else if 97 \<le> n \<and> n \<le> 102 then Some (n - 87)
         else if 65 \<le> n \<and> n \<le> 70 then Some (n - 55)
         else None)"

fun radix_digits :: "nat \<Rightarrow> nat \<Rightarrow> string \<Rightarrow> nat option" where
  "radix_digits b acc [] = Some acc"
| "radix_digits b acc (c # s) =
     (case hex_val c of
        Some v \<Rightarrow> if v < b then radix_digits b (b * acc + v) s else None
      | None \<Rightarrow> None)"

text \<open>NonDecimalIntegerLiteral: \<open>0x\<close>, \<open>0o\<close>, \<open>0b\<close> and at least one digit.\<close>

definition radix_literal :: "string \<Rightarrow> nat option" where
  "radix_literal s =
     (case s of
        z # p # ds \<Rightarrow>
          if z = CHR ''0'' \<and> ds \<noteq> [] then
            (if p = CHR ''x'' \<or> p = CHR ''X'' then radix_digits 16 0 ds
             else if p = CHR ''o'' \<or> p = CHR ''O'' then radix_digits 8 0 ds
             else if p = CHR ''b'' \<or> p = CHR ''B'' then radix_digits 2 0 ds
             else None)
          else None
      | _ \<Rightarrow> None)"

definition trim_js :: "string \<Rightarrow> string" where
  "trim_js s = rev (dropWhile is_js_space (rev (dropWhile is_js_space s)))"

definition to_number_str :: "string \<Rightarrow> jsnum" where
  "to_number_str s =
     (let t = trim_js s
      in if t = [] then Fin 0
         else if is_str_decimal t then parse_float_str t
         else case radix_literal t of Some n \<Rightarrow> Fin (real n) | None \<Rightarrow> NaN)"

section \<open>String splitting\<close>

text \<open>\<open>s.split(c)\<close> for a one-character separator: empty pieces are kept.\<close>

fun split_on :: "char \<Rightarrow> string \<Rightarrow> string list" where
  "split_on c [] = [[]]"
| "split_on c (x # xs) =
     (if x = c then [] # split_on c xs
      else (let ps = split_on c xs in (x # hd ps) # tl ps))"

section \<open>Date strings\<close>

text \<open>\<open>n\<close> decimal digits at the front of a string, and what follows.\<close>

definition take_digits :: "nat \<Rightarrow> string \<Rightarrow> (int \<times> string) option" where
  "take_digits n s =
     (if n \<le> length s \<and> list_all is_digit (take n s)
      then Some (int (digits_val (take n s)), drop n s) else None)"

text \<open>\<open>YYYY[-MM[-DD]]\<close>; a missing month or day is 1.\<close>

definition iso_date_part :: "string \<Rightarrow> ((int \<times> int \<times> int) \<times> string) option" where
  "iso_date_part s =
     (case take_digits 4 s of
        None \<Rightarrow> None
      | Some (y, r) \<Rightarrow>
          (case r of
             c # r' \<Rightarrow>
               if c = CHR ''-'' then
                 (case take_digits 2 r' of
                    None \<Rightarrow> None
                  | Some (m, r2) \<Rightarrow>
                      (case r2 of
                         c2 # r3 \<Rightarrow>
                           if c2 = CHR ''-'' then
                             (case take_digits 2 r3 of
                                None \<Rightarrow> None
                              | Some (d, r4) \<Rightarrow> Some ((y, m, d), r4))
                           else Some ((y, m, 1), r2)
                       | [] \<Rightarrow> Some ((y, m, 1), [])))
               else Some ((y, 1, 1), r)
           | [] \<Rightarrow> Some ((y, 1, 1), [])))"

text \<open>\<open>Z\<close>, \<open>+HH:mm\<close>, \<open>-HH:mm\<close> (offset in milliseconds east of UTC) or nothing.\<close>

definition iso_offset :: "string \<Rightarrow> int option option" where
  "iso_offset s =
     (case s of
        [] \<Rightarrow> Some None
      | c # r \<Rightarrow>
          if c = CHR ''Z'' \<and> r = [] then Some (Some 0)
          else if c = CHR ''+'' \<or> c = CHR ''-'' then
            (case take_digits 2 r of
               None \<Rightarrow> None
             | Some (h, r2) \<Rightarrow>
                 (case r2 of
                    c2 # r3 \<Rightarrow>
                      if c2 = CHR '':'' then
                        (case take_digits 2 r3 of
                           Some (mi, []) \<Rightarrow>
                             if h \<le> 23 \<and> mi \<le> 59
                             then Some (Some ((if c = CHR ''+'' then 1 else -1) * (h * 60 + mi) * 60000))
                             else None
                         | _ \<Rightarrow> None)
                      else None
                  | [] \<Rightarrow> None))
          else None)"

text \<open>\<open>HH:mm[:ss[.sss]]\<close> then the offset: milliseconds into the day and the offset.\<close>

definition iso_time_part :: "string \<Rightarrow> (int \<times> int option) option" where
  "iso_time_part s =
     (case take_digits 2 s of
        None \<Rightarrow> None
      | Some (h, r) \<Rightarrow>
          (case r of
             c # r1 \<Rightarrow>
               if c \<noteq> CHR '':'' then None
               else
                 (case take_digits 2 r1 of
                    None \<Rightarrow> None
                  | Some (mi, r2) \<Rightarrow>
                      (let (sec, r3) = (case r2 of
                                          c3 # r' \<Rightarrow> if c3 = CHR '':'' then
                                                       (case take_digits 2 r' of
                                                          Some (sv, r'') \<Rightarrow> (Some sv, r'')
                                                        | None \<Rightarrow> (None, r2))
                                                     else (Some 0, r2)
                                        | [] \<Rightarrow> (Some 0, r2));
                           (msv, r4) = (case r3 of
                                          c4 # r' \<Rightarrow> if c4 = CHR ''.'' then
                                                       (case take_digits 3 r' of
                                                          Some (v, r'') \<Rightarrow> (Some v, r'')
                                                        | None \<Rightarrow> (None, r3))
                                                     else (Some 0, r3)
                                        | [] \<Rightarrow> (Some 0, r3))
                       in case (sec, msv, iso_offset r4) of
                            (Some sv, Some v, Some off) \<Rightarrow>
                              if (h < 24 \<and> mi \<le> 59 \<and> sv \<le> 59)
                                 \<or> (h = 24 \<and> mi = 0 \<and> sv = 0 \<and> v = 0)
                              then Some (((h * 60 + mi) * 60 + sv) * 1000 + v, off)
                              else None
                          | _ \<Rightarrow> None))
           | [] \<Rightarrow> None))"

text \<open>
  A string of the ISO format with valid fields: date-only forms are UTC, date-time forms
  local time (\<open>tz\<close>) unless they carry an offset. \<open>None\<close> for every other string.
\<close>

definition iso_parse :: "int \<Rightarrow> string \<Rightarrow> jsdate option" where
  "iso_parse tz s =
     (case iso_date_part s of
        None \<Rightarrow> None
      | Some ((y, m, d), r) \<Rightarrow>
          if \<not> (1 \<le> m \<and> m \<le> 12 \<and> 1 \<le> d \<and> d \<le> days_in_month y m) then None
          else
            let day = days_from_civil y m d * ms_per_day
            in case r of
                 [] \<Rightarrow> Some (time_clip day)
               | c # r' \<Rightarrow>
                   if c \<noteq> CHR ''T'' then None
                   else (case iso_time_part r' of
                           None \<Rightarrow> None
                         | Some (t, off) \<Rightarrow>
                             Some (time_clip (day + t - (case off of None \<Rightarrow> tz | Some z \<Rightarrow> z)))))"

text \<open>\<open>new Date(s)\<close> for a string \<open>s\<close>.\<close>

definition date_parse :: "(string \<Rightarrow> jsdate) \<Rightarrow> int \<Rightarrow> string \<Rightarrow> jsdate" where
  "date_parse host tz s = (case iso_parse tz s of Some d \<Rightarrow> d | None \<Rightarrow> host s)"

section \<open>Calendar dates of a time value\<close>

text \<open>
  The inverse of \<open>days_from_civil\<close>: the proleptic Gregorian date of a day number,
  by the 400-, 100- and 4-year cycles of the calendar (years counted from March, so that
  the leap day is the last day of a year). ECMAScript's YearFromTime, MonthFromTime and
  DateFromTime, on which \<open>getFullYear\<close>, \<open>getMonth\<close>, \<open>getDate\<close> and
  \<open>toISOString\<close> rest, are this function of \<open>t div ms_per_day\<close> (the month from 1).
\<close>

definition civil_from_days :: "int \<Rightarrow> int \<times> int \<times> int" where
  "civil_from_days z =
     (let z' = z + 719468; era = z' div 146097; doe = z' mod 146097;
          c = min (doe div 36524) 3; e = doe - 36524 * c;
          q = e div 1461; f = e mod 1461;
          yr = min (f div 365) 3; doy = f - 365 * yr;
          yoe = 100 * c + 4 * q + yr;
          mp = (5 * doy + 2) div 153;
          d = doy - (153 * mp + 2) div 5 + 1;
          m = (if mp < 10 then mp + 3 else mp - 9);
          y = era * 400 + yoe
      in (if m \<le> 2 then y + 1 else y, m, d))"

text \<open>\<open>getFullYear()\<close>, \<open>getMonth() + 1\<close> and \<open>getDate()\<close> of a time value: the date of
  its local day.\<close>

definition local_ymd :: "int \<Rightarrow> int \<Rightarrow> int \<times> int \<times> int" where
  "local_ymd tz t = civil_from_days ((t + tz) div ms_per_day)"

text \<open>\<open>String(n).padStart(k, '0')\<close> on the decimal digits of a natural number.\<close>

definition pad_left :: "nat \<Rightarrow> string \<Rightarrow> string" where
  "pad_left n s = replicate (n - length s) CHR ''0'' @ s"

text \<open>\<open>String(i)\<close> for an integer.\<close>

definition show_int :: "int \<Rightarrow> string" where
  "show_int i = (if i < 0 then CHR ''-'' # show_nat (nat (- i)) else show_nat (nat i))"

definition ymd_string :: "int \<Rightarrow> int \<Rightarrow> int \<Rightarrow> string" where
  "ymd_string y m d =
     pad_left 4 (show_nat (nat y)) @ ''-'' @ pad_left 2 (show_nat (nat m)) @ ''-'' @ pad_left 2 (show_nat (nat d))"

text \<open>
  Setting \<open>input.valueAsDate = date\<close> on a date input: the value becomes the
  \<open>YYYY-MM-DD\<close> string of the date's UTC day, and the empty string when the time value
  is \<open>NaN\<close> or the year is not positive (no valid date string exists then).
\<close>

definition value_as_date :: "jsdate \<Rightarrow> string" where
  "value_as_date dt =
     (case dt of
        Invalid \<Rightarrow> []
      | TV t \<Rightarrow> (case civil_from_days (t div ms_per_day) of
                  (y, m, d) \<Rightarrow> if 1 \<le> y then ymd_string y m d else []))"

text \<open>\<open>date.toISOString().split('T')[0]\<close>: the UTC day, with the six-digit signed year
  form outside 0..9999.\<close>

definition iso_date_string :: "int \<Rightarrow> string" where
  "iso_date_string t =
     (case civil_from_days (t div ms_per_day) of
        (y, m, d) \<Rightarrow>
          (if 0 \<le> y \<and> y \<le> 9999 then pad_left 4 (show_nat (nat y))
           else (if y < 0 then CHR ''-'' else CHR ''+'') # pad_left 6 (show_nat (nat \<bar>y\<bar>)))
          @ ''-'' @ pad_left 2 (show_nat (nat m)) @ ''-'' @ pad_left 2 (show_nat (nat d)))"

section \<open>Lemmas: the calendar inverse and the date strings\<close>

lemma march_day_month:
  fixes doy mp :: int
  assumes "153 * mp \<le> 5 * doy + 2" "5 * doy + 2 < 153 * mp + 153" "0 \<le> doy" "doy \<le> 365"
  shows "1 \<le> doy - (153 * mp + 2) div 5 + 1
         \<and> doy - (153 * mp + 2) div 5 + 1
             \<le> (if mp = 11 then (if doy = 365 then 29 else 28) else if mp \<in> {1, 3, 6, 8} then 30 else 31)"
proof -
  have "0 \<le> mp" "mp \<le> 11" using assms by arith+
  then have "mp \<in> {0, 1, 2, 3, 4, 5, 6, 7, 8, 9, 10, 11}" unfolding insert_iff empty_iff by presburger
  then show ?thesis using assms by (elim insertE emptyE) auto
qed

text \<open>\<open>civil_from_days\<close> returns a valid date whose day number is its argument.\<close>

lemma civil_from_days_correct:
  assumes "civil_from_days z = (Y, M, D)"
  shows "days_from_civil Y M D = z \<and> 1 \<le> M \<and> M \<le> 12 \<and> 1 \<le> D \<and> D \<le> days_in_month Y M"
proof -
  define z' where "z' = z + 719468"
  define era where "era = z' div 146097"
  define doe where "doe = z' mod 146097"
  define c where "c = min (doe div 36524) 3"
  define e where "e = doe - 36524 * c"
  define q where "q = e div 1461"
  define f where "f = e mod 1461"
  define yr where "yr = min (f div 365) 3"
  define doy where "doy = f - 365 * yr"
  define yoe where "yoe = 100 * c + 4 * q + yr"
  define mp where "mp = (5 * doy + 2) div 153"
  define d where "d = doy - (153 * mp + 2) div 5 + 1"
  define m where "m = (if mp < 10 then mp + 3 else mp - 9)"
  define y where "y = era * 400 + yoe"
  have cz: "civil_from_days z = (if m \<le> 2 then y + 1 else y, m, d)"
    unfolding civil_from_days_def Let_def y_def m_def d_def mp_def yoe_def doy_def yr_def f_def q_def e_def
      c_def doe_def era_def z'_def by (rule refl)
  then have out: "Y = (if m \<le> 2 then y + 1 else y)" "M = m" "D = d" using assms by simp_all
  have z: "z' = era * 146097 + doe" unfolding era_def doe_def by simp
  have doe: "0 \<le> doe" "doe < 146097" unfolding doe_def by simp_all
  have c: "0 \<le> c" "c \<le> 3" unfolding c_def using doe by (simp_all add: pos_imp_zdiv_nonneg_iff)
  have e: "0 \<le> e" "e \<le> 36524"
    unfolding e_def c_def using doe by (auto simp: min_def minus_div_mult_eq_mod [symmetric] split: if_splits)
  have e3: "c < 3 \<Longrightarrow> e < 36524"
    unfolding e_def c_def by (auto simp: min_def minus_div_mult_eq_mod [symmetric] split: if_splits)
  have q0: "0 \<le> q" unfolding q_def using e by (simp add: pos_imp_zdiv_nonneg_iff)
  have q24: "q \<le> 24" unfolding q_def using zdiv_mono1 [OF e(2), of 1461] by simp
  have f: "0 \<le> f" "f < 1461" "e = 1461 * q + f" unfolding f_def q_def using e by simp_all
  have yr: "0 \<le> yr" "yr \<le> 3" unfolding yr_def using f by (simp_all add: pos_imp_zdiv_nonneg_iff)
  have doy: "0 \<le> doy" "doy \<le> 365"
    unfolding doy_def yr_def using f by (auto simp: min_def minus_div_mult_eq_mod [symmetric] split: if_splits)
  have leapday: "doy = 365 \<Longrightarrow> f = 1460 \<and> yr = 3"
    unfolding doy_def yr_def using f by (auto simp: min_def minus_div_mult_eq_mod [symmetric] split: if_splits)
  have r: "5 * doy + 2 = 153 * mp + (5 * doy + 2) mod 153" unfolding mp_def by simp
  have "0 \<le> (5 * doy + 2) mod 153" "(5 * doy + 2) mod 153 < 153" by simp_all
  then have lo: "153 * mp \<le> 5 * doy + 2" and hi: "5 * doy + 2 < 153 * mp + 153" using r by linarith+
  have mp: "0 \<le> mp" "mp \<le> 11" unfolding mp_def using doy by (simp_all add: pos_imp_zdiv_nonneg_iff)
  have y4: "yoe div 4 = 25 * c + q" unfolding yoe_def using yr by simp
  have y100: "yoe div 100 = c" unfolding yoe_def using yr q0 q24 by simp
  have era': "y div 400 = era" unfolding y_def yoe_def using c q0 q24 yr by simp
  have mp': "(if 2 < m then m - 3 else m + 9) = mp" unfolding m_def using mp by auto
  have doe': "yoe * 365 + yoe div 4 - yoe div 100 + ((153 * mp + 2) div 5 + d - 1) = doe"
    unfolding y4 y100 d_def unfolding yoe_def doy_def using f e_def by simp
  have y': "(if m \<le> 2 then (if m \<le> 2 then y + 1 else y) - 1 else (if m \<le> 2 then y + 1 else y)) = y"
    by simp
  have yoe': "y - era * 400 = yoe" unfolding y_def by simp
  have inv: "days_from_civil Y M D = z"
    unfolding out days_from_civil_def Let_def split y' era' yoe' mp' doe' using z z'_def by simp
  have leap: "doy = 365 \<Longrightarrow> is_leap (y + 1)"
  proof -
    assume "doy = 365"
    then have f3: "f = 1460" "yr = 3" using leapday by simp_all
    show "is_leap (y + 1)"
    proof (cases "q = 24")
      case True
      then have "c = 3" using e3 f f3 c by fastforce
      then show ?thesis unfolding is_leap_def y_def yoe_def using True f3 by simp
    next
      case False
      have e1: "y + 1 = (4 * q + 4) + (4 * era + c) * 100" unfolding y_def yoe_def using f3 by simp
      have e2: "y + 1 = (q + 1 + 100 * era + 25 * c) * 4" unfolding y_def yoe_def using f3 by simp
      have "(4 * q + 4) mod 100 = 4 * q + 4" using q0 q24 False by simp
      then have "(y + 1) mod 100 \<noteq> 0" unfolding e1 mod_mult_self1 using q0 by simp
      moreover have "(y + 1) mod 4 = 0" unfolding e2 by simp
      ultimately show ?thesis unfolding is_leap_def by simp
    qed
  qed
  have md: "1 \<le> d \<and> d \<le> (if mp = 11 then (if doy = 365 then 29 else 28)
                              else if mp \<in> {1, 3, 6, 8} then 30 else 31)"
    unfolding d_def using march_day_month [OF lo hi doy] .
  have "M \<in> {4, 6, 9, 11} \<longleftrightarrow> mp \<in> {1, 3, 6, 8}" "M = 2 \<longleftrightarrow> mp = 11"
    unfolding out m_def using mp by auto
  then have dim: "D \<le> days_in_month Y M"
    using md leap unfolding days_in_month_def by (auto simp: out m_def split: if_splits)
  show ?thesis using inv dim md mp unfolding out m_def by auto
qed

lemma length_show_nat: "n < 10 ^ k \<Longrightarrow> 0 < k \<Longrightarrow> length (show_nat n) \<le> k"
proof (induction n arbitrary: k rule: show_nat.induct)
  case (1 n)
  show ?case
  proof (cases "n < 10")
    case True
    then show ?thesis using "1.prems" by (subst show_nat.simps) simp
  next
    case False
    obtain k' where k: "k = Suc k'" using "1.prems" by (cases k) auto
    have k0: "0 < k'" using "1.prems" False k by (cases k') auto
    have "n < 10 ^ k' * 10" using "1.prems" k by (simp add: mult.commute)
    then have "n div 10 < 10 ^ k'" by (rule less_mult_imp_div_less)
    then have "length (show_nat (n div 10)) \<le> k'" using "1.IH" [OF False] k0 by blast
    then show ?thesis using k False by (subst show_nat.simps) simp
  qed
qed

lemma digits_val_zeros: "digits_val (replicate k CHR ''0'' @ s) = digits_val s"
proof -
  have "foldl (\<lambda>n c. 10 * n + digit_val c) 0 (replicate k CHR ''0'') = 0"
    by (induction k) (simp_all add: digit_val_def)
  then show ?thesis by (simp add: digits_val_def)
qed

lemma take_digits_pad:
  assumes "n < 10 ^ k" "0 < k"
  shows "take_digits k (pad_left k (show_nat n) @ r) = Some (int n, r)"
proof -
  have l: "length (pad_left k (show_nat n)) = k" using length_show_nat [OF assms] by (simp add: pad_left_def)
  have "list_all is_digit (replicate j CHR ''0'')" for j by (simp add: list_all_iff is_digit_def)
  then have "list_all is_digit (pad_left k (show_nat n))"
    using show_nat_digits by (simp add: pad_left_def)
  then show ?thesis using l by (simp add: take_digits_def pad_left_def digits_val_zeros digits_val_show_nat)
qed

lemma iso_date_part_ymd:
  assumes "0 \<le> y" "y < 10000" "0 \<le> m" "m < 100" "0 \<le> d" "d < 100"
  shows "iso_date_part (ymd_string y m d @ r) = Some ((y, m, d), r)"
proof -
  have "nat y < 10 ^ 4" "nat m < 10 ^ 2" "nat d < 10 ^ 2" using assms by simp_all
  then show ?thesis using assms
    by (simp add: iso_date_part_def ymd_string_def take_digits_pad [where k = 4]
        take_digits_pad [where k = 2, simplified])
qed

text \<open>What \<open>valueAsDate\<close> writes, \<open>new Date(value + 'T' + time)\<close> reads back as that time
  of the UTC day of the time value written, in local time.\<close>

lemma value_as_date_read_back_at:
  assumes "case civil_from_days (t div ms_per_day) of (y, m, d) \<Rightarrow> 1 \<le> y \<and> y \<le> 9999"
    and "iso_time_part s = Some (x, None)"
  shows "date_parse host tz (value_as_date (TV t) @ CHR ''T'' # s) = time_clip (t div ms_per_day * ms_per_day + x - tz)"
proof -
  obtain y m d where c: "civil_from_days (t div ms_per_day) = (y, m, d)" by (cases "civil_from_days (t div ms_per_day)") auto
  note ok = civil_from_days_correct [OF c]
  have y: "1 \<le> y" "y \<le> 9999" using assms(1) c by simp_all
  have dm: "days_in_month y m \<le> 31" by (simp add: days_in_month_def)
  have "iso_date_part (ymd_string y m d @ CHR ''T'' # s) = Some ((y, m, d), CHR ''T'' # s)"
    using ok y dm by (intro iso_date_part_ymd) auto
  then show ?thesis using ok y c assms(2)
    by (simp add: date_parse_def iso_parse_def value_as_date_def)
qed

lemma iso_time_part_day_bounds:
  "iso_time_part ''00:00:00'' = Some (0, None)" "iso_time_part ''23:59:59'' = Some (86399000, None)"
  by (simp_all add: iso_time_part_def take_digits_def digits_val_def digit_val_def iso_offset_def is_digit_def)

text \<open>
  Round trip of the date inputs: a date written with \<open>valueAsDate\<close> and read back as
  \<open>loadConfiguration\<close> reads the bounds of a period (\<open>value + 'T00:00:00'\<close> and
  \<open>value + 'T23:59:59'\<close>) gives the first and the last second of the UTC day of the time
  value written, in local time, for every year from 1 to 9999.
\<close>

theorem value_as_date_read_back:
  assumes "case civil_from_days (t div ms_per_day) of (y, m, d) \<Rightarrow> 1 \<le> y \<and> y \<le> 9999"
  shows "date_parse host tz (value_as_date (TV t) @ ''T00:00:00'') = time_clip (t div ms_per_day * ms_per_day - tz)
         \<and> date_parse host tz (value_as_date (TV t) @ ''T23:59:59'')
           = time_clip (t div ms_per_day * ms_per_day + 86399000 - tz)"
  using value_as_date_read_back_at [OF assms iso_time_part_day_bounds(1)]
        value_as_date_read_back_at [OF assms iso_time_part_day_bounds(2)] by simp

lemma local_midnight_div:
  assumes "- ms_per_day < tz" "tz \<le> ms_per_day"
  shows "(k * ms_per_day - tz) div ms_per_day = (if 0 < tz then k - 1 else k)"
proof (cases "0 < tz")
  case True
  have "k * ms_per_day - tz = (k - 1) * ms_per_day + (ms_per_day - tz)" by (simp add: algebra_simps)
  moreover have "(ms_per_day - tz) div ms_per_day = 0" using True assms by (simp add: ms_per_day_def)
  ultimately show ?thesis using True by (simp add: ms_per_day_def)
next
  case False
  have "k * ms_per_day - tz = k * ms_per_day + (- tz)" by simp
  moreover have "(- tz) div ms_per_day = 0" using False assms by (simp add: ms_per_day_def)
  ultimately show ?thesis using False by (simp add: ms_per_day_def)
qed

lemma date_local_midnight: "date_local tz y m d = TV L \<Longrightarrow> \<exists>k. L = k * ms_per_day - tz"
  by (cases "(tz, y, m, d)" rule: date_local.cases) (auto simp: time_clip_def Let_def split: if_splits)

text \<open>A local midnight written with \<open>valueAsDate\<close> and read back at \<open>T00:00:00\<close> is the
  midnight before it east of UTC (the UTC day of a local midnight there is the day
  before), itself at UTC and west of it.\<close>

lemma local_midnight_read_back:
  assumes "date_local tz y m d = TV L" "- ms_per_day < tz" "tz \<le> ms_per_day"
    and "case civil_from_days (L div ms_per_day) of (yy, _, _) \<Rightarrow> 1 \<le> yy \<and> yy \<le> 9999"
  shows "date_parse host tz (value_as_date (TV L) @ ''T00:00:00'') = time_clip (if 0 < tz then L - ms_per_day else L)"
proof -
  obtain k where k: "L = k * ms_per_day - tz" using date_local_midnight [OF assms(1)] by blast
  have d: "L div ms_per_day = (if 0 < tz then k - 1 else k)" unfolding k using local_midnight_div assms(2,3) .
  have "date_parse host tz (value_as_date (TV L) @ ''T00:00:00'') = time_clip (L div ms_per_day * ms_per_day + 0 - tz)"
    using value_as_date_read_back_at [OF assms(4) iso_time_part_day_bounds(1)] by simp
  also have "L div ms_per_day * ms_per_day + 0 - tz = (if 0 < tz then L - ms_per_day else L)"
    by (simp only: d) (simp add: k algebra_simps)
  finally show ?thesis .
qed

section \<open>Witnesses\<close>

theorem value_as_date_read_back_witness:
  "(case civil_from_days (1767225600000 div ms_per_day) of (y, m, d) \<Rightarrow> 1 \<le> y \<and> y \<le> 9999)
   \<and> date_parse (\<lambda>_. Invalid) 3600000 (value_as_date (TV 1767225600000) @ ''T00:00:00'')
     = time_clip (1767225600000 div ms_per_day * ms_per_day - 3600000)
   \<and> date_parse (\<lambda>_. Invalid) 3600000 (value_as_date (TV 1767225600000) @ ''T23:59:59'')
     = time_clip (1767225600000 div ms_per_day * ms_per_day + 86399000 - 3600000)"
proof -
  have c: "civil_from_days (1767225600000 div ms_per_day) = (2026, 1, 1)" by code_simp
  show ?thesis using value_as_date_read_back [of 1767225600000 "\<lambda>_. Invalid" 3600000] c by simp
qed

end
