(* ===== verification/Aggregator.thy ===== *)
theory Aggregator
  imports Normalizer
begin

text \<open>
  The cohort aggregator and the derived-metrics calculator.
  \<^item> \<open>calculate_deep_metrics\<close> is \<open>calculateDeepMetrics\<close> of
    src/analyzer-comparative.js: one left-to-right pass (\<open>deep_step\<close>, the body of
    \<open>data.forEach\<close>) over the cohort's rows that adds each row's numbers to the scalar
    totals, splits its results into conversations and vanity results, and upserts the
    row into three objects keyed by result type, demographic segment and ad name; then
    \<open>derive\<close> computes the ratios with the code's zero-denominator guards.
  \<^item> The state is the record \<open>deep_acc\<close> (the object \<open>m\<close>); the ratios are the
    record \<open>derived\<close> (the fields the code adds to \<open>m\<close> after the loop).
  Lemmas: each scalar total is the sum of the rows' values; each grouped object's values
  add up to the scalar total (the demographic keys always contain a space and so are never
  names inherited from \<open>Object.prototype\<close>; for ad names and result types that is a
  hypothesis, and an ad called \<open>constructor\<close> is lost); the zero-denominator policy of
  every ratio.
\<close>

section \<open>State\<close>

record rt_tot =
  rt_spend :: jsnum
  rt_results :: jsnum

record demo_tot =
  dm_spend :: jsnum
  dm_results :: jsnum
  dm_reach :: jsnum
  dm_impressions :: jsnum
  dm_clicks :: jsnum
  dm_conversations :: jsnum

record ad_tot =
  ad_spend :: jsnum
  ad_results :: jsnum
  ad_reach :: jsnum
  ad_impressions :: jsnum
  ad_clicks :: jsnum

record deep_acc =
  records :: nat
  spend :: jsnum
  results :: jsnum
  reach :: jsnum
  impressions :: jsnum
  clicks :: jsnum
  conversations :: jsnum
  vanity_results :: jsnum
  result_types :: "rt_tot obj"
  demographics :: "demo_tot obj"
  ads :: "ad_tot obj"

definition rt_zero :: rt_tot where
  "rt_zero = \<lparr>rt_spend = 0, rt_results = 0\<rparr>"

definition demo_zero :: demo_tot where
  "demo_zero = \<lparr>dm_spend = 0, dm_results = 0, dm_reach = 0, dm_impressions = 0, dm_clicks = 0,
                dm_conversations = 0\<rparr>"

definition ad_zero :: ad_tot where
  "ad_zero = \<lparr>ad_spend = 0, ad_results = 0, ad_reach = 0, ad_impressions = 0, ad_clicks = 0\<rparr>"

definition deep_init :: "nat \<Rightarrow> deep_acc" where
  "deep_init n = \<lparr>records = n, spend = 0, results = 0, reach = 0, impressions = 0, clicks = 0,
     conversations = 0, vanity_results = 0, result_types = [], demographics = [], ads = []\<rparr>"

section \<open>One row\<close>

text \<open>\<open>rtLower.includes('mensaje') || rtLower.includes('conversaci')\<close>\<close>

definition is_conversation_type :: "string \<Rightarrow> bool" where
  "is_conversation_type rt \<longleftrightarrow>
     contains ''mensaje'' (to_lower rt) \<or> contains ''conversaci'' (to_lower rt)"

definition row_result_type :: "row \<Rightarrow> string" where
  "row_result_type r = js_or_str (result_type r) ''Otro''"

definition row_is_conv :: "row \<Rightarrow> bool" where
  "row_is_conv r \<longleftrightarrow> is_conversation_type (row_result_type r)"

text \<open>\<open>`${gender} ${age}`\<close> with \<open>age = row['Edad'] || 'Unknown'\<close>.\<close>

definition demo_key :: "row \<Rightarrow> string" where
  "demo_key r = gender_label (sex r) @ '' '' @ js_or_str (age r) ''Unknown''"

definition deep_step :: "deep_acc \<Rightarrow> row \<Rightarrow> deep_acc" where
  "deep_step m r =
     (let s = row_spend r; res = row_results r; conv = row_is_conv r
      in m\<lparr>spend := spend m + s,
           results := results m + res,
           reach := reach m + row_reach r,
           impressions := impressions m + row_impressions r,
           clicks := clicks m + row_clicks r,
           conversations := (if conv then conversations m + res else conversations m),
           vanity_results := (if conv then vanity_results m else vanity_results m + res),
           result_types := obj_upsert (row_result_type r) rt_zero
              (\<lambda>v. v\<lparr>rt_spend := rt_spend v + s, rt_results := rt_results v + res\<rparr>)
              (result_types m),
           demographics := obj_upsert (demo_key r) demo_zero
              (\<lambda>v. v\<lparr>dm_spend := dm_spend v + s, dm_results := dm_results v + res,
                     dm_reach := dm_reach v + row_reach r,
                     dm_impressions := dm_impressions v + row_impressions r,
                     dm_clicks := dm_clicks v + row_clicks r,
                     dm_conversations := (if conv then dm_conversations v + res
                                          else dm_conversations v)\<rparr>)
              (demographics m),
           ads := obj_upsert (ad_name r) ad_zero
              (\<lambda>v. v\<lparr>ad_spend := ad_spend v + s, ad_results := ad_results v + res,
                     ad_reach := ad_reach v + row_reach r,
                     ad_impressions := ad_impressions v + row_impressions r,
                     ad_clicks := ad_clicks v + row_clicks r\<rparr>)
              (ads m)\<rparr>)"

section \<open>Derived metrics\<close>

record derived =
  ctr :: jsnum
  cpm :: jsnum
  cpc :: jsnum
  cpr :: jsnum
  cost_per_conversation :: jsnum
  frequency :: jsnum
  conversion_rate :: jsnum
  quality_score :: jsnum

text \<open>\<open>x > 0\<close> on numbers.\<close>

abbreviation js_pos :: "jsnum \<Rightarrow> bool" where
  "js_pos x \<equiv> js_lt (Fin 0) x"

definition derive :: "deep_acc \<Rightarrow> derived" where
  "derive m =
     \<lparr>ctr = (if js_pos (impressions m) then js_mul (js_div (clicks m) (impressions m)) (Fin 100) else Fin 0),
      cpm = (if js_pos (impressions m) then js_mul (js_div (spend m) (impressions m)) (Fin 1000) else Fin 0),
      cpc = (if js_pos (clicks m) then js_div (spend m) (clicks m) else Fin 0),
      cpr = (if js_pos (results m) then js_div (spend m) (results m) else Fin 0),
      cost_per_conversation = (if js_pos (conversations m) then js_div (spend m) (conversations m) else PInf),
      frequency = (if js_pos (reach m) then js_div (impressions m) (reach m) else Fin 0),
      conversion_rate = (if js_pos (clicks m) then js_mul (js_div (conversations m) (clicks m)) (Fin 100) else Fin 0),
      quality_score = (if js_pos (conversations m) then js_mul (js_div (conversations m) (spend m)) (Fin 100) else Fin 0)\<rparr>"

type_synonym deep_metrics = "deep_acc \<times> derived"

definition calculate_deep_metrics :: "row list \<Rightarrow> deep_metrics" where
  "calculate_deep_metrics data =
     (let m = foldl deep_step (deep_init (length data)) data in (m, derive m))"

text \<open>A row with the given ad name, result type and cells for spend and results, and
  empty demographic columns: the shape of the rows in the worked examples below.\<close>

definition mk_row :: "string \<Rightarrow> string \<Rightarrow> cell \<Rightarrow> cell \<Rightarrow> row" where
  "mk_row name rt s res =
     \<lparr>ad_name = name, result_type = rt, start_date = [], spend_cell = s, results_cell = res,
      reach_cell = CNone, impressions_cell = CNone, clicks_cell = CNone, ctr_cell = CNone,
      age = [], sex = [], delivery = [], report_start = [], report_end = [], end_date = []\<rparr>"

text \<open>The spec's scenario B, with the result type written as the Meta export writes it.\<close>

definition example_rows :: "row list" where
  "example_rows = [mk_row ''X'' ''Conversaciones con mensajes iniciadas'' (CNum 10) (CNum 2),
                   mk_row ''X'' ''Otro'' (CNum 5) (CNum 0)]"

definition conv_delta :: "row \<Rightarrow> jsnum" where
  "conv_delta r = (if row_is_conv r then row_results r else 0)"

definition vanity_delta :: "row \<Rightarrow> jsnum" where
  "vanity_delta r = (if row_is_conv r then 0 else row_results r)"

text \<open>Well-formedness of the state: the three objects have distinct keys, none inherited.\<close>

definition deep_wf :: "deep_acc \<Rightarrow> bool" where
  "deep_wf m \<longleftrightarrow> obj_wf (result_types m) \<and> obj_wf (demographics m) \<and> obj_wf (ads m)"

abbreviation deep_acc_of :: "row list \<Rightarrow> deep_acc" where
  "deep_acc_of rows \<equiv> fst (calculate_deep_metrics rows)"

section \<open>Lemmas: one step\<close>

lemma deep_step_scalars [simp]:
  "records (deep_step m r) = records m"
  "spend (deep_step m r) = spend m + row_spend r"
  "results (deep_step m r) = results m + row_results r"
  "reach (deep_step m r) = reach m + row_reach r"
  "impressions (deep_step m r) = impressions m + row_impressions r"
  "clicks (deep_step m r) = clicks m + row_clicks r"
  "conversations (deep_step m r) = conversations m + conv_delta r"
  "vanity_results (deep_step m r) = vanity_results m + vanity_delta r"
  by (simp_all add: deep_step_def Let_def conv_delta_def vanity_delta_def)

lemma proto_names_no_space: "p \<in> set proto_names \<Longrightarrow> CHR '' '' \<notin> set p"
  by (auto simp: proto_names_def)

lemma demo_key_not_proto [simp]: "demo_key r \<notin> set proto_names"
proof
  assume "demo_key r \<in> set proto_names"
  moreover have "CHR '' '' \<in> set (demo_key r)" by (simp add: demo_key_def)
  ultimately show False using proto_names_no_space by blast
qed

lemma deep_step_demo_sums:
  "obj_sum dm_spend (demographics (deep_step m r)) = obj_sum dm_spend (demographics m) + row_spend r"
  "obj_sum dm_results (demographics (deep_step m r)) = obj_sum dm_results (demographics m) + row_results r"
  "obj_sum dm_reach (demographics (deep_step m r)) = obj_sum dm_reach (demographics m) + row_reach r"
  "obj_sum dm_impressions (demographics (deep_step m r))
     = obj_sum dm_impressions (demographics m) + row_impressions r"
  "obj_sum dm_clicks (demographics (deep_step m r)) = obj_sum dm_clicks (demographics m) + row_clicks r"
  "obj_sum dm_conversations (demographics (deep_step m r))
     = obj_sum dm_conversations (demographics m) + conv_delta r"
  by (simp_all add: deep_step_def Let_def obj_sum_upsert demo_zero_def conv_delta_def)

lemma deep_step_ad_sums:
  assumes "ad_name r \<notin> set proto_names"
  shows
  "obj_sum ad_spend (ads (deep_step m r)) = obj_sum ad_spend (ads m) + row_spend r"
  "obj_sum ad_results (ads (deep_step m r)) = obj_sum ad_results (ads m) + row_results r"
  "obj_sum ad_reach (ads (deep_step m r)) = obj_sum ad_reach (ads m) + row_reach r"
  "obj_sum ad_impressions (ads (deep_step m r)) = obj_sum ad_impressions (ads m) + row_impressions r"
  "obj_sum ad_clicks (ads (deep_step m r)) = obj_sum ad_clicks (ads m) + row_clicks r"
  using assms by (simp_all add: deep_step_def Let_def obj_sum_upsert ad_zero_def)

lemma deep_step_rt_sums:
  assumes "row_result_type r \<notin> set proto_names"
  shows
  "obj_sum rt_spend (result_types (deep_step m r)) = obj_sum rt_spend (result_types m) + row_spend r"
  "obj_sum rt_results (result_types (deep_step m r)) = obj_sum rt_results (result_types m) + row_results r"
  using assms by (simp_all add: deep_step_def Let_def obj_sum_upsert rt_zero_def)

lemma deep_step_wf: "deep_wf m \<Longrightarrow> deep_wf (deep_step m r)"
  by (simp add: deep_wf_def deep_step_def Let_def obj_upsert_wf)

section \<open>Lemmas: the whole pass\<close>

lemma deep_acc_of_foldl: "deep_acc_of rows = foldl deep_step (deep_init (length rows)) rows"
  by (simp add: calculate_deep_metrics_def Let_def)

lemma deep_init_simps [simp]:
  "records (deep_init n) = n" "spend (deep_init n) = 0" "results (deep_init n) = 0"
  "reach (deep_init n) = 0" "impressions (deep_init n) = 0" "clicks (deep_init n) = 0"
  "conversations (deep_init n) = 0" "vanity_results (deep_init n) = 0"
  "result_types (deep_init n) = []" "demographics (deep_init n) = []" "ads (deep_init n) = []"
  by (simp_all add: deep_init_def)

lemmas deep_fold = foldl_additive [where f = deep_step]

lemma deep_fold_sums:
  "spend (foldl deep_step m rs) = spend m + sum_list (map row_spend rs)"
  "results (foldl deep_step m rs) = results m + sum_list (map row_results rs)"
  "reach (foldl deep_step m rs) = reach m + sum_list (map row_reach rs)"
  "impressions (foldl deep_step m rs) = impressions m + sum_list (map row_impressions rs)"
  "clicks (foldl deep_step m rs) = clicks m + sum_list (map row_clicks rs)"
  "conversations (foldl deep_step m rs) = conversations m + sum_list (map conv_delta rs)"
  "vanity_results (foldl deep_step m rs) = vanity_results m + sum_list (map vanity_delta rs)"
  "obj_sum dm_spend (demographics (foldl deep_step m rs))
     = obj_sum dm_spend (demographics m) + sum_list (map row_spend rs)"
  "obj_sum dm_results (demographics (foldl deep_step m rs))
     = obj_sum dm_results (demographics m) + sum_list (map row_results rs)"
  "obj_sum dm_reach (demographics (foldl deep_step m rs))
     = obj_sum dm_reach (demographics m) + sum_list (map row_reach rs)"
  "obj_sum dm_impressions (demographics (foldl deep_step m rs))
     = obj_sum dm_impressions (demographics m) + sum_list (map row_impressions rs)"
  "obj_sum dm_clicks (demographics (foldl deep_step m rs))
     = obj_sum dm_clicks (demographics m) + sum_list (map row_clicks rs)"
  "obj_sum dm_conversations (demographics (foldl deep_step m rs))
     = obj_sum dm_conversations (demographics m) + sum_list (map conv_delta rs)"
  by (rule deep_fold; simp add: deep_step_demo_sums)+

lemma deep_fold_ad_sums:
  assumes "\<forall>r \<in> set rs. ad_name r \<notin> set proto_names"
  shows
  "obj_sum ad_spend (ads (foldl deep_step m rs)) = obj_sum ad_spend (ads m) + sum_list (map row_spend rs)"
  "obj_sum ad_results (ads (foldl deep_step m rs)) = obj_sum ad_results (ads m) + sum_list (map row_results rs)"
  "obj_sum ad_reach (ads (foldl deep_step m rs)) = obj_sum ad_reach (ads m) + sum_list (map row_reach rs)"
  "obj_sum ad_impressions (ads (foldl deep_step m rs))
     = obj_sum ad_impressions (ads m) + sum_list (map row_impressions rs)"
  "obj_sum ad_clicks (ads (foldl deep_step m rs)) = obj_sum ad_clicks (ads m) + sum_list (map row_clicks rs)"
  by (rule deep_fold; simp add: deep_step_ad_sums assms)+

lemma deep_fold_rt_sums:
  assumes "\<forall>r \<in> set rs. row_result_type r \<notin> set proto_names"
  shows
  "obj_sum rt_spend (result_types (foldl deep_step m rs))
     = obj_sum rt_spend (result_types m) + sum_list (map row_spend rs)"
  "obj_sum rt_results (result_types (foldl deep_step m rs))
     = obj_sum rt_results (result_types m) + sum_list (map row_results rs)"
  by (rule deep_fold; simp add: deep_step_rt_sums assms)+

lemma deep_fold_records: "records (foldl deep_step m rs) = records m"
  by (rule foldl_invariant [where P = "\<lambda>m'. records m' = records m"]) simp_all

lemma conv_vanity_delta: "conv_delta r + vanity_delta r = row_results r"
  by (simp add: conv_delta_def vanity_delta_def)

lemma sum_conv_vanity:
  "sum_list (map conv_delta rs) + sum_list (map vanity_delta rs) = sum_list (map row_results rs)"
  by (induction rs) (simp_all add: conv_vanity_delta [symmetric] add_ac)

section \<open>Properties of calculateDeepMetrics\<close>

text \<open>
  C1. The scalar totals of a cohort are the sums of its rows' numbers (each read with the
  zero fallback): the record count is the number of rows, conversations are the results of
  rows whose result type names a message or conversation, vanity results the others.
\<close>

theorem deep_totals:
  "records (deep_acc_of rows) = length rows
   \<and> spend (deep_acc_of rows) = sum_list (map row_spend rows)
   \<and> results (deep_acc_of rows) = sum_list (map row_results rows)
   \<and> reach (deep_acc_of rows) = sum_list (map row_reach rows)
   \<and> impressions (deep_acc_of rows) = sum_list (map row_impressions rows)
   \<and> clicks (deep_acc_of rows) = sum_list (map row_clicks rows)
   \<and> conversations (deep_acc_of rows) = sum_list (map conv_delta rows)
   \<and> vanity_results (deep_acc_of rows) = sum_list (map vanity_delta rows)"
  by (simp add: deep_acc_of_foldl deep_fold_sums deep_fold_records)

text \<open>
  C2. Conservation over demographic segments: the segments' spend, results, reach,
  impressions, clicks and conversations add up to the cohort's totals. No hypothesis is
  needed: every segment key contains a space, so none is an inherited property name.
\<close>

theorem deep_demographics_conservation:
  "obj_sum dm_spend (demographics (deep_acc_of rows)) = spend (deep_acc_of rows)
   \<and> obj_sum dm_results (demographics (deep_acc_of rows)) = results (deep_acc_of rows)
   \<and> obj_sum dm_reach (demographics (deep_acc_of rows)) = reach (deep_acc_of rows)
   \<and> obj_sum dm_impressions (demographics (deep_acc_of rows)) = impressions (deep_acc_of rows)
   \<and> obj_sum dm_clicks (demographics (deep_acc_of rows)) = clicks (deep_acc_of rows)
   \<and> obj_sum dm_conversations (demographics (deep_acc_of rows)) = conversations (deep_acc_of rows)"
  by (simp add: deep_acc_of_foldl deep_fold_sums)

text \<open>
  C5. Conservation over ads: when no ad is named after a property of
  \<open>Object.prototype\<close>, the ads' spend, results, reach, impressions and clicks add up to
  the cohort's totals.
\<close>

theorem deep_ads_conservation:
  assumes "\<forall>r \<in> set rows. ad_name r \<notin> set proto_names"
  shows
  "obj_sum ad_spend (ads (deep_acc_of rows)) = spend (deep_acc_of rows)
   \<and> obj_sum ad_results (ads (deep_acc_of rows)) = results (deep_acc_of rows)
   \<and> obj_sum ad_reach (ads (deep_acc_of rows)) = reach (deep_acc_of rows)
   \<and> obj_sum ad_impressions (ads (deep_acc_of rows)) = impressions (deep_acc_of rows)
   \<and> obj_sum ad_clicks (ads (deep_acc_of rows)) = clicks (deep_acc_of rows)"
  using deep_fold_ad_sums [OF assms, of "deep_init (length rows)"]
  by (simp add: deep_acc_of_foldl deep_fold_sums)

text \<open>
  Conservation over result types, under the same hypothesis on the result-type texts;
  and conversations and vanity results partition the results.
\<close>

theorem deep_result_types_conservation:
  assumes "\<forall>r \<in> set rows. row_result_type r \<notin> set proto_names"
  shows
  "obj_sum rt_spend (result_types (deep_acc_of rows)) = spend (deep_acc_of rows)
   \<and> obj_sum rt_results (result_types (deep_acc_of rows)) = results (deep_acc_of rows)
   \<and> conversations (deep_acc_of rows) + vanity_results (deep_acc_of rows) = results (deep_acc_of rows)"
  using deep_fold_rt_sums [OF assms, of "deep_init (length rows)"]
  by (simp add: deep_acc_of_foldl deep_fold_sums sum_conv_vanity)

lemma deep_acc_of_Nil [simp]: "deep_acc_of [] = deep_init 0"
  by (simp add: calculate_deep_metrics_def Let_def)

lemma derive_fields_not_NaN:
  assumes "is_finite (spend m)" "is_finite (results m)" "is_finite (reach m)"
    "is_finite (impressions m)" "is_finite (clicks m)" "is_finite (conversations m)"
  shows "ctr (derive m) \<noteq> NaN \<and> cpm (derive m) \<noteq> NaN \<and> cpc (derive m) \<noteq> NaN
    \<and> cpr (derive m) \<noteq> NaN \<and> cost_per_conversation (derive m) \<noteq> NaN
    \<and> frequency (derive m) \<noteq> NaN \<and> conversion_rate (derive m) \<noteq> NaN
    \<and> quality_score (derive m) \<noteq> NaN"
  using assms
  by (auto simp: derive_def is_finite_iff js_scaled_quot_not_NaN simp del: js_div.simps)

text \<open>
  C8. The zero-denominator policy of the derived metrics: CTR and CPM are 0 unless
  impressions are positive, CPC and the conversion rate 0 unless clicks are, cost per
  result 0 unless results are, frequency 0 unless reach is; cost per conversation is
  \<open>Infinity\<close> and the quality score 0 unless conversations are positive.
\<close>

theorem derive_zero_policy:
  "(\<not> js_pos (impressions m) \<longrightarrow> ctr (derive m) = Fin 0 \<and> cpm (derive m) = Fin 0)
   \<and> (\<not> js_pos (clicks m) \<longrightarrow> cpc (derive m) = Fin 0 \<and> conversion_rate (derive m) = Fin 0)
   \<and> (\<not> js_pos (results m) \<longrightarrow> cpr (derive m) = Fin 0)
   \<and> (\<not> js_pos (reach m) \<longrightarrow> frequency (derive m) = Fin 0)
   \<and> (\<not> js_pos (conversations m) \<longrightarrow>
        cost_per_conversation (derive m) = PInf \<and> quality_score (derive m) = Fin 0)"
  by (simp add: derive_def)

text \<open>The empty cohort (the spec's scenario A) meets every zero branch.\<close>

theorem derive_zero_policy_witness:
  "\<not> js_pos (impressions (deep_acc_of [])) \<and> \<not> js_pos (clicks (deep_acc_of []))
   \<and> \<not> js_pos (results (deep_acc_of [])) \<and> \<not> js_pos (reach (deep_acc_of []))
   \<and> \<not> js_pos (conversations (deep_acc_of []))
   \<and> ctr (derive (deep_acc_of [])) = Fin 0 \<and> cpc (derive (deep_acc_of [])) = Fin 0
   \<and> cost_per_conversation (derive (deep_acc_of [])) = PInf"
  using derive_zero_policy [of "deep_acc_of []"] by (simp add: jsnum_zero_Fin)

text \<open>
  C9. No derived metric is \<open>NaN\<close> when every number read from the cohort's rows is
  finite: each division either has a positive denominator or is replaced by its default,
  and the quality score's division by a zero spend gives \<open>Infinity\<close>, not \<open>NaN\<close>.
\<close>

theorem deep_metrics_no_NaN:
  assumes "\<forall>r \<in> set rows. is_finite (row_spend r) \<and> is_finite (row_results r)
            \<and> is_finite (row_reach r) \<and> is_finite (row_impressions r) \<and> is_finite (row_clicks r)"
  shows "let d = snd (calculate_deep_metrics rows) in
    ctr d \<noteq> NaN \<and> cpm d \<noteq> NaN \<and> cpc d \<noteq> NaN \<and> cpr d \<noteq> NaN
    \<and> cost_per_conversation d \<noteq> NaN \<and> frequency d \<noteq> NaN \<and> conversion_rate d \<noteq> NaN
    \<and> quality_score d \<noteq> NaN"
proof -
  have conv: "is_finite (conv_delta r)" if "r \<in> set rows" for r
    using assms that by (auto simp: conv_delta_def is_finite_iff zero_jsnum_def)
  let ?m = "deep_acc_of rows"
  have "is_finite (spend ?m)" "is_finite (results ?m)" "is_finite (reach ?m)"
    "is_finite (impressions ?m)" "is_finite (clicks ?m)" "is_finite (conversations ?m)"
    using assms conv deep_totals [of rows] by (auto intro!: js_sum_not_NaN_finite)
  then show ?thesis
    by (simp add: calculate_deep_metrics_def Let_def derive_fields_not_NaN)
qed

lemmas deep_eval = calculate_deep_metrics_def deep_step_def mk_row_def row_num_defs Let_def
  row_is_conv_def is_conversation_type_def row_result_type_def js_or_str_def to_lower_def
  to_lower_char_def obj_upsert_def proto_names_def ad_zero_def rt_zero_def demo_zero_def
  deep_init_def derive_def jsnum_zero_Fin num_or_zero_def

theorem deep_ads_conservation_witness:
  "obj_sum ad_spend (ads (deep_acc_of example_rows)) = spend (deep_acc_of example_rows)
   \<and> obj_sum ad_results (ads (deep_acc_of example_rows)) = results (deep_acc_of example_rows)
   \<and> obj_sum ad_reach (ads (deep_acc_of example_rows)) = reach (deep_acc_of example_rows)
   \<and> obj_sum ad_impressions (ads (deep_acc_of example_rows)) = impressions (deep_acc_of example_rows)
   \<and> obj_sum ad_clicks (ads (deep_acc_of example_rows)) = clicks (deep_acc_of example_rows)"
proof -
  have h: "\<forall>r \<in> set example_rows. ad_name r \<notin> set proto_names"
    by (simp add: example_rows_def mk_row_def proto_names_def)
  from deep_ads_conservation [OF h] show ?thesis by simp
qed

theorem deep_result_types_conservation_witness:
  "obj_sum rt_spend (result_types (deep_acc_of example_rows)) = spend (deep_acc_of example_rows)
   \<and> obj_sum rt_results (result_types (deep_acc_of example_rows)) = results (deep_acc_of example_rows)
   \<and> conversations (deep_acc_of example_rows) + vanity_results (deep_acc_of example_rows)
       = results (deep_acc_of example_rows)"
proof -
  have h: "\<forall>r \<in> set example_rows. row_result_type r \<notin> set proto_names"
    by (simp add: example_rows_def mk_row_def proto_names_def row_result_type_def js_or_str_def)
  from deep_result_types_conservation [OF h] show ?thesis by simp
qed

theorem deep_metrics_no_NaN_witness:
  "cost_per_conversation (snd (calculate_deep_metrics example_rows)) \<noteq> NaN
   \<and> quality_score (snd (calculate_deep_metrics example_rows)) \<noteq> NaN"
proof -
  have h: "\<forall>r \<in> set example_rows. is_finite (row_spend r) \<and> is_finite (row_results r)
      \<and> is_finite (row_reach r) \<and> is_finite (row_impressions r) \<and> is_finite (row_clicks r)"
    by (simp add: example_rows_def mk_row_def row_num_defs num_or_zero_def is_finite_iff)
  from deep_metrics_no_NaN [OF h] show ?thesis by (simp add: Let_def)
qed

text \<open>
  The spec's scenario B, with the conversation result type as the Meta export writes
  it: two rows of ad X (spend 10, 2 results, a conversation type; spend 5, no results,
  another type) give spend 15, results 2, conversations 2, no vanity results, cost per
  result 7.5 and one ad entry X with spend 15 and results 2.
\<close>

theorem scenario_b:
  "spend (deep_acc_of example_rows) = Fin 15 \<and> results (deep_acc_of example_rows) = Fin 2
   \<and> conversations (deep_acc_of example_rows) = Fin 2
   \<and> vanity_results (deep_acc_of example_rows) = Fin 0
   \<and> cpr (snd (calculate_deep_metrics example_rows)) = Fin (15 / 2)
   \<and> ads (deep_acc_of example_rows) = [(''X'', \<lparr>ad_spend = Fin 15, ad_results = Fin 2,
        ad_reach = Fin 0, ad_impressions = Fin 0, ad_clicks = Fin 0\<rparr>)]"
  by (simp add: example_rows_def deep_eval)

text \<open>
  The conversation test looks for the Spanish stems \<open>mensaje\<close> and \<open>conversaci\<close>:
  a result type written \<open>conversation\<close>, as the spec's scenario B writes it, is counted as
  a vanity result, and the cohort has no conversations and an infinite cost per
  conversation.
\<close>

theorem english_conversation_is_vanity:
  "let rows = [mk_row ''X'' ''conversation'' (CNum 10) (CNum 2), mk_row ''X'' ''other'' (CNum 5) (CNum 0)]
   in conversations (deep_acc_of rows) = Fin 0 \<and> vanity_results (deep_acc_of rows) = Fin 2
      \<and> cost_per_conversation (snd (calculate_deep_metrics rows)) = PInf"
  by (simp add: deep_eval)

text \<open>
  An ad named after a property of \<open>Object.prototype\<close> is not aggregated: its row
  reaches the spend total but no ad entry, so the ads' spend no longer adds up to it.
\<close>

theorem proto_named_ad_lost:
  "let rows = [mk_row ''constructor'' ''Otro'' (CNum 10) (CNum 1)]
   in ads (deep_acc_of rows) = [] \<and> spend (deep_acc_of rows) = Fin 10
      \<and> obj_sum ad_spend (ads (deep_acc_of rows)) \<noteq> spend (deep_acc_of rows)"
  by (simp add: deep_eval)

text \<open>
  The quality score is guarded by the conversation count, not by the spend: a cohort
  with conversations and zero spend has an infinite quality score (the spec asks for 0).
\<close>

theorem quality_score_zero_spend:
  "let rows = [mk_row ''A'' ''Conversaciones con mensajes iniciadas'' (CNum 0) (CNum 3)]
   in spend (deep_acc_of rows) = Fin 0 \<and> quality_score (snd (calculate_deep_metrics rows)) = PInf"
  by (simp add: deep_eval inf_of_sign_def)

text \<open>
  The zero fallback does not exclude infinities: \<open>parseFloat("Infinity") || 0\<close> is
  \<open>Infinity\<close>, and a cohort whose clicks and impressions read \<open>Infinity\<close> has a
  \<open>NaN\<close> click-through rate.
\<close>

theorem ctr_NaN_on_infinite_cells:
  "let rows = [(mk_row ''A'' ''Otro'' (CNum 1) (CNum 1))\<lparr>impressions_cell := CStr ''Infinity'',
                                                         clicks_cell := CStr ''Infinity''\<rparr>]
   in ctr (snd (calculate_deep_metrics rows)) = NaN"
  by (simp add: deep_eval parse_float_str_def scan_unsigned_def is_js_space_def js_lt_def)

text \<open>
  Type invariant of the aggregate: in the state of \<open>calculateDeepMetrics\<close> after any
  rows, each of the three objects has distinct keys, none of them a name inherited from
  \<open>Object.prototype\<close>.
\<close>

theorem deep_acc_wf: "deep_wf (deep_acc_of rows)"
proof -
  have "deep_wf (deep_init (length rows))" by (simp add: deep_wf_def deep_init_def obj_wf_def obj_keys_def)
  then show ?thesis
    unfolding deep_acc_of_foldl by (rule foldl_invariant) (rule deep_step_wf)
qed

end
