(* ===== verification/Classifier.thy ===== *)
theory Classifier
  imports Dates Aggregator
begin

text \<open>
  The period classifier: how rows are split into the \<open>before\<close> and \<open>after\<close> cohorts.
  There are two strategies, one per analyzer, kept apart as the spec asks.
  \<^item> Cutoff strategy (src/analyzer-comparative.js \<open>parseDate\<close>, \<open>splitDataByDate\<close>):
    a row goes to \<open>after\<close> when its start date is on or after the fixed cutoff
    \<open>new Date('2026-01-15')\<close>, or when its ad name matches the brand pattern
    \<open>/arizon|lista.*\d{2}\/\d{2}/i\<close>; every other row goes to \<open>before\<close>. A missing or
    \<open>En curso\<close> date is \<open>now\<close>; a date that does not split into three parts on
    \<open>-\<close> is \<open>null\<close>.
  \<^item> Configured strategy (src/analyzer-generic.js \<open>splitDataByDate\<close>): a row without a
    parseable date is counted as undated; otherwise the period-2 include keywords win, then
    the period-1 exclude keywords (period 2 if the date is in its range, else skipped), then
    the date ranges (period 2 first). \<open>classify_gen\<close> is that decision and
    \<open>split_gen_step\<close> the body of the \<open>forEach\<close>.
  Both splits are folds over the rows that append to the cohorts, as the code's
  \<open>push\<close> does; the lemmas show that they are the \<open>filter\<close>s of the rows by the
  decision, so the cohorts are disjoint, keep the input order and, with the diagnostic
  counters, account for every row.
\<close>

section \<open>Cutoff strategy (comparative analyzer)\<close>

text \<open>\<open>rawData = results.data.filter(r => r['Nombre del anuncio'])\<close>\<close>

definition load_rows_cmp :: "row list \<Rightarrow> row list" where
  "load_rows_cmp rows = filter (\<lambda>r. ad_name r \<noteq> []) rows"

text \<open>\<open>new Date('2026-01-15')\<close>: an ISO date-only string, so UTC midnight.\<close>

definition cutoff_date :: int where
  "cutoff_date = days_from_civil 2026 1 15 * ms_per_day"

text \<open>
  \<open>parseDate\<close>: \<open>None\<close> is \<open>null\<close>; \<open>Some Invalid\<close> is an Invalid Date (which is
  truthy but compares false).
\<close>

definition parse_date_cmp :: "int \<Rightarrow> int \<Rightarrow> string \<Rightarrow> jsdate option" where
  "parse_date_cmp tz now s =
     (if s = [] \<or> s = ''En curso'' then Some (TV now)
      else
        let parts = split_on CHR ''-'' s
        in if length parts = 3
           then Some (date_local tz (to_number_str (parts ! 0))
                       (js_sub (to_number_str (parts ! 1)) (Fin 1)) (to_number_str (parts ! 2)))
           else None)"

definition is_line_terminator :: "char \<Rightarrow> bool" where
  "is_line_terminator c \<longleftrightarrow> c = CHR 0x0A \<or> c = CHR 0x0D"

text \<open>\<open>.*\d{2}\/\d{2}\<close>: two digits, a slash, two digits, after any run of characters
  that are not line terminators.\<close>

fun date_mark_ahead :: "string \<Rightarrow> bool" where
  "date_mark_ahead (a # b # c # d # e # s) =
     ((is_digit a \<and> is_digit b \<and> c = CHR ''/'' \<and> is_digit d \<and> is_digit e)
      \<or> (\<not> is_line_terminator a \<and> date_mark_ahead (b # c # d # e # s)))"
| "date_mark_ahead s = False"

fun lista_mark :: "string \<Rightarrow> bool" where
  "lista_mark [] = False"
| "lista_mark (c # s) =
     ((starts_with ''lista'' (to_lower (c # s)) \<and> date_mark_ahead (drop 5 (c # s))) \<or> lista_mark s)"

text \<open>\<open>/arizon|lista.*\d{2}\/\d{2}/i.test(adName)\<close>\<close>

definition new_strategy_pattern :: "string \<Rightarrow> bool" where
  "new_strategy_pattern s \<longleftrightarrow> contains ''arizon'' (to_lower s) \<or> lista_mark s"

definition is_after_cmp :: "int \<Rightarrow> int \<Rightarrow> row \<Rightarrow> bool" where
  "is_after_cmp tz now r \<longleftrightarrow>
     (case parse_date_cmp tz now (start_date r) of Some (TV t) \<Rightarrow> cutoff_date \<le> t | _ \<Rightarrow> False)
     \<or> new_strategy_pattern (ad_name r)"

fun split_cmp_step :: "int \<Rightarrow> int \<Rightarrow> row list \<times> row list \<Rightarrow> row \<Rightarrow> row list \<times> row list" where
  "split_cmp_step tz now (b, a) r = (if is_after_cmp tz now r then (b, a @ [r]) else (b @ [r], a))"

definition split_data_by_date_cmp :: "int \<Rightarrow> int \<Rightarrow> row list \<Rightarrow> row list \<times> row list" where
  "split_data_by_date_cmp tz now rows = foldl (split_cmp_step tz now) ([], []) rows"

section \<open>Row filters (generic analyzer)\<close>

text \<open>\<open>FILTERS\<close>, the pre-classification row filter; \<open>comparisonMode\<close> is read but never used.\<close>

record filters =
  delivery_active :: bool
  delivery_not_delivering :: bool
  min_spend :: jsnum
  name_contains :: string
  name_excludes :: string
  ages :: "string list"
  genders :: "string list"
  ctr_good :: jsnum
  cpm_good :: jsnum
  cpl_good :: jsnum
  freq_good :: jsnum

definition default_filters :: filters where
  "default_filters =
     \<lparr>delivery_active = True, delivery_not_delivering = True, min_spend = Fin 0,
      name_contains = [], name_excludes = [],
      ages = [''18-24'', ''25-34'', ''35-44'', ''45-54'', ''55-64'', ''65+''],
      genders = [''male'', ''female''],
      ctr_good = Fin 2, cpm_good = Fin 8, cpl_good = Fin 10, freq_good = Fin 1.5\<rparr>"

text \<open>\<open>filterData\<close>: the predicate of \<open>data.filter\<close>, with its early returns.\<close>

definition filter_row :: "filters \<Rightarrow> row \<Rightarrow> bool" where
  "filter_row f r =
     (let status = delivery r in
      if status = ''active'' \<and> \<not> delivery_active f then False
      else if status = ''not_delivering'' \<and> \<not> delivery_not_delivering f then False
      else if js_lt (row_spend r) (min_spend f) then False
      else
        let name = to_lower (ad_name r) in
        if name_contains f \<noteq> [] \<and> \<not> contains (name_contains f) name then False
        else if name_excludes f \<noteq> [] \<and> contains (name_excludes f) name then False
        else if age r \<noteq> [] \<and> ages f \<noteq> [] \<and> age r \<notin> set (ages f) then False
        else if sex r \<noteq> [] \<and> genders f \<noteq> [] \<and> sex r \<notin> set (genders f) then False
        else True)"

definition filter_data :: "filters \<Rightarrow> row list \<Rightarrow> row list" where
  "filter_data f rows = filter (filter_row f) rows"

section \<open>Configured strategy (generic analyzer)\<close>

text \<open>
  The values of the configuration form that \<open>loadConfiguration\<close> reads
  (\<open>document.getElementById(..).value\<close>). The display names, the client name, the
  objective and the industry are labels only and are not modelled.
\<close>

record config_form =
  in_period1_start :: string
  in_period1_end :: string
  in_period2_start :: string
  in_period2_end :: string
  in_p1_exclude :: string
  in_p2_include :: string
  in_bench_ctr :: string
  in_bench_cpm :: string
  in_bench_cpl :: string
  in_bench_freq :: string
  in_monthly_budget :: string

text \<open>\<open>CONFIG\<close>, restricted to what the computation reads.\<close>

record gen_config =
  p1_start :: jsdate
  p1_end :: jsdate
  p1_exclude :: "string list"
  p2_start :: jsdate
  p2_end :: jsdate
  p2_include :: "string list"
  bench_ctr :: jsnum
  bench_cpm :: jsnum
  bench_cpl :: jsnum
  bench_frequency :: jsnum
  monthly_budget :: jsnum

datatype config_error = MissingPeriod1 | MissingPeriod2

text \<open>\<open>s ? s.split(',').map(k => k.trim().toLowerCase()).filter(k => k) : []\<close>\<close>

definition parse_keywords :: "string \<Rightarrow> string list" where
  "parse_keywords s =
     (if s = [] then []
      else filter (\<lambda>k. k \<noteq> []) (map (\<lambda>k. to_lower (trim_js k)) (split_on CHR '','' s)))"

text \<open>\<open>parseFloat(v) || d\<close>\<close>

definition float_or :: "string \<Rightarrow> real \<Rightarrow> jsnum" where
  "float_or v d = js_or (parse_float_str v) (Fin d)"

definition load_configuration ::
  "(string \<Rightarrow> jsdate) \<Rightarrow> int \<Rightarrow> config_form \<Rightarrow> config_error + gen_config" where
  "load_configuration host tz f =
     (if in_period1_start f = [] \<or> in_period1_end f = [] then Inl MissingPeriod1
      else if in_period2_start f = [] \<or> in_period2_end f = [] then Inl MissingPeriod2
      else Inr \<lparr>p1_start = date_parse host tz (in_period1_start f @ ''T00:00:00''),
                p1_end = date_parse host tz (in_period1_end f @ ''T23:59:59''),
                p1_exclude = parse_keywords (in_p1_exclude f),
                p2_start = date_parse host tz (in_period2_start f @ ''T00:00:00''),
                p2_end = date_parse host tz (in_period2_end f @ ''T23:59:59''),
                p2_include = parse_keywords (in_p2_include f),
                bench_ctr = float_or (in_bench_ctr f) 1.4,
                bench_cpm = float_or (in_bench_cpm f) 10.88,
                bench_cpl = float_or (in_bench_cpl f) 15,
                bench_frequency = float_or (in_bench_freq f) 1.5,
                monthly_budget = float_or (in_monthly_budget f) 2000\<rparr>)"

text \<open>\<open>parseDate\<close> of the generic analyzer: \<open>None\<close> is \<open>null\<close> (an empty string, or a
  Date whose time value is NaN).\<close>

definition parse_date_gen :: "(string \<Rightarrow> jsdate) \<Rightarrow> int \<Rightarrow> string \<Rightarrow> int option" where
  "parse_date_gen host tz s =
     (if s = [] then None else case date_parse host tz s of TV t \<Rightarrow> Some t | Invalid \<Rightarrow> None)"

text \<open>
  \<open>kws.length > 0 ? new RegExp(kws.join('|'), 'i') : null\<close> and
  \<open>pattern && pattern.test(adName)\<close>, for keywords without regex metacharacters: the
  alternation matches when one keyword occurs in the name, ignoring case.
\<close>

definition keyword_test :: "string list \<Rightarrow> string \<Rightarrow> bool" where
  "keyword_test kws name \<longleftrightarrow> kws \<noteq> [] \<and> list_ex (\<lambda>k. contains_ci k name) kws"

text \<open>\<open>d >= start && d <= end\<close> on Date objects: false when a bound is an Invalid Date.\<close>

definition in_range :: "int \<Rightarrow> jsdate \<Rightarrow> jsdate \<Rightarrow> bool" where
  "in_range t s e = (case (s, e) of (TV a, TV b) \<Rightarrow> a \<le> t \<and> t \<le> b | _ \<Rightarrow> False)"

datatype cohort = Period1 | Period2 | Skipped | NoDate

text \<open>The decision of \<open>splitDataByDate\<close> for one row, in the order of its early returns.\<close>

definition classify_gen :: "(string \<Rightarrow> jsdate) \<Rightarrow> int \<Rightarrow> gen_config \<Rightarrow> row \<Rightarrow> cohort" where
  "classify_gen host tz cfg r =
     (case parse_date_gen host tz (start_date r) of
        None \<Rightarrow> NoDate
      | Some t \<Rightarrow>
          if keyword_test (p2_include cfg) (ad_name r) then Period2
          else if keyword_test (p1_exclude cfg) (ad_name r) then
            (if in_range t (p2_start cfg) (p2_end cfg) then Period2 else Skipped)
          else if in_range t (p2_start cfg) (p2_end cfg) then Period2
          else if in_range t (p1_start cfg) (p1_end cfg) then Period1
          else Skipped)"

record split_result =
  before_data :: "row list"
  after_data :: "row list"
  skipped :: nat
  no_date :: nat

definition split_gen_step ::
  "(string \<Rightarrow> jsdate) \<Rightarrow> int \<Rightarrow> gen_config \<Rightarrow> split_result \<Rightarrow> row \<Rightarrow> split_result" where
  "split_gen_step host tz cfg acc r =
     (case classify_gen host tz cfg r of
        NoDate \<Rightarrow> acc\<lparr>no_date := no_date acc + 1\<rparr>
      | Period2 \<Rightarrow> acc\<lparr>after_data := after_data acc @ [r]\<rparr>
      | Period1 \<Rightarrow> acc\<lparr>before_data := before_data acc @ [r]\<rparr>
      | Skipped \<Rightarrow> acc\<lparr>skipped := skipped acc + 1\<rparr>)"

definition split_data_by_date_gen ::
  "(string \<Rightarrow> jsdate) \<Rightarrow> int \<Rightarrow> gen_config \<Rightarrow> row list \<Rightarrow> split_result" where
  "split_data_by_date_gen host tz cfg rows =
     foldl (split_gen_step host tz cfg)
       \<lparr>before_data = [], after_data = [], skipped = 0, no_date = 0\<rparr> rows"

datatype analysis_error = NoCsv | ConfigError config_error | NoDataAfterFilters | NoDataInPeriods

text \<open>
  \<open>startAnalysis\<close> up to \<open>runAnalysis\<close>: each \<open>showError\<close> and \<open>return\<close> is an
  \<open>Inl\<close>; on success the configuration and the split that \<open>runAnalysis\<close> reads.
\<close>

definition start_analysis ::
  "(string \<Rightarrow> jsdate) \<Rightarrow> int \<Rightarrow> config_form \<Rightarrow> filters \<Rightarrow> row list
   \<Rightarrow> analysis_error + gen_config \<times> split_result" where
  "start_analysis host tz form f raw =
     (if raw = [] then Inl NoCsv
      else case load_configuration host tz form of
        Inl e \<Rightarrow> Inl (ConfigError e)
      | Inr cfg \<Rightarrow>
          let fd = filter_data f raw in
          if fd = [] then Inl NoDataAfterFilters
          else
            let sr = split_data_by_date_gen host tz cfg fd in
            if before_data sr = [] \<and> after_data sr = [] then Inl NoDataInPeriods
            else Inr (cfg, sr))"

text \<open>
  Fixtures: a configuration form with period 1 the first half of January 2026, period 2
  the second half and the period-2 include keyword \<open>Brand\<close>; the configuration it
  loads to; rows with a given ad name and start date.
\<close>

definition example_form :: config_form where
  "example_form =
     \<lparr>in_period1_start = ''2026-01-01'', in_period1_end = ''2026-01-14'',
      in_period2_start = ''2026-01-15'', in_period2_end = ''2026-01-31'', in_p1_exclude = [],
      in_p2_include = ''Brand'', in_bench_ctr = [], in_bench_cpm = [], in_bench_cpl = [],
      in_bench_freq = [], in_monthly_budget = []\<rparr>"

definition example_config :: gen_config where
  "example_config =
     \<lparr>p1_start = TV 1767225600000, p1_end = TV 1768435199000, p1_exclude = [],
      p2_start = TV 1768435200000, p2_end = TV 1769903999000, p2_include = [''brand''],
      bench_ctr = Fin 1.4, bench_cpm = Fin 10.88, bench_cpl = Fin 15, bench_frequency = Fin 1.5,
      monthly_budget = Fin 2000\<rparr>"

definition row_on :: "string \<Rightarrow> string \<Rightarrow> row" where
  "row_on name d = (mk_row name ''Otro'' (CNum 1) (CNum 1))\<lparr>start_date := d\<rparr>"

section \<open>Lemmas: cutoff strategy\<close>

lemma split_cmp_foldl:
  "foldl (split_cmp_step tz now) (b, a) rows
     = (b @ filter (\<lambda>r. \<not> is_after_cmp tz now r) rows, a @ filter (is_after_cmp tz now) rows)"
  by (induction rows arbitrary: b a) auto

lemma cutoff_is_iso: "iso_parse tz ''2026-01-15'' = Some (TV cutoff_date)"
  by (simp add: iso_parse_def iso_date_part_def take_digits_def is_digit_def digits_val_def
      digit_val_def days_in_month_def cutoff_date_def time_clip_def days_from_civil_def ms_per_day_def)

lemmas cmp_eval = is_after_cmp_def parse_date_cmp_def to_number_str_def trim_js_def is_js_space_def
  is_str_decimal_def is_unsigned_decimal_def is_digit_def parse_float_str_def scan_unsigned_def
  scan_exponent_def digits_val_def digit_val_def js_sub_def make_day_def days_from_civil_def
  js_trunc_def time_clip_def ms_per_day_def cutoff_date_def new_strategy_pattern_def to_lower_def
  to_lower_char_def

section \<open>Lemmas: configured strategy\<close>

lemma split_gen_foldl:
  "foldl (split_gen_step host tz cfg) acc rows =
     acc\<lparr>before_data := before_data acc @ filter (\<lambda>r. classify_gen host tz cfg r = Period1) rows,
         after_data := after_data acc @ filter (\<lambda>r. classify_gen host tz cfg r = Period2) rows,
         skipped := skipped acc + length (filter (\<lambda>r. classify_gen host tz cfg r = Skipped) rows),
         no_date := no_date acc + length (filter (\<lambda>r. classify_gen host tz cfg r = NoDate) rows)\<rparr>"
  by (induction rows arbitrary: acc) (auto simp: split_gen_step_def split: cohort.split)

lemma split_gen_filters:
  "split_data_by_date_gen host tz cfg rows =
     \<lparr>before_data = filter (\<lambda>r. classify_gen host tz cfg r = Period1) rows,
      after_data = filter (\<lambda>r. classify_gen host tz cfg r = Period2) rows,
      skipped = length (filter (\<lambda>r. classify_gen host tz cfg r = Skipped) rows),
      no_date = length (filter (\<lambda>r. classify_gen host tz cfg r = NoDate) rows)\<rparr>"
  by (simp add: split_data_by_date_gen_def split_gen_foldl)

lemma length_filter_cohorts:
  "length (filter (\<lambda>x. g x = Period1) xs) + length (filter (\<lambda>x. g x = Period2) xs)
   + length (filter (\<lambda>x. g x = Skipped) xs) + length (filter (\<lambda>x. g x = NoDate) xs) = length xs"
proof (induction xs)
  case (Cons a xs)
  then show ?case by (cases "g a") auto
qed simp

lemma classify_gen_Period1:
  "classify_gen host tz cfg r = Period1 \<longleftrightarrow>
     (\<exists>t. parse_date_gen host tz (start_date r) = Some t
          \<and> \<not> keyword_test (p2_include cfg) (ad_name r) \<and> \<not> keyword_test (p1_exclude cfg) (ad_name r)
          \<and> \<not> in_range t (p2_start cfg) (p2_end cfg) \<and> in_range t (p1_start cfg) (p1_end cfg))"
  by (auto simp: classify_gen_def split: option.split)

lemma classify_gen_Period2:
  "classify_gen host tz cfg r = Period2 \<longleftrightarrow>
     (\<exists>t. parse_date_gen host tz (start_date r) = Some t
          \<and> (keyword_test (p2_include cfg) (ad_name r) \<or> in_range t (p2_start cfg) (p2_end cfg)))"
  by (auto simp: classify_gen_def split: option.split)

lemma filter_mset_disj:
  "(\<And>x. \<not> (P x \<and> Q x)) \<Longrightarrow> filter_mset P M + filter_mset Q M = filter_mset (\<lambda>x. P x \<or> Q x) M"
  by (induction M) auto

lemma no_period_rows_iff:
  "(filter (\<lambda>r. g r = Period1) xs = [] \<and> filter (\<lambda>r. g r = Period2) xs = [])
   \<longleftrightarrow> (\<forall>r \<in> set xs. g r \<in> {Skipped, NoDate})"
  by (auto simp: filter_empty_conv) (metis cohort.exhaust)

text \<open>The row filter as a conjunction of its tests.\<close>

lemma filter_row_conj:
  "filter_row f r \<longleftrightarrow>
     (delivery r = ''active'' \<longrightarrow> delivery_active f)
     \<and> (delivery r = ''not_delivering'' \<longrightarrow> delivery_not_delivering f)
     \<and> \<not> js_lt (row_spend r) (min_spend f)
     \<and> (name_contains f = [] \<or> contains (name_contains f) (to_lower (ad_name r)))
     \<and> (name_excludes f = [] \<or> \<not> contains (name_excludes f) (to_lower (ad_name r)))
     \<and> (age r = [] \<or> ages f = [] \<or> age r \<in> set (ages f))
     \<and> (sex r = [] \<or> genders f = [] \<or> sex r \<in> set (genders f))"
  unfolding filter_row_def Let_def by (simp split: if_split)

lemma filter_row_min_spend_mono:
  "js_le a b \<Longrightarrow> filter_row (f\<lparr>min_spend := b\<rparr>) r \<Longrightarrow> filter_row (f\<lparr>min_spend := a\<rparr>) r"
  unfolding filter_row_conj by (simp del: js_lt_Fin) (meson js_lt_le_trans)

lemma load_example_form: "load_configuration host 0 example_form = Inr example_config"
  by code_simp

section \<open>Properties of the cutoff strategy\<close>

text \<open>
  C4. The cutoff split is a partition: \<open>before\<close> is the rows that are not after the
  cutoff and \<open>after\<close> the rows that are, both in input order, and every row of the input
  is in exactly one of them.
\<close>

theorem split_cmp_partition:
  "split_data_by_date_cmp tz now rows
     = (filter (\<lambda>r. \<not> is_after_cmp tz now r) rows, filter (is_after_cmp tz now) rows)
   \<and> mset (fst (split_data_by_date_cmp tz now rows)) + mset (snd (split_data_by_date_cmp tz now rows))
     = mset rows"
  by (simp add: split_data_by_date_cmp_def split_cmp_foldl mset_filter_partition)

text \<open>
  A start date that does not split into three parts on \<open>-\<close> is \<open>null\<close>, and the
  row goes to the \<open>before\<close> cohort: it is not excluded from both cohorts, as the spec
  says undated rows are.
\<close>

theorem cmp_malformed_date_before:
  "let r = (mk_row ''Promo'' ''Otro'' (CNum 1) (CNum 1))\<lparr>start_date := ''15/01/2026''\<rparr>
   in parse_date_cmp tz now (start_date r) = None
      \<and> split_data_by_date_cmp tz now [r] = ([r], [])"
  by (simp add: split_data_by_date_cmp_def cmp_eval mk_row_def)

text \<open>
  C18. The cutoff is UTC midnight but a row's date is local midnight, so the cohort of an ad
  that starts on the cutoff day depends on the browser's time zone: for every offset of less
  than a day and every ad whose name does not match the new-strategy pattern, a start on
  2026-01-15 is \<open>after\<close> exactly when the offset is at or west of UTC (so at UTC+1 it is
  \<open>before\<close>), while the day before is always \<open>before\<close> and the day after always \<open>after\<close>.
\<close>

theorem cmp_cutoff_timezone:
  assumes "\<not> new_strategy_pattern (ad_name r)" "- ms_per_day < tz" "tz < ms_per_day"
  shows "\<not> is_after_cmp tz now (r\<lparr>start_date := ''2026-01-14''\<rparr>)
       \<and> (is_after_cmp tz now (r\<lparr>start_date := ''2026-01-15''\<rparr>) \<longleftrightarrow> tz \<le> 0)
       \<and> is_after_cmp tz now (r\<lparr>start_date := ''2026-01-16''\<rparr>)"
  using assms by (simp add: cmp_eval del: new_strategy_pattern_def)

theorem cmp_cutoff_timezone_witness:
  "\<not> is_after_cmp 3600000 0 ((mk_row ''Promo'' ''Otro'' (CNum 1) (CNum 1))\<lparr>start_date := ''2026-01-15''\<rparr>)
   \<and> is_after_cmp (-18000000) 0 ((mk_row ''Promo'' ''Otro'' (CNum 1) (CNum 1))\<lparr>start_date := ''2026-01-15''\<rparr>)"
proof -
  have n: "\<not> new_strategy_pattern (ad_name (mk_row ''Promo'' ''Otro'' (CNum 1) (CNum 1)))"
    by (simp add: mk_row_def new_strategy_pattern_def to_lower_def to_lower_char_def)
  have d: "- ms_per_day < 3600000" "(3600000::int) < ms_per_day" "- ms_per_day < -18000000" "(-18000000::int) < ms_per_day"
    by (simp_all add: ms_per_day_def)
  show ?thesis
    using cmp_cutoff_timezone [OF n d(1) d(2), of 0] cmp_cutoff_timezone [OF n d(3) d(4), of 0] by simp
qed

section \<open>Properties of the configured strategy\<close>

text \<open>
  C3. The configured split is the filter of the rows by the decision: \<open>before\<close> holds
  the period-1 rows and \<open>after\<close> the period-2 rows, in input order, and the skipped and
  undated counters count the rest, so the four add up to the number of rows.
\<close>

theorem split_gen_partition:
  "split_data_by_date_gen host tz cfg rows =
     \<lparr>before_data = filter (\<lambda>r. classify_gen host tz cfg r = Period1) rows,
      after_data = filter (\<lambda>r. classify_gen host tz cfg r = Period2) rows,
      skipped = length (filter (\<lambda>r. classify_gen host tz cfg r = Skipped) rows),
      no_date = length (filter (\<lambda>r. classify_gen host tz cfg r = NoDate) rows)\<rparr>
   \<and> length (before_data (split_data_by_date_gen host tz cfg rows))
     + length (after_data (split_data_by_date_gen host tz cfg rows))
     + skipped (split_data_by_date_gen host tz cfg rows)
     + no_date (split_data_by_date_gen host tz cfg rows) = length rows"
  by (simp add: split_gen_filters length_filter_cohorts)

text \<open>
  C6. The cohorts of the configured split are sound and disjoint: a row in \<open>before\<close>
  has a parsed date inside period 1 and outside period 2 and matches no keyword; a row in
  \<open>after\<close> has a parsed date and is inside period 2 or matches an include keyword; no row
  is in both.
\<close>

theorem split_gen_sound:
  "let s = split_data_by_date_gen host tz cfg rows in
     (\<forall>r \<in> set (before_data s). r \<in> set rows \<and>
        (\<exists>t. parse_date_gen host tz (start_date r) = Some t
             \<and> in_range t (p1_start cfg) (p1_end cfg) \<and> \<not> in_range t (p2_start cfg) (p2_end cfg)
             \<and> \<not> keyword_test (p1_exclude cfg) (ad_name r) \<and> \<not> keyword_test (p2_include cfg) (ad_name r)))
   \<and> (\<forall>r \<in> set (after_data s). r \<in> set rows \<and>
        (\<exists>t. parse_date_gen host tz (start_date r) = Some t
             \<and> (in_range t (p2_start cfg) (p2_end cfg) \<or> keyword_test (p2_include cfg) (ad_name r))))
   \<and> set (before_data s) \<inter> set (after_data s) = {}"
  by (auto simp: Let_def split_gen_filters classify_gen_Period1 classify_gen_Period2)

theorem split_gen_sound_witness:
  "before_data (split_data_by_date_gen (\<lambda>_. Invalid) 0 example_config
     [row_on ''BrandCampaign'' ''2026-01-05'', row_on ''Promo'' ''2026-01-05''])
     = [row_on ''Promo'' ''2026-01-05'']
   \<and> (\<exists>t. parse_date_gen (\<lambda>_. Invalid) 0 ''2026-01-05'' = Some t
          \<and> in_range t (p1_start example_config) (p1_end example_config)
          \<and> \<not> in_range t (p2_start example_config) (p2_end example_config)
          \<and> \<not> keyword_test (p1_exclude example_config) ''Promo''
          \<and> \<not> keyword_test (p2_include example_config) ''Promo'')"
proof -
  have b: "before_data (split_data_by_date_gen (\<lambda>_. Invalid) 0 example_config
          [row_on ''BrandCampaign'' ''2026-01-05'', row_on ''Promo'' ''2026-01-05''])
        = [row_on ''Promo'' ''2026-01-05'']"
    by code_simp
  with split_gen_sound [of "\<lambda>_. Invalid" 0 example_config
      "[row_on ''BrandCampaign'' ''2026-01-05'', row_on ''Promo'' ''2026-01-05'']"]
  show ?thesis by (simp add: Let_def row_on_def mk_row_def)
qed

text \<open>
  Scenario D: with period-2 include keyword \<open>Brand\<close>, an ad named
  \<open>BrandCampaign\<close> dated inside period 1 goes to period 2 (the keyword outranks the date
  range), while an ad of the same date without the keyword stays in period 1; this holds
  from the configuration form through the filters to the split.
\<close>

theorem scenario_d_include_outranks_dates:
  "start_analysis host 0 example_form default_filters
     [row_on ''BrandCampaign'' ''2026-01-05'', row_on ''Promo'' ''2026-01-05'']
   = Inr (example_config,
          \<lparr>before_data = [row_on ''Promo'' ''2026-01-05''],
           after_data = [row_on ''BrandCampaign'' ''2026-01-05''], skipped = 0, no_date = 0\<rparr>)"
  by code_simp

text \<open>
  C10. Scenario E: a row whose start date is empty, or is \<open>En curso\<close> where the host's
  \<open>Date\<close> parser rejects it, is in neither cohort and is counted as undated.
\<close>

theorem scenario_e_undated_rows:
  assumes "host ''En curso'' = Invalid"
  shows "split_data_by_date_gen host tz cfg [r\<lparr>start_date := ''En curso''\<rparr>, r\<lparr>start_date := []\<rparr>]
         = \<lparr>before_data = [], after_data = [], skipped = 0, no_date = 2\<rparr>"
  using assms
  by (simp add: split_gen_filters classify_gen_def parse_date_gen_def date_parse_def iso_parse_def
      iso_date_part_def take_digits_def is_digit_def)

theorem scenario_e_undated_rows_witness:
  "split_data_by_date_gen (\<lambda>_. Invalid) 0 example_config
     [(row_on ''Promo'' ''2026-01-05'')\<lparr>start_date := ''En curso''\<rparr>,
      (row_on ''Promo'' ''2026-01-05'')\<lparr>start_date := []\<rparr>]
   = \<lparr>before_data = [], after_data = [], skipped = 0, no_date = 2\<rparr>"
  by (rule scenario_e_undated_rows) simp

text \<open>
  The period bounds are local midnight (\<open>p2Start + 'T00:00:00'\<close>) but a row's
  \<open>Inicio\<close> in \<open>YYYY-MM-DD\<close> form is UTC midnight, so an ad that starts on the first
  day of period 2 is put in period 1 west of UTC (UTC-5) and in period 2 east of it (UTC+1).
\<close>

theorem gen_period_start_timezone:
  "(case load_configuration host (-18000000) example_form of
      Inr cfg \<Rightarrow> classify_gen host (-18000000) cfg (row_on ''Promo'' ''2026-01-15'') = Period1
    | Inl _ \<Rightarrow> False)
   \<and> (case load_configuration host 3600000 example_form of
      Inr cfg \<Rightarrow> classify_gen host 3600000 cfg (row_on ''Promo'' ''2026-01-15'') = Period2
    | Inl _ \<Rightarrow> False)"
  by code_simp

text \<open>
  An empty allowlist is no filter: the default filters drop a row of age
  \<open>13-17\<close> and unknown gender, but with every age and gender box unchecked the same
  row passes.
\<close>

theorem filter_empty_allowlist_passes_all:
  "let r = (row_on ''Promo'' ''2026-01-05'')\<lparr>age := ''13-17'', sex := ''unknown''\<rparr>
   in filter_data default_filters [r] = []
      \<and> filter_data (default_filters\<lparr>ages := [], genders := []\<rparr>) [r] = [r]"
  by code_simp

text \<open>
  Raising the minimum-spend floor only removes rows: the rows kept with floor \<open>b\<close>
  are the rows kept with a lower floor \<open>a\<close> that also pass with \<open>b\<close>.
\<close>

theorem filter_min_spend_mono:
  assumes "js_le a b"
  shows "filter_data (f\<lparr>min_spend := b\<rparr>) rows
         = filter (filter_row (f\<lparr>min_spend := b\<rparr>)) (filter_data (f\<lparr>min_spend := a\<rparr>) rows)"
  using filter_row_min_spend_mono [OF assms] by (auto simp: filter_data_def filter_filter intro: filter_cong)

theorem filter_min_spend_mono_witness:
  "js_le (Fin 0) (Fin 5)
   \<and> filter_data (default_filters\<lparr>min_spend := Fin 5\<rparr>) [row_on ''A'' ''2026-01-05'']
     = filter (filter_row (default_filters\<lparr>min_spend := Fin 5\<rparr>))
         (filter_data (default_filters\<lparr>min_spend := Fin 0\<rparr>) [row_on ''A'' ''2026-01-05''])"
  using filter_min_spend_mono [of "Fin 0" "Fin 5" default_filters "[row_on ''A'' ''2026-01-05'']"]
  by simp

text \<open>
  C7. When \<open>startAnalysis\<close> reaches \<open>runAnalysis\<close>, the configuration is the one
  loaded from the form, the cohorts are the split of the filtered rows, at least one cohort
  is non-empty, the two cohorts together are a sub-multiset of the uploaded rows, and every
  row in them passes the filters.
\<close>

theorem start_analysis_sound:
  assumes "start_analysis host tz form f raw = Inr (cfg, sr)"
  shows "load_configuration host tz form = Inr cfg
     \<and> sr = split_data_by_date_gen host tz cfg (filter_data f raw)
     \<and> (before_data sr \<noteq> [] \<or> after_data sr \<noteq> [])
     \<and> mset (before_data sr) + mset (after_data sr) \<subseteq># mset raw
     \<and> (\<forall>r \<in> set (before_data sr) \<union> set (after_data sr). filter_row f r)"
proof -
  have cfg: "load_configuration host tz form = Inr cfg"
    and sr: "sr = split_data_by_date_gen host tz cfg (filter_data f raw)"
    and ne: "before_data sr \<noteq> [] \<or> after_data sr \<noteq> []"
    using assms by (auto simp: start_analysis_def Let_def split: if_splits sum.splits)
  let ?g = "classify_gen host tz cfg"
  have "mset (before_data sr) + mset (after_data sr)
        = mset (filter (\<lambda>r. ?g r = Period1 \<or> ?g r = Period2) (filter_data f raw))"
    by (simp add: sr split_gen_filters filter_mset_disj)
  also have "\<dots> \<subseteq># mset raw"
    by (simp add: filter_data_def multiset_filter_subset subset_mset.order_trans)
  finally have sub: "mset (before_data sr) + mset (after_data sr) \<subseteq># mset raw" .
  have "\<forall>r \<in> set (before_data sr) \<union> set (after_data sr). filter_row f r"
    by (auto simp: sr split_gen_filters filter_data_def)
  with cfg sr ne sub show ?thesis by blast
qed

theorem start_analysis_sound_witness:
  "mset [row_on ''Promo'' ''2026-01-05''] + mset [row_on ''BrandCampaign'' ''2026-01-05'']
   \<subseteq># mset [row_on ''BrandCampaign'' ''2026-01-05'', row_on ''Promo'' ''2026-01-05'']
   \<and> load_configuration (\<lambda>_. Invalid) 0 example_form = Inr example_config"
proof -
  have "start_analysis (\<lambda>_. Invalid) 0 example_form default_filters
          [row_on ''BrandCampaign'' ''2026-01-05'', row_on ''Promo'' ''2026-01-05'']
        = Inr (example_config,
               \<lparr>before_data = [row_on ''Promo'' ''2026-01-05''],
                after_data = [row_on ''BrandCampaign'' ''2026-01-05''], skipped = 0, no_date = 0\<rparr>)"
    by code_simp
  from start_analysis_sound [OF this] show ?thesis by simp
qed

text \<open>
  C11. \<open>startAnalysis\<close> stops with "no data in the periods" exactly when a CSV is loaded,
  the form is complete, some rows pass the filters, and every one of them is skipped or
  undated.
\<close>

theorem start_analysis_no_data_in_periods:
  "start_analysis host tz form f raw = Inl NoDataInPeriods \<longleftrightarrow>
     (\<exists>cfg. raw \<noteq> [] \<and> load_configuration host tz form = Inr cfg \<and> filter_data f raw \<noteq> []
        \<and> (\<forall>r \<in> set (filter_data f raw). classify_gen host tz cfg r \<in> {Skipped, NoDate}))"
  by (auto simp: start_analysis_def Let_def split_gen_filters no_period_rows_iff split: sum.splits)

theorem start_analysis_no_data_in_periods_witness:
  "start_analysis (\<lambda>_. Invalid) 0 example_form default_filters [row_on ''Promo'' ''2025-06-01'']
   = Inl NoDataInPeriods"
proof -
  have "filter_data default_filters [row_on ''Promo'' ''2025-06-01''] = [row_on ''Promo'' ''2025-06-01'']"
    by code_simp
  moreover have "classify_gen (\<lambda>_. Invalid) 0 example_config (row_on ''Promo'' ''2025-06-01'') = Skipped"
    by code_simp
  ultimately show ?thesis
    by (simp add: start_analysis_no_data_in_periods load_example_form)
qed

end
