(* ===== verification/Scoring.thy ===== *)
theory Scoring
  imports Aggregator
begin

text \<open>
  The comparative ranker of src/analyzer-comparative.js, the part that compares the two
  cohorts' derived metrics with each other and with the benchmark tables. Each definition
  is the computation of one \<open>render*\<close> function, up to the point where its result is
  formatted into HTML (\<open>toFixed\<close>, \<open>toLocaleString\<close> and the markup are not modelled): the
  executive summary's favourable-metric scores (\<open>exec_scores\<close>), the metrics table's
  per-row winner (\<open>metrics_table\<close>), the benchmark-compliance scores
  (\<open>compliance_scores\<close>), the strategic conclusion (\<open>strategic_conclusion\<close>), the
  strengths lists (\<open>comparative_strengths\<close>) and the hidden-insights projection
  (\<open>budget_projection\<close>). A cohort is the pair \<open>deep_metrics\<close> of its aggregate and its
  derived ratios, as \<open>calculateDeepMetrics\<close> returns them.
\<close>

section \<open>Benchmark tables\<close>

record bench_range =
  b_low :: jsnum
  b_avg :: jsnum
  b_high :: jsnum

text \<open>\<open>META_BENCHMARKS_2025\<close>\<close>

record meta_benchmarks =
  mb_ctr :: bench_range
  mb_cpm :: bench_range
  mb_cpc :: bench_range
  mb_cpl :: bench_range
  mb_freq_prospecting :: jsnum
  mb_freq_retargeting :: jsnum

definition meta_benchmarks_2025 :: meta_benchmarks where
  "meta_benchmarks_2025 =
     \<lparr>mb_ctr = \<lparr>b_low = Fin 0.9, b_avg = Fin 1.4, b_high = Fin 2.0\<rparr>,
      mb_cpm = \<lparr>b_low = Fin 3.0, b_avg = Fin 10.88, b_high = Fin 12.30\<rparr>,
      mb_cpc = \<lparr>b_low = Fin 0.70, b_avg = Fin 1.11, b_high = Fin 1.92\<rparr>,
      mb_cpl = \<lparr>b_low = Fin 6.49, b_avg = Fin 15.00, b_high = Fin 27.66\<rparr>,
      mb_freq_prospecting = Fin 1.5, mb_freq_retargeting = Fin 2.5\<rparr>"

text \<open>The local \<open>BENCHMARKS\<close> of \<open>renderExecutiveSummary\<close> (no CPL entry).\<close>

record exec_benchmarks =
  eb_ctr :: bench_range
  eb_cpm :: bench_range
  eb_cpc :: bench_range
  eb_freq_prospecting :: jsnum
  eb_freq_retargeting :: jsnum

definition exec_benchmarks :: exec_benchmarks where
  "exec_benchmarks =
     \<lparr>eb_ctr = \<lparr>b_low = Fin 0.9, b_avg = Fin 1.2, b_high = Fin 2.0\<rparr>,
      eb_cpm = \<lparr>b_low = Fin 6.59, b_avg = Fin 10.88, b_high = Fin 15.0\<rparr>,
      eb_cpc = \<lparr>b_low = Fin 0.72, b_avg = Fin 1.11, b_high = Fin 1.92\<rparr>,
      eb_freq_prospecting = Fin 1.5, eb_freq_retargeting = Fin 7.0\<rparr>"

section \<open>Number helpers\<close>

text \<open>\<open>Math.abs\<close>\<close>

fun js_abs :: "jsnum \<Rightarrow> jsnum" where
  "js_abs (Fin r) = Fin \<bar>r\<bar>"
| "js_abs NaN = NaN"
| "js_abs _ = PInf"

section \<open>Executive summary\<close>

text \<open>\<open>((x - avg) / avg * 100)\<close>, the distance to the benchmark in percent.\<close>

definition vs_avg :: "jsnum \<Rightarrow> jsnum \<Rightarrow> jsnum" where
  "vs_avg x avg = js_mul (js_div (js_sub x avg) avg) (Fin 100)"

definition exec_vs_benchmark :: "deep_metrics \<Rightarrow> deep_metrics \<Rightarrow> jsnum \<times> jsnum \<times> jsnum \<times> jsnum" where
  "exec_vs_benchmark b a =
     (vs_avg (ctr (snd b)) (b_avg (eb_ctr exec_benchmarks)),
      vs_avg (ctr (snd a)) (b_avg (eb_ctr exec_benchmarks)),
      vs_avg (cpm (snd b)) (b_avg (eb_cpm exec_benchmarks)),
      vs_avg (cpm (snd a)) (b_avg (eb_cpm exec_benchmarks)))"

text \<open>\<open>if (c1) p1Score++; else if (c2) p2Score++;\<close>\<close>

fun score_point :: "bool \<Rightarrow> bool \<Rightarrow> nat \<times> nat \<Rightarrow> nat \<times> nat" where
  "score_point c1 c2 (s1, s2) = (if c1 then (s1 + 1, s2) else if c2 then (s1, s2 + 1) else (s1, s2))"

text \<open>The conditions of the seven \<open>if\<close> lines, in order: \<open>(c1, c2)\<close> scores for
  \<open>p1\<close> when \<open>c1\<close> holds and otherwise for \<open>p2\<close> when \<open>c2\<close> holds. The two frequency
  lines are separate \<open>if\<close>s, each scoring for one cohort only.\<close>

definition exec_conditions :: "deep_metrics \<Rightarrow> deep_metrics \<Rightarrow> (bool \<times> bool) list" where
  "exec_conditions b a =
     (let bd = snd b; ad = snd a; fp = eb_freq_prospecting exec_benchmarks
      in [(js_gt (ctr bd) (ctr ad), js_gt (ctr ad) (ctr bd)),
          (js_lt (cpm bd) (cpm ad), js_lt (cpm ad) (cpm bd)),
          (js_lt (cpc bd) (cpc ad), js_lt (cpc ad) (cpc bd)),
          (js_lt (cost_per_conversation bd) (cost_per_conversation ad),
           js_lt (cost_per_conversation ad) (cost_per_conversation bd)),
          (js_gt (conversations (fst b)) (conversations (fst a)),
           js_gt (conversations (fst a)) (conversations (fst b))),
          (js_lt (frequency bd) (frequency ad) \<and> js_le (frequency bd) fp, False),
          (False, js_lt (frequency ad) (frequency bd) \<and> js_le (frequency ad) fp)])"

definition exec_scores :: "deep_metrics \<Rightarrow> deep_metrics \<Rightarrow> nat \<times> nat" where
  "exec_scores b a = foldl (\<lambda>s (c1, c2). score_point c1 c2 s) (0, 0) (exec_conditions b a)"

section \<open>Metrics table\<close>

datatype table_metric = TotalSpend | Conversations | CostPerConversation | CTR | CPM | CPC
  | ConversionRate | ReachPerDollar | Frequency | Efficiency

text \<open>\<open>pctChange(a, b)\<close>: \<open>None\<close> is the text \<open>'N/A'\<close>.\<close>

definition pct_change :: "jsnum \<Rightarrow> jsnum \<Rightarrow> jsnum option" where
  "pct_change a b =
     (if b \<noteq> Fin 0 then Some (js_mul (js_div (js_sub a b) (js_abs b)) (Fin 100)) else None)"

record table_row =
  tr_metric :: table_metric
  tr_before :: jsnum
  tr_after :: jsnum
  tr_diff :: "jsnum option"
  tr_arizon_wins :: bool

definition mk_table_row :: "table_metric \<Rightarrow> jsnum \<Rightarrow> jsnum \<Rightarrow> bool \<Rightarrow> table_row" where
  "mk_table_row n x y w =
     \<lparr>tr_metric = n, tr_before = x, tr_after = y, tr_diff = pct_change y x, tr_arizon_wins = w\<rparr>"

text \<open>\<open>renderDeepMetricsTable\<close>: the rows of \<open>metrics\<close>, with the values before formatting.\<close>

definition metrics_table :: "deep_metrics \<Rightarrow> deep_metrics \<Rightarrow> table_row list" where
  "metrics_table b a =
     (let bm = fst b; am = fst a; bd = snd b; ad = snd a;
          rpb = js_div (reach bm) (spend bm); rpa = js_div (reach am) (spend am)
      in [mk_table_row TotalSpend (spend bm) (spend am) (js_lt (spend am) (spend bm)),
          mk_table_row Conversations (conversations bm) (conversations am) True,
          mk_table_row CostPerConversation (cost_per_conversation bd) (cost_per_conversation ad)
            (js_lt (cost_per_conversation ad) (cost_per_conversation bd)),
          mk_table_row CTR (ctr bd) (ctr ad) (js_gt (ctr ad) (ctr bd)),
          mk_table_row CPM (cpm bd) (cpm ad) (js_lt (cpm ad) (cpm bd)),
          mk_table_row CPC (cpc bd) (cpc ad) (js_lt (cpc ad) (cpc bd)),
          mk_table_row ConversionRate (conversion_rate bd) (conversion_rate ad)
            (js_gt (conversion_rate ad) (conversion_rate bd)),
          mk_table_row ReachPerDollar rpb rpa (js_gt rpa rpb),
          mk_table_row Frequency (frequency bd) (frequency ad)
            (js_ge (frequency ad) (Fin 1.5) \<and> js_le (frequency ad) (Fin 2.5)),
          mk_table_row Efficiency (quality_score bd) (quality_score ad)
            (js_gt (quality_score ad) (quality_score bd))])"

text \<open>
  The spec's better-direction table (section 4.5): the favourable cohort of a metric.
  Frequency is favourable only inside \<open>[1.5, 2.5]\<close> and strictly improved, that is,
  when the other cohort's frequency is outside the range.
\<close>

datatype direction = HigherBetter | LowerBetter | RangeTarget

fun metric_direction :: "table_metric \<Rightarrow> direction" where
  "metric_direction TotalSpend = LowerBetter"
| "metric_direction Conversations = HigherBetter"
| "metric_direction CostPerConversation = LowerBetter"
| "metric_direction CTR = HigherBetter"
| "metric_direction CPM = LowerBetter"
| "metric_direction CPC = LowerBetter"
| "metric_direction ConversionRate = HigherBetter"
| "metric_direction ReachPerDollar = HigherBetter"
| "metric_direction Frequency = RangeTarget"
| "metric_direction Efficiency = HigherBetter"

fun spec_after_wins :: "direction \<Rightarrow> jsnum \<Rightarrow> jsnum \<Rightarrow> bool" where
  "spec_after_wins HigherBetter x y = js_gt y x"
| "spec_after_wins LowerBetter x y = js_lt y x"
| "spec_after_wins RangeTarget x y =
     (js_le (Fin 1.5) y \<and> js_le y (Fin 2.5) \<and> \<not> (js_le (Fin 1.5) x \<and> js_le x (Fin 2.5)))"

section \<open>Benchmark compliance\<close>

text \<open>\<open>evaluate(value, benchmark, isLowerBetter)\<close>\<close>

definition evaluate :: "jsnum \<Rightarrow> jsnum \<Rightarrow> bool \<Rightarrow> bool" where
  "evaluate v bench lower = (if lower then js_le v bench else js_ge v bench)"

record bench_metric =
  bm_name :: string
  bm_p1 :: jsnum
  bm_p2 :: jsnum
  bm_bench :: jsnum
  bm_lower :: bool

definition compliance_metrics :: "deep_metrics \<Rightarrow> deep_metrics \<Rightarrow> bench_metric list" where
  "compliance_metrics b a =
     (let mb = meta_benchmarks_2025; bd = snd b; ad = snd a
      in [\<lparr>bm_name = ''CTR'', bm_p1 = ctr bd, bm_p2 = ctr ad, bm_bench = b_avg (mb_ctr mb), bm_lower = False\<rparr>,
          \<lparr>bm_name = ''CPM'', bm_p1 = cpm bd, bm_p2 = cpm ad, bm_bench = b_avg (mb_cpm mb), bm_lower = True\<rparr>,
          \<lparr>bm_name = ''CPC'', bm_p1 = cpc bd, bm_p2 = cpc ad, bm_bench = b_avg (mb_cpc mb), bm_lower = True\<rparr>,
          \<lparr>bm_name = ''CPL'', bm_p1 = cost_per_conversation bd, bm_p2 = cost_per_conversation ad,
           bm_bench = b_avg (mb_cpl mb), bm_lower = True\<rparr>,
          \<lparr>bm_name = ''Frecuencia'', bm_p1 = frequency bd, bm_p2 = frequency ad,
           bm_bench = mb_freq_prospecting mb, bm_lower = True\<rparr>])"

definition compliance_scores :: "deep_metrics \<Rightarrow> deep_metrics \<Rightarrow> nat \<times> nat" where
  "compliance_scores b a =
     (let ms = compliance_metrics b a
      in (length (filter (\<lambda>m. evaluate (bm_p1 m) (bm_bench m) (bm_lower m)) ms),
          length (filter (\<lambda>m. evaluate (bm_p2 m) (bm_bench m) (bm_lower m)) ms)))"

section \<open>Strategic conclusion\<close>

datatype kpi = KpiCTR | KpiCPM | KpiCPL | KpiFrequency

text \<open>Whether one cohort's derived metrics meet the benchmark of a KPI (\<open>CUMPLE\<close>).\<close>

fun kpi_meets :: "kpi \<Rightarrow> derived \<Rightarrow> bool" where
  "kpi_meets KpiCTR d = js_ge (ctr d) (b_avg (mb_ctr meta_benchmarks_2025))"
| "kpi_meets KpiCPM d = js_le (cpm d) (b_avg (mb_cpm meta_benchmarks_2025))"
| "kpi_meets KpiCPL d = js_le (cost_per_conversation d) (b_avg (mb_cpl meta_benchmarks_2025))"
| "kpi_meets KpiFrequency d = js_le (frequency d) (mb_freq_prospecting meta_benchmarks_2025)"

definition all_kpis :: "kpi list" where
  "all_kpis = [KpiCTR, KpiCPM, KpiCPL, KpiFrequency]"

text \<open>The \<open>if (...) good.push(...) else bad.push(...)\<close> sequence for one cohort.\<close>

fun push_kpi :: "derived \<Rightarrow> kpi list \<times> kpi list \<Rightarrow> kpi \<Rightarrow> kpi list \<times> kpi list" where
  "push_kpi d (good, bad) k = (if kpi_meets k d then (good @ [k], bad) else (good, bad @ [k]))"

definition good_bad :: "derived \<Rightarrow> kpi list \<times> kpi list" where
  "good_bad d = foldl (push_kpi d) ([], []) all_kpis"

datatype verdict = VerdictArizon | VerdictAntes | VerdictSimilar

record conclusion =
  c_p1_score :: nat
  c_p2_score :: nat
  c_p1_good :: "kpi list"
  c_p1_bad :: "kpi list"
  c_p2_good :: "kpi list"
  c_p2_bad :: "kpi list"
  c_winner :: verdict
  c_recommend_arizon :: bool

text \<open>The score of one cohort: its four \<open>if (...) pNScore++\<close> lines of
  \<open>renderStrategicConclusion\<close>, written apart from the good and bad lists.\<close>

definition conclusion_score :: "derived \<Rightarrow> nat" where
  "conclusion_score d =
     (if js_ge (ctr d) (b_avg (mb_ctr meta_benchmarks_2025)) then 1 else 0)
     + (if js_le (cpm d) (b_avg (mb_cpm meta_benchmarks_2025)) then 1 else 0)
     + (if js_le (cost_per_conversation d) (b_avg (mb_cpl meta_benchmarks_2025)) then 1 else 0)
     + (if js_le (frequency d) (mb_freq_prospecting meta_benchmarks_2025) then 1 else 0)"

text \<open>\<open>renderStrategicConclusion\<close>: the two scores from the eight score \<open>if\<close>s, then
  the good and bad lists from the eight push \<open>if\<close>s, the winner and the recommendation.\<close>

definition strategic_conclusion :: "deep_metrics \<Rightarrow> deep_metrics \<Rightarrow> conclusion" where
  "strategic_conclusion b a =
     (let bd = snd b; ad = snd a;
          p1 = conclusion_score bd;
          p2 = conclusion_score ad;
          gb1 = good_bad bd; gb2 = good_bad ad
      in \<lparr>c_p1_score = p1, c_p2_score = p2,
          c_p1_good = fst gb1, c_p1_bad = snd gb1, c_p2_good = fst gb2, c_p2_bad = snd gb2,
          c_winner = (if p2 > p1 then VerdictArizon else if p1 > p2 then VerdictAntes else VerdictSimilar),
          c_recommend_arizon = js_lt (cost_per_conversation ad) (cost_per_conversation bd)\<rparr>)"

section \<open>Comparative strengths\<close>

datatype strength = ReachPerDollarS | ImpressionsPerDollarS | ClicksPerDollarS | LowerCPMS
  | HigherCTRS | ConversionsPerDollarS | CostPerClientS | VanityS | LowerSaturationS

text \<open>\<open>if (before wins) beforeStrengths.push(s) else afterStrengths.push(s)\<close>\<close>

fun push_strength :: "bool \<Rightarrow> strength \<Rightarrow> strength list \<times> strength list \<Rightarrow> strength list \<times> strength list" where
  "push_strength before_wins s (bs, as) = (if before_wins then (bs @ [s], as) else (bs, as @ [s]))"

definition comparative_strengths :: "deep_metrics \<Rightarrow> deep_metrics \<Rightarrow> strength list \<times> strength list" where
  "comparative_strengths b a =
     (let bm = fst b; am = fst a; bd = snd b; ad = snd a;
          st = push_strength (js_gt (js_div (reach bm) (spend bm)) (js_div (reach am) (spend am)))
                 ReachPerDollarS ([], []);
          st = push_strength (js_gt (js_div (impressions bm) (spend bm)) (js_div (impressions am) (spend am)))
                 ImpressionsPerDollarS st;
          st = push_strength (js_gt (js_div (clicks bm) (spend bm)) (js_div (clicks am) (spend am)))
                 ClicksPerDollarS st;
          st = push_strength (js_lt (cpm bd) (cpm ad)) LowerCPMS st;
          st = push_strength (js_gt (ctr bd) (ctr ad)) HigherCTRS st;
          st = (fst st, snd st @ [ConversionsPerDollarS, CostPerClientS]);
          st = (if js_gt (vanity_results bm) (Fin 0) then (fst st @ [VanityS], snd st) else st)
      in (if js_lt (frequency bd) (frequency ad)
             \<and> js_gt (js_abs (js_sub (frequency bd) (frequency ad))) (Fin 0.2)
          then (fst st @ [LowerSaturationS], snd st) else st))"

text \<open>
  The metric and better direction of each head-to-head strength: reach per dollar, CPM
  and CTR as in the spec's better-direction table, impressions and clicks per dollar
  higher-is-better like reach per dollar. The other strengths are not head-to-head.
\<close>

fun head_to_head :: "strength \<Rightarrow> ((deep_metrics \<Rightarrow> jsnum) \<times> direction) option" where
  "head_to_head ReachPerDollarS =
     Some (\<lambda>m. js_div (reach (fst m)) (spend (fst m)), metric_direction ReachPerDollar)"
| "head_to_head ImpressionsPerDollarS = Some (\<lambda>m. js_div (impressions (fst m)) (spend (fst m)), HigherBetter)"
| "head_to_head ClicksPerDollarS = Some (\<lambda>m. js_div (clicks (fst m)) (spend (fst m)), HigherBetter)"
| "head_to_head LowerCPMS = Some (\<lambda>m. cpm (snd m), metric_direction CPM)"
| "head_to_head HigherCTRS = Some (\<lambda>m. ctr (snd m), metric_direction CTR)"
| "head_to_head _ = None"

section \<open>Hidden insights: budget projection\<close>

text \<open>
  \<open>projectedConversationsAt2000 = Math.round(after.conversations * (2000 / after.spend))\<close>
  and \<open>projectedCostAt2000 = 2000 / projectedConversationsAt2000\<close>.
\<close>

definition budget_projection :: "deep_metrics \<Rightarrow> jsnum \<times> jsnum" where
  "budget_projection a =
     (let pc = js_round (js_mul (conversations (fst a)) (js_div (Fin 2000) (spend (fst a))))
      in (pc, js_div (Fin 2000) pc))"

text \<open>\<open>roiImprovement\<close>, \<open>efficiencyMultiplier\<close> and \<open>conversionRateMultiplier\<close>.\<close>

definition insight_multipliers :: "deep_metrics \<Rightarrow> deep_metrics \<Rightarrow> jsnum \<times> jsnum \<times> jsnum" where
  "insight_multipliers b a =
     (let bd = snd b; ad = snd a
      in (js_mul (js_div (js_sub (cost_per_conversation bd) (cost_per_conversation ad))
                    (cost_per_conversation bd)) (Fin 100),
          js_div (quality_score ad) (quality_score bd),
          js_div (conversion_rate ad) (conversion_rate bd)))"

section \<open>Fixtures\<close>

text \<open>A conversation row with the given spend, reach, impressions and clicks.\<close>

definition metric_row :: "real \<Rightarrow> real \<Rightarrow> real \<Rightarrow> real \<Rightarrow> row" where
  "metric_row s rc im cl =
     (mk_row ''A'' ''Conversaciones con mensajes iniciadas'' (CNum s) (CNum 1))
       \<lparr>reach_cell := CNum rc, impressions_cell := CNum im, clicks_cell := CNum cl\<rparr>"

section \<open>Lemmas\<close>

lemma score_fold:
  "foldl (\<lambda>s (c1, c2). score_point c1 c2 s) (s1, s2) cs
   = (s1 + length (filter fst cs), s2 + length (filter (\<lambda>c. \<not> fst c \<and> snd c) cs))"
  by (induction cs arbitrary: s1 s2) auto

lemma score_count_le: "length (filter fst cs) + length (filter (\<lambda>c. \<not> fst c \<and> snd c) cs) \<le> length cs"
  by (induction cs) auto

lemma exclusive_count:
  "\<forall>c \<in> set cs. \<not> (fst c \<and> snd c) \<Longrightarrow> length (filter (\<lambda>c. \<not> fst c \<and> snd c) cs) = length (filter snd cs)"
  by (induction cs) auto

lemma exec_conditions_exclusive: "\<forall>c \<in> set (exec_conditions b a). \<not> (fst c \<and> snd c)"
  by (auto simp: exec_conditions_def Let_def dest: js_lt_asym)

lemma exec_conditions_swap: "mset (exec_conditions a b) = mset (map prod.swap (exec_conditions b a))"
  by (simp add: exec_conditions_def Let_def add_mset_commute)

text \<open>
  The executive summary's favourable-metric scores add up to at most 6: the five
  head-to-head lines score for at most one cohort each, and the two frequency lines
  cannot both score.
\<close>

theorem exec_scores_bound: "fst (exec_scores b a) + snd (exec_scores b a) \<le> 6"
proof -
  let ?cs = "exec_conditions b a"
  have "length (filter fst ?cs) + length (filter (\<lambda>c. \<not> fst c \<and> snd c) ?cs) \<le> 6"
  proof -
    obtain xs f1 f2 where cs: "?cs = xs @ [(f1, False), (False, f2)]" and "length xs = 5"
      and ex: "\<not> (f1 \<and> f2)"
      by (auto simp: exec_conditions_def Let_def dest: js_lt_asym)
    then show ?thesis using score_count_le [of xs] by auto
  qed
  then show ?thesis by (simp add: exec_scores_def score_fold)
qed

text \<open>
  The executive summary's scoring is symmetric: exchanging the two cohorts
  exchanges their scores.
\<close>

theorem exec_scores_swap: "exec_scores a b = prod.swap (exec_scores b a)"
proof -
  have "length (filter fst (exec_conditions a b)) = length (filter snd (exec_conditions b a))"
    using length_filter_mset [OF exec_conditions_swap, of fst] by (simp add: filter_map comp_def)
  moreover have "length (filter snd (exec_conditions a b)) = length (filter fst (exec_conditions b a))"
    using length_filter_mset [OF exec_conditions_swap, of snd] by (simp add: filter_map comp_def)
  ultimately show ?thesis
    by (simp add: exec_scores_def score_fold exclusive_count [OF exec_conditions_exclusive])
qed

lemma good_bad_foldl:
  "foldl (push_kpi d) (g, b) ks = (g @ filter (\<lambda>k. kpi_meets k d) ks, b @ filter (\<lambda>k. \<not> kpi_meets k d) ks)"
  by (induction ks arbitrary: g b) auto

lemma conclusion_score_count: "conclusion_score d = length (filter (\<lambda>k. kpi_meets k d) all_kpis)"
  by (simp add: conclusion_score_def all_kpis_def)

lemma good_bad_filter: "good_bad d = (filter (\<lambda>k. kpi_meets k d) all_kpis, filter (\<lambda>k. \<not> kpi_meets k d) all_kpis)"
  by (simp add: good_bad_def good_bad_foldl)

text \<open>
  C13. The benchmark-compliance score of each cohort is its strategic-conclusion score
  plus one when its CPC meets the CPC benchmark: the two routines count the same four
  KPIs against the same table, and compliance adds CPC.
\<close>

theorem compliance_extends_conclusion:
  "fst (compliance_scores b a)
     = c_p1_score (strategic_conclusion b a) + (if evaluate (cpc (snd b)) (b_avg (mb_cpc meta_benchmarks_2025)) True then 1 else 0)
   \<and> snd (compliance_scores b a)
     = c_p2_score (strategic_conclusion b a) + (if evaluate (cpc (snd a)) (b_avg (mb_cpc meta_benchmarks_2025)) True then 1 else 0)"
  by (simp add: compliance_scores_def compliance_metrics_def strategic_conclusion_def
      conclusion_score_def evaluate_def Let_def)

text \<open>
  C14. In the strategic conclusion every KPI is listed exactly once per cohort, as done
  well or done poorly, and each cohort's score, counted by its own four \<open>if\<close>s apart
  from the lists, is the number of KPIs listed as done well.
\<close>

theorem conclusion_kpis_partition:
  "let c = strategic_conclusion b a in
     mset (c_p1_good c) + mset (c_p1_bad c) = mset all_kpis \<and> c_p1_score c = length (c_p1_good c)
   \<and> mset (c_p2_good c) + mset (c_p2_bad c) = mset all_kpis \<and> c_p2_score c = length (c_p2_good c)"
  by (simp add: strategic_conclusion_def good_bad_filter Let_def conclusion_score_count
      mset_filter_partition [of "\<lambda>k. kpi_meets k _", simplified add.commute])

lemma push_strength_mset:
  "mset (fst (push_strength c s st)) + mset (snd (push_strength c s st)) = mset (fst st) + mset (snd st) + {#s#}"
  by (cases st) simp

lemma push_strength_snd:
  "set (snd (push_strength c s st)) = (if c then set (snd st) else insert s (set (snd st)))"
  by (cases st) auto

lemma push_strength_fst:
  "set (fst (push_strength c s st)) = (if c then insert s (set (fst st)) else set (fst st))"
  by (cases st) auto

text \<open>
  C15. Each head-to-head strength is listed once, in the before list exactly when the
  before cohort is strictly better by that metric's direction and in the Arizon list
  otherwise (ties and NaN comparisons go to Arizon); conversions per dollar and cost per
  client are always Arizon strengths whatever the numbers; vanity and lower saturation
  are added to the before list under their conditions.
\<close>

theorem strengths_follow_directions:
  assumes "head_to_head s = Some (v, dir)"
  shows "let st = comparative_strengths b a in
     (s \<in> set (fst st) \<longleftrightarrow> spec_after_wins dir (v a) (v b))
   \<and> (s \<in> set (snd st) \<longleftrightarrow> \<not> spec_after_wins dir (v a) (v b))
   \<and> mset (fst st) + mset (snd st)
       = mset [ReachPerDollarS, ImpressionsPerDollarS, ClicksPerDollarS, LowerCPMS, HigherCTRS,
               ConversionsPerDollarS, CostPerClientS]
         + (if js_gt (vanity_results (fst b)) (Fin 0) then {#VanityS#} else {#})
         + (if js_lt (frequency (snd b)) (frequency (snd a))
               \<and> js_gt (js_abs (js_sub (frequency (snd b)) (frequency (snd a)))) (Fin 0.2)
            then {#LowerSaturationS#} else {#})
   \<and> ConversionsPerDollarS \<in> set (snd st) \<and> CostPerClientS \<in> set (snd st)"
proof -
  have side: "(s \<in> set (fst (comparative_strengths b a)) \<longleftrightarrow> spec_after_wins dir (v a) (v b))
            \<and> (s \<in> set (snd (comparative_strengths b a)) \<longleftrightarrow> \<not> spec_after_wins dir (v a) (v b))"
    using assms
    by (cases s) (auto simp: comparative_strengths_def Let_def push_strength_fst push_strength_snd)
  have parts: "mset (fst (comparative_strengths b a)) + mset (snd (comparative_strengths b a))
       = mset [ReachPerDollarS, ImpressionsPerDollarS, ClicksPerDollarS, LowerCPMS, HigherCTRS,
               ConversionsPerDollarS, CostPerClientS]
         + (if js_gt (vanity_results (fst b)) (Fin 0) then {#VanityS#} else {#})
         + (if js_lt (frequency (snd b)) (frequency (snd a))
               \<and> js_gt (js_abs (js_sub (frequency (snd b)) (frequency (snd a)))) (Fin 0.2)
            then {#LowerSaturationS#} else {#})
   \<and> ConversionsPerDollarS \<in> set (snd (comparative_strengths b a))
   \<and> CostPerClientS \<in> set (snd (comparative_strengths b a))"
    by (simp add: comparative_strengths_def Let_def push_strength_mset push_strength_snd add_mset_commute)
  from side parts show ?thesis by (simp add: Let_def)
qed

lemmas cohort_eval = deep_eval metric_row_def derive_def

text \<open>
  C12. For every row of the metrics table except conversations and frequency, the
  Arizon-wins flag is the spec's better-direction comparison of the two values.
\<close>

theorem metrics_table_refines_spec:
  assumes "r \<in> set (metrics_table b a)" and "tr_metric r \<notin> {Conversations, Frequency}"
  shows "tr_arizon_wins r = spec_after_wins (metric_direction (tr_metric r)) (tr_before r) (tr_after r)"
  using assms by (auto simp: metrics_table_def Let_def mk_table_row_def)

theorem metrics_table_refines_spec_witness:
  "tr_arizon_wins (metrics_table (calculate_deep_metrics example_rows) (calculate_deep_metrics []) ! 2)
   = spec_after_wins LowerBetter
       (tr_before (metrics_table (calculate_deep_metrics example_rows) (calculate_deep_metrics []) ! 2))
       (tr_after (metrics_table (calculate_deep_metrics example_rows) (calculate_deep_metrics []) ! 2))"
proof -
  let ?t = "metrics_table (calculate_deep_metrics example_rows) (calculate_deep_metrics [])"
  have m: "tr_metric (?t ! 2) = CostPerConversation" by (simp add: metrics_table_def Let_def mk_table_row_def)
  have "?t ! 2 \<in> set ?t" by (simp add: metrics_table_def Let_def)
  from metrics_table_refines_spec [OF this] m show ?thesis by simp
qed

text \<open>
  The metrics table declares Arizon the winner of conversations whatever the
  numbers: with 2 conversations before and 0 after it still does, where the spec's
  higher-is-better rule gives the before cohort.
\<close>

theorem metrics_table_conversations_always_arizon:
  "tr_metric (metrics_table b a ! 1) = Conversations \<and> tr_arizon_wins (metrics_table b a ! 1)
   \<and> (let t = metrics_table (calculate_deep_metrics example_rows) (calculate_deep_metrics []) ! 1
      in tr_before t = Fin 2 \<and> tr_after t = Fin 0
         \<and> \<not> spec_after_wins (metric_direction Conversations) (tr_before t) (tr_after t))"
  by (simp add: metrics_table_def Let_def mk_table_row_def deep_eval example_rows_def)

text \<open>
  The metrics table's frequency winner only checks that Arizon's frequency is
  inside [1.5, 2.5]: with both cohorts inside (2.0 before, 1.6 after) Arizon wins, where
  the spec asks for a strict improvement.
\<close>

theorem metrics_table_frequency_ignores_before:
  "let t = metrics_table (calculate_deep_metrics [metric_row 10 100 200 4])
                         (calculate_deep_metrics [metric_row 10 100 160 4]) ! 8
   in tr_before t = Fin 2 \<and> tr_after t = Fin 1.6 \<and> tr_arizon_wins t
      \<and> \<not> spec_after_wins (metric_direction Frequency) (tr_before t) (tr_after t)"
  by (simp add: metrics_table_def Let_def mk_table_row_def cohort_eval)

text \<open>
  The hidden-insights projection at 2000 USD is NaN for an empty after cohort (0
  conversations times 2000/0), and its cost is Infinity when the after cohort has spend
  but no conversations; the spec asks the projection never to be NaN.
\<close>

theorem budget_projection_NaN:
  "budget_projection (calculate_deep_metrics []) = (NaN, NaN)
   \<and> budget_projection (calculate_deep_metrics [mk_row ''A'' ''Otro'' (CNum 10) (CNum 3)]) = (Fin 0, PInf)"
  by (simp add: budget_projection_def deep_eval inf_of_sign_def)

text \<open>
  CPM is monotone in spend: with the impressions fixed and finite, more spend never
  gives a lower CPM (the spec's monotonicity property).
\<close>

theorem cpm_monotone_in_spend:
  assumes "js_le s1 s2" and "is_finite (impressions m)"
  shows "js_le (cpm (derive (m\<lparr>spend := s1\<rparr>))) (cpm (derive (m\<lparr>spend := s2\<rparr>)))"
proof (cases "js_pos (impressions m)")
  case True
  then obtain i where i: "impressions m = Fin i" "0 < i" using assms(2) by (auto simp: is_finite_iff)
  then show ?thesis using js_mul_mono [OF js_div_mono [OF assms(1) i(2)], of 1000] by (simp add: derive_def)
next
  case False
  then show ?thesis by (simp add: derive_def)
qed

theorem cpm_monotone_in_spend_witness:
  "js_le (cpm (derive ((deep_init 0)\<lparr>impressions := Fin 100, spend := Fin 1\<rparr>)))
         (cpm (derive ((deep_init 0)\<lparr>impressions := Fin 100, spend := Fin 2\<rparr>)))"
  using cpm_monotone_in_spend [of "Fin 1" "Fin 2" "(deep_init 0)\<lparr>impressions := Fin 100\<rparr>"]
  by (simp add: is_finite_iff deep_init_def)

text \<open>
  Scenario C: against the CTR benchmark 1.4, a cohort with CTR 2.0 complies and a
  cohort with CTR 1.0 does not.
\<close>

theorem scenario_c_ctr_compliance:
  assumes "ctr (snd b) = Fin 2.0" and "ctr (snd a) = Fin 1.0"
  shows "let m = hd (compliance_metrics b a)
         in bm_name m = ''CTR'' \<and> evaluate (bm_p1 m) (bm_bench m) (bm_lower m)
            \<and> \<not> evaluate (bm_p2 m) (bm_bench m) (bm_lower m)"
  using assms by (simp add: compliance_metrics_def evaluate_def meta_benchmarks_2025_def Let_def)

theorem scenario_c_ctr_compliance_witness:
  "let m = hd (compliance_metrics (calculate_deep_metrics [metric_row 10 100 100 2])
                                  (calculate_deep_metrics [metric_row 10 100 100 1]))
   in evaluate (bm_p1 m) (bm_bench m) (bm_lower m) \<and> \<not> evaluate (bm_p2 m) (bm_bench m) (bm_lower m)"
proof -
  have "ctr (snd (calculate_deep_metrics [metric_row 10 100 100 2])) = Fin 2.0"
    and "ctr (snd (calculate_deep_metrics [metric_row 10 100 100 1])) = Fin 1.0"
    by (simp_all add: cohort_eval)
  from scenario_c_ctr_compliance [OF this] show ?thesis by (simp add: Let_def)
qed

theorem strengths_follow_directions_witness:
  "let st = comparative_strengths (calculate_deep_metrics example_rows) (calculate_deep_metrics []) in
     (LowerCPMS \<in> set (fst st) \<longleftrightarrow>
        spec_after_wins LowerBetter (cpm (snd (calculate_deep_metrics []))) (cpm (snd (calculate_deep_metrics example_rows))))
   \<and> (LowerCPMS \<in> set (snd st) \<longleftrightarrow>
        \<not> spec_after_wins LowerBetter (cpm (snd (calculate_deep_metrics []))) (cpm (snd (calculate_deep_metrics example_rows))))"
  using strengths_follow_directions [of LowerCPMS "\<lambda>m. cpm (snd m)" LowerBetter
          "calculate_deep_metrics example_rows" "calculate_deep_metrics []"]
  by (simp add: Let_def)

end
