(* ===== verification/Ranking.thy ===== *)
theory Ranking
  imports Scoring "HOL-Library.List_Lexorder" "HOL-Library.Char_ord"
begin

text \<open>
  The rankings of src/analyzer-comparative.js: each takes one of the objects built by
  \<open>calculateDeepMetrics\<close> (demographics, ads, result types), lists it with
  \<open>Object.entries\<close>, filters, maps each entry to a ranked item and sorts it with a numeric
  comparator, then slices. \<open>js_sort_by\<close> returns \<open>None\<close> when a sort key is \<open>NaN\<close>
  (the comparator is then inconsistent and the order implementation-defined), so every
  ranking is an \<open>option\<close>. The definitions follow the \<open>render*\<close> functions in source
  order: result-type breakdown, audience insights, top ads, best demographics of the
  strengths panel, best/worst segment of the hidden insights, the efficiency matrix and the
  demographics chart's keys. The lemmas show that a sorted ranking's head really holds the
  smallest (or largest) keys, that the best and worst slices overlap on small inputs, that
  the result-type shares add up to 100 percent, and that the efficiency matrix's "potential
  savings" can be negative.
\<close>

section \<open>Result-type breakdown\<close>

record type_share =
  ts_name :: string
  ts_spend :: jsnum
  ts_results :: jsnum
  ts_pct :: jsnum
  ts_cpr :: jsnum
  ts_is_conversation :: bool

text \<open>\<open>.filter(([name]) => name && name !== 'null' && name !== 'undefined')
  .sort((a, b) => b[1].spend - a[1].spend)\<close>\<close>

definition sorted_types :: "rt_tot obj \<Rightarrow> (string \<times> rt_tot) list option" where
  "sorted_types types =
     js_sort_desc_by (\<lambda>e. rt_spend (snd e))
       (filter (\<lambda>e. fst e \<noteq> [] \<and> fst e \<noteq> ''null'' \<and> fst e \<noteq> ''undefined'') (obj_entries types))"

text \<open>\<open>renderTypes\<close>: per entry, its share of the total spend and its cost per result.\<close>

definition type_share_of :: "jsnum \<Rightarrow> string \<times> rt_tot \<Rightarrow> type_share" where
  "type_share_of tot e =
     (let name = fst e; v = snd e
      in \<lparr>ts_name = name, ts_spend = rt_spend v, ts_results = rt_results v,
          ts_pct = (if js_pos tot then js_mul (js_div (rt_spend v) tot) (Fin 100) else Fin 0),
          ts_cpr = (if js_pos (rt_results v) then js_div (rt_spend v) (rt_results v) else Fin 0),
          ts_is_conversation = is_conversation_type name\<rparr>)"

text \<open>\<open>total = sorted.reduce((sum, [, v]) => sum + v.spend, 0)\<close>\<close>

definition type_breakdown :: "rt_tot obj \<Rightarrow> type_share list option" where
  "type_breakdown types =
     map_option (\<lambda>sorted. map (type_share_of (foldl (\<lambda>s e. s + rt_spend (snd e)) (Fin 0) sorted)) sorted)
       (sorted_types types)"

section \<open>Audience insights\<close>

record segment =
  sg_name :: string
  sg_tot :: demo_tot
  sg_cpr :: jsnum

text \<open>\<open>Object.entries(after.demographics).filter(([, v]) => v.conversations > 0)
  .map(([name, v]) => ({name, ...v, cpr: v.conversations > 0 ? v.spend / v.conversations
  : Infinity})).sort((a, b) => a.cpr - b.cpr)\<close>\<close>

definition segment_of :: "string \<times> demo_tot \<Rightarrow> segment" where
  "segment_of e =
     \<lparr>sg_name = fst e, sg_tot = snd e,
      sg_cpr = (if js_pos (dm_conversations (snd e)) then js_div (dm_spend (snd e)) (dm_conversations (snd e))
                else PInf)\<rparr>"

definition converting_segments :: "demo_tot obj \<Rightarrow> segment list" where
  "converting_segments demos =
     map segment_of (filter (\<lambda>e. js_pos (dm_conversations (snd e))) (obj_entries demos))"

text \<open>\<open>bestAudiences = afterDemos.slice(0, 3)\<close>,
  \<open>worstAudiences = afterDemos.slice(-3).reverse()\<close>.\<close>

definition audience_insights :: "deep_metrics \<Rightarrow> (segment list \<times> segment list) option" where
  "audience_insights a =
     map_option (\<lambda>s. (take 3 s, rev (slice_last 3 s)))
       (js_sort_by sg_cpr (converting_segments (demographics (fst a))))"

section \<open>Top ads\<close>

record ad_item =
  ai_name :: string
  ai_tot :: ad_tot
  ai_cpr :: jsnum
  ai_ctr :: jsnum

text \<open>\<open>getTopAds\<close>: ads with results and more than 5 USD spend, by spend descending, first 5.\<close>

definition top_ads :: "ad_tot obj \<Rightarrow> ad_item list option" where
  "top_ads m =
     map_option (take 5)
       (js_sort_desc_by (\<lambda>x. ad_spend (ai_tot x))
         (map (\<lambda>(name, v).
                 \<lparr>ai_name = name, ai_tot = v, ai_cpr = js_div (ad_spend v) (ad_results v),
                  ai_ctr = (if js_pos (ad_impressions v)
                            then js_mul (js_div (ad_clicks v) (ad_impressions v)) (Fin 100) else Fin 0)\<rparr>)
           (filter (\<lambda>e. js_pos (ad_results (snd e)) \<and> js_gt (ad_spend (snd e)) (Fin 5)) (obj_entries m))))"

section \<open>Best demographics of the strengths panel\<close>

text \<open>\<open>.filter(([_, v]) => v.spend > 0 && num(v) > 0).map(([name, v]) => ({ name, roi:
  num(v) / v.spend })).sort((a, b) => b.roi - a.roi).slice(0, 3)\<close>, with \<open>num\<close> the
  results for the before cohort and the conversations for the after cohort.\<close>

definition best_demos_by :: "(demo_tot \<Rightarrow> jsnum) \<Rightarrow> demo_tot obj \<Rightarrow> (string \<times> jsnum) list option" where
  "best_demos_by num demos =
     map_option (take 3)
       (js_sort_desc_by snd
         (map (\<lambda>e. (fst e, js_div (num (snd e)) (dm_spend (snd e))))
           (filter (\<lambda>e. js_pos (dm_spend (snd e)) \<and> js_pos (num (snd e))) (obj_entries demos))))"

definition best_demos :: "deep_metrics \<Rightarrow> deep_metrics \<Rightarrow> (string \<times> jsnum) list option \<times> (string \<times> jsnum) list option" where
  "best_demos b a =
     (best_demos_by dm_results (demographics (fst b)), best_demos_by dm_conversations (demographics (fst a)))"

section \<open>Best and worst segment of the hidden insights and the recommendations\<close>

text \<open>\<open>bestDemo\<close>: the after cohort's converting segment of lowest cost per conversation;
  \<open>worstDemo\<close>: the before cohort's of highest; \<open>undefined\<close> when there is none.\<close>

definition segment_cpr :: "string \<times> demo_tot \<Rightarrow> string \<times> jsnum" where
  "segment_cpr e = (fst e, js_div (dm_spend (snd e)) (dm_conversations (snd e)))"

definition hidden_best_worst :: "deep_metrics \<Rightarrow> deep_metrics \<Rightarrow> (string \<times> jsnum) option option \<times> (string \<times> jsnum) option option" where
  "hidden_best_worst b a =
     (map_option first_opt (js_sort_by snd (map segment_cpr
        (filter (\<lambda>e. js_pos (dm_conversations (snd e))) (obj_entries (demographics (fst a)))))),
      map_option first_opt (js_sort_desc_by snd (map segment_cpr
        (filter (\<lambda>e. js_pos (dm_conversations (snd e))) (obj_entries (demographics (fst b)))))))"

text \<open>\<open>renderStrategicRecommendations\<close>: segments with more than 10 conversations.\<close>

definition recommended_demo :: "deep_metrics \<Rightarrow> (string \<times> jsnum) option option" where
  "recommended_demo a =
     map_option first_opt (js_sort_by snd (map segment_cpr
       (filter (\<lambda>e. js_gt (dm_conversations (snd e)) (Fin 10)) (obj_entries (demographics (fst a))))))"

section \<open>Efficiency matrix\<close>

record demo_eff =
  de_name :: string
  de_spend :: jsnum
  de_conversations :: jsnum
  de_cpr :: jsnum
  de_reach :: jsnum
  de_efficiency :: jsnum

definition demo_eff_of :: "string \<times> demo_tot \<Rightarrow> demo_eff" where
  "demo_eff_of e =
     (let v = snd e
      in \<lparr>de_name = fst e, de_spend = dm_spend v, de_conversations = dm_conversations v,
          de_cpr = js_div (dm_spend v) (dm_conversations v), de_reach = js_or (dm_reach v) (Fin 0),
          de_efficiency = js_mul (js_div (dm_conversations v) (dm_spend v)) (Fin 100)\<rparr>)"

record efficiency =
  ef_best3 :: "demo_eff list"
  ef_worst3 :: "demo_eff list"
  ef_avg_cpr :: jsnum
  ef_worst_spend :: jsnum
  ef_potential_savings :: jsnum
  ef_untapped :: "(string \<times> jsnum \<times> jsnum) list"

text \<open>\<open>renderEfficiencyMatrix\<close>: the ranked segments, their mean cost per conversation,
  the savings the code projects from the three worst, and up to three segments of large
  reach and few conversations (in entry order).\<close>

definition efficiency_matrix :: "deep_metrics \<Rightarrow> efficiency option" where
  "efficiency_matrix a =
     (let demos = demographics (fst a);
          untapped = take 3 (map (\<lambda>e. (fst e, dm_reach (snd e), dm_conversations (snd e)))
                      (filter (\<lambda>e. js_gt (dm_reach (snd e)) (Fin 5000) \<and> js_lt (dm_conversations (snd e)) (Fin 50))
                         (obj_entries demos)))
      in map_option (\<lambda>s.
           let best3 = take 3 s; worst3 = rev (slice_last 3 s);
               avg = js_div (foldl (\<lambda>t d. t + de_cpr d) (Fin 0) s) (Fin (real (length s)))
           in \<lparr>ef_best3 = best3, ef_worst3 = worst3, ef_avg_cpr = avg,
               ef_worst_spend = foldl (\<lambda>t d. t + de_spend d) (Fin 0) worst3,
               ef_potential_savings =
                 foldl (\<lambda>t d. t + js_mul (de_spend d) (js_sub (Fin 1) (js_div avg (de_cpr d)))) (Fin 0) worst3,
               ef_untapped = untapped\<rparr>)
         (js_sort_by de_cpr
           (map demo_eff_of (filter (\<lambda>e. js_pos (dm_conversations (snd e)) \<and> js_gt (dm_spend (snd e)) (Fin 5))
              (obj_entries demos)))))"

section \<open>Demographics chart\<close>

text \<open>\<open>[...new Set([...keys(before), ...keys(after)])].filter(k => !k.includes('Unknown')
  && !k.includes('Otro')).sort()\<close> and the two spend series
  (\<open>demographics[k]?.spend || 0\<close>).\<close>

definition chart_keys :: "deep_metrics \<Rightarrow> deep_metrics \<Rightarrow> string list" where
  "chart_keys b a =
     sort (filter (\<lambda>k. \<not> contains ''Unknown'' k \<and> \<not> contains ''Otro'' k)
       (remdups (obj_keys (demographics (fst b)) @ obj_keys (demographics (fst a)))))"

definition chart_series :: "deep_metrics \<Rightarrow> string list \<Rightarrow> jsnum list" where
  "chart_series c keys =
     map (\<lambda>k. case map_of (demographics (fst c)) k of Some v \<Rightarrow> js_or (dm_spend v) (Fin 0) | None \<Rightarrow> Fin 0) keys"

section \<open>Fixtures\<close>

text \<open>A conversation row of a given gender and age with the given spend and conversations,
  and four segments with costs per conversation 1, 1, 1 and 100.\<close>

definition demo_row :: "string \<Rightarrow> string \<Rightarrow> real \<Rightarrow> real \<Rightarrow> row" where
  "demo_row sx ag s c =
     (mk_row ''Ad'' ''Conversaciones con mensajes iniciadas'' (CNum s) (CNum c))\<lparr>sex := sx, age := ag\<rparr>"

definition skewed_rows :: "row list" where
  "skewed_rows = [demo_row ''male'' ''18-24'' 10 10, demo_row ''male'' ''25-34'' 10 10,
                  demo_row ''male'' ''35-44'' 10 10, demo_row ''female'' ''18-24'' 100 1]"

section \<open>Lemmas\<close>

text \<open>
  C16. The audience insights rank correctly: when the converting segments sort, the best
  three are the first three of a sorted permutation of them, each with a cost per
  conversation no higher than any segment after them, and the segments to optimize are
  the last three, reversed, none cheaper than a segment before them.
\<close>

theorem audience_insights_ranked:
  assumes "audience_insights a = Some (best, worst)"
  shows "\<exists>s. mset s = mset (converting_segments (demographics (fst a)))
           \<and> best = take 3 s \<and> worst = rev (slice_last 3 s)
           \<and> (\<forall>x \<in> set best. \<forall>y \<in> set (drop 3 s). js_le (sg_cpr x) (sg_cpr y))
           \<and> (\<forall>x \<in> set (take (length s - 3) s). \<forall>y \<in> set worst. js_le (sg_cpr x) (sg_cpr y))"
proof -
  obtain s where s: "js_sort_by sg_cpr (converting_segments (demographics (fst a))) = Some s"
    and bw: "best = take 3 s" "worst = rev (slice_last 3 s)"
    using assms by (auto simp: audience_insights_def)
  show ?thesis
  proof (intro exI conjI ballI)
    show "mset s = mset (converting_segments (demographics (fst a)))" using js_sort_by_mset [OF s] .
    show "best = take 3 s" "worst = rev (slice_last 3 s)" using bw .
    show "js_le (sg_cpr x) (sg_cpr y)" if "x \<in> set best" "y \<in> set (drop 3 s)" for x y
      using js_sort_by_take_drop [OF s] that bw by simp
    show "js_le (sg_cpr x) (sg_cpr y)" if "x \<in> set (take (length s - 3) s)" "y \<in> set worst" for x y
      using js_sort_by_take_drop [OF s that(1)] that(2) bw by (simp add: slice_last_def)
  qed
qed

lemma foldl_plus_sum_list: "foldl (\<lambda>s e. s + g e) z xs = z + sum_list (map g xs)"
  by (induction xs arbitrary: z) (simp_all add: add.assoc)

lemma sum_list_pct:
  assumes "\<forall>x \<in> set xs. is_finite (g x)" and "0 < t"
  shows "sum_list (map (\<lambda>x. js_mul (js_div (g x) (Fin t)) (Fin 100)) xs)
         = js_mul (js_div (sum_list (map g xs)) (Fin t)) (Fin 100)"
  using assms
proof (induction xs)
  case Nil
  then show ?case by (simp add: zero_jsnum_def)
next
  case (Cons a xs)
  obtain r where r: "g a = Fin r" using Cons.prems by (auto simp: is_finite_iff)
  obtain u where u: "sum_list (map g xs) = Fin u"
    using js_sum_not_NaN_finite [of "map g xs"] Cons.prems by (auto simp: is_finite_iff)
  have "r / t * 100 + u / t * 100 = (r + u) / t * 100" by (simp add: add_divide_distrib distrib_right)
  with Cons r u show ?case by simp
qed

lemma sorted_types_set:
  assumes "sorted_types types = Some srt"
  shows "set srt \<subseteq> set types"
proof -
  let ?xs = "filter (\<lambda>e. fst e \<noteq> [] \<and> fst e \<noteq> ''null'' \<and> fst e \<noteq> ''undefined'') (obj_entries types)"
  have "js_sort_by (\<lambda>e. js_neg (rt_spend (snd e))) ?xs = Some srt"
    using assms unfolding sorted_types_def js_sort_desc_by_def .
  then have "set srt = set ?xs" by (rule js_sort_by_set)
  also have "\<dots> \<subseteq> set (obj_entries types)" by (rule filter_is_subset)
  also have "\<dots> = set types" by (rule set_obj_entries)
  finally show ?thesis .
qed

text \<open>
  C17. The result-type breakdown's spend shares add up to 100 percent whenever the
  spends are finite and their total is positive.
\<close>

theorem type_breakdown_shares:
  assumes "type_breakdown types = Some ts" and "\<forall>e \<in> set types. is_finite (rt_spend (snd e))"
    and "js_pos (sum_list (map ts_spend ts))"
  shows "sum_list (map ts_pct ts) = Fin 100"
proof -
  obtain srt where srt: "sorted_types types = Some srt"
    and ts: "ts = map (type_share_of (foldl (\<lambda>s e. s + rt_spend (snd e)) (Fin 0) srt)) srt"
    using assms(1) by (auto simp: type_breakdown_def)
  have spend: "map ts_spend ts = map (\<lambda>e. rt_spend (snd e)) srt"
    by (simp add: ts type_share_of_def Let_def)
  have total: "foldl (\<lambda>s e. s + rt_spend (snd e)) (Fin 0) srt = sum_list (map ts_spend ts)"
    by (simp add: foldl_plus_sum_list spend flip: jsnum_zero_Fin)
  have fin: "\<forall>e \<in> set srt. is_finite (rt_spend (snd e))" using sorted_types_set [OF srt] assms(2) by blast
  then obtain t where t: "sum_list (map ts_spend ts) = Fin t"
    using js_sum_not_NaN_finite [of "map ts_spend ts"] by (auto simp: is_finite_iff spend)
  with assms(3) have t0: "0 < t" by simp
  have ts': "ts = map (type_share_of (Fin t)) srt" using ts total t by simp
  have "map ts_pct ts = map (\<lambda>e. js_mul (js_div (rt_spend (snd e)) (Fin t)) (Fin 100)) srt"
    using t0 by (simp add: ts' type_share_of_def Let_def)
  then have "sum_list (map ts_pct ts) = js_mul (js_div (sum_list (map (\<lambda>e. rt_spend (snd e)) srt)) (Fin t)) (Fin 100)"
    using sum_list_pct [OF _ t0] fin by simp
  also have "\<dots> = Fin 100" using t t0 by (simp flip: spend)
  finally show ?thesis .
qed

lemma best_worst_overlap:
  assumes "audience_insights a = Some (best, worst)"
    and "converting_segments (demographics (fst a)) \<noteq> []"
    and "length (converting_segments (demographics (fst a))) \<le> 5"
  shows "set best \<inter> set worst \<noteq> {}"
proof -
  obtain s where s: "js_sort_by sg_cpr (converting_segments (demographics (fst a))) = Some s"
    and bw: "best = take 3 s" "worst = rev (slice_last 3 s)"
    using assms(1) by (auto simp: audience_insights_def)
  have n: "length s = length (converting_segments (demographics (fst a)))"
    using js_sort_by_mset [OF s] by (metis size_mset)
  let ?i = "length s - min 3 (length s)"
  have "?i < length s" using assms(2) n by auto
  have t: "take 3 s ! ?i = s ! ?i" "?i < length (take 3 s)" using assms(3) n \<open>?i < length s\<close> by auto
  have d: "drop (length s - 3) s ! (?i - (length s - 3)) = s ! ?i"
    "?i - (length s - 3) < length (drop (length s - 3) s)"
    using \<open>?i < length s\<close> by (simp_all add: nth_drop min_def)
  have "s ! ?i \<in> set (take 3 s)" "s ! ?i \<in> set (drop (length s - 3) s)"
    using nth_mem [OF t(2)] nth_mem [OF d(2)] t(1) d(1) by simp_all
  then have "s ! ?i \<in> set best" "s ! ?i \<in> set worst"
    by (simp_all add: bw slice_last_def)
  then show ?thesis by blast
qed

text \<open>
  The efficiency matrix's potential savings can be negative: with segments of cost
  per conversation 1, 1, 1 and 100 the three worst include two of cost 1, below the mean
  25.75, and the projected savings are -420.75 USD.
\<close>

theorem efficiency_savings_negative:
  "map_option (\<lambda>e. (map de_cpr (ef_worst3 e), ef_avg_cpr e, ef_potential_savings e))
     (efficiency_matrix (calculate_deep_metrics skewed_rows))
   = Some ([Fin 100, Fin 1, Fin 1], Fin 25.75, Fin (-420.75))"
  by code_simp

section \<open>Witnesses\<close>

theorem audience_insights_ranked_witness:
  "\<exists>s. mset s = mset (converting_segments (demographics (deep_acc_of skewed_rows)))
       \<and> map sg_name (take 3 s) = [''Hombres 18-24'', ''Hombres 25-34'', ''Hombres 35-44'']
       \<and> map sg_name (rev (slice_last 3 s)) = [''Mujeres 18-24'', ''Hombres 35-44'', ''Hombres 25-34'']"
proof -
  let ?a = "calculate_deep_metrics skewed_rows"
  have e: "audience_insights ?a = Some (fst (the (audience_insights ?a)), snd (the (audience_insights ?a)))"
    by code_simp
  have n: "map sg_name (fst (the (audience_insights ?a))) = [''Hombres 18-24'', ''Hombres 25-34'', ''Hombres 35-44'']"
    "map sg_name (snd (the (audience_insights ?a))) = [''Mujeres 18-24'', ''Hombres 35-44'', ''Hombres 25-34'']"
    by code_simp+
  from audience_insights_ranked [OF e] n show ?thesis by metis
qed

theorem type_breakdown_shares_witness:
  "sum_list (map ts_pct (the (type_breakdown (result_types (deep_acc_of example_rows))))) = Fin 100"
proof (rule type_breakdown_shares)
  show "type_breakdown (result_types (deep_acc_of example_rows))
        = Some (the (type_breakdown (result_types (deep_acc_of example_rows))))"
    by code_simp
  show "\<forall>e \<in> set (result_types (deep_acc_of example_rows)). is_finite (rt_spend (snd e))"
    by code_simp
  show "js_pos (sum_list (map ts_spend (the (type_breakdown (result_types (deep_acc_of example_rows))))))"
    by code_simp
qed

end
