(* ===== verification/RowAnalyses.thy ===== *)
theory RowAnalyses
  imports Aggregator
begin

text \<open>
  The analyses of src/analyzer-comparative.js that go back to the cohorts' rows instead of
  the aggregates: keyword mining over the after cohort's ad names
  (\<open>renderKeywordMining\<close>), the per-result-type comparison (\<open>renderCampaignTypeAnalysis\<close>),
  the creative-format comparison (\<open>renderCreativePerformance\<close>) and the automatic
  insights (\<open>renderAutoInsights\<close>). Each is a fold over the rows into an object, as the
  code's \<open>forEach\<close> builds it, followed by a ranking. Ad names are tokenized as the code
  does: upper-cased, stripped of every character that is not a letter A-Z, one of the
  Spanish capitals (U+00C1, U+00C9, U+00CD, U+00D3, U+00DA, U+00D1), a digit or white
  space (compared ignoring case), split on runs of white space; \<open>split_ws\<close> is a loop that skips
  white-space runs and is proved terminating by the length of the rest of the string.
\<close>

section \<open>Tokenizer\<close>

text \<open>The upper-case Spanish letters of the code's character classes (A, E, I, O, U
  with acute accent and N with tilde).\<close>

definition spanish_upper :: "char list" where
  "spanish_upper = [CHR 0xC1, CHR 0xC9, CHR 0xCD, CHR 0xD3, CHR 0xDA, CHR 0xD1]"

definition is_upper_az :: "char \<Rightarrow> bool" where
  "is_upper_az c \<longleftrightarrow> 65 \<le> (of_char c :: nat) \<and> (of_char c :: nat) \<le> 90"

text \<open>Membership in the class of letters A-Z, Spanish capitals and digits.\<close>

definition is_word_char :: "char \<Rightarrow> bool" where
  "is_word_char c \<longleftrightarrow> is_upper_az c \<or> c \<in> set spanish_upper \<or> is_digit c"

text \<open>The \<open>.replace(/[^...0-9\s]/gi, '')\<close> of \<open>renderKeywordMining\<close>: with the
  \<open>i\<close> flag a character is kept when its upper case is a word character, or when it is
  white space.\<close>

definition strip_non_word :: "string \<Rightarrow> string" where
  "strip_non_word s = filter (\<lambda>c. is_word_char (to_upper_char c) \<or> is_js_space c) s"

text \<open>\<open>s.split(/\s+/)\<close>: the pieces between the white-space runs, with an empty piece
  before a leading and after a trailing run. The loop scans the current piece in
  reverse and skips a whole run at once.\<close>

function split_ws_acc :: "string \<Rightarrow> string \<Rightarrow> string list" where
  "split_ws_acc cur [] = [rev cur]"
| "split_ws_acc cur (c # s) =
     (if is_js_space c then rev cur # split_ws_acc [] (dropWhile is_js_space s)
      else split_ws_acc (c # cur) s)"
  by pat_completeness auto

termination
  by (relation "measure (\<lambda>(cur, s). length s)") (auto simp: le_imp_less_Suc length_dropWhile_le)

definition split_ws :: "string \<Rightarrow> string list" where
  "split_ws s = split_ws_acc [] s"

definition stop_words :: "string list" where
  "stop_words = [''de'', ''la'', ''el'', ''en'', ''y'', ''a'', ''para'', ''por'', ''con'',
                 ''campa'' @ [CHR 0xF1] @ ''a'', ''interacci'' @ [CHR 0xF3] @ ''n'',
                 ''publicaci'' @ [CHR 0xF3] @ ''n'', ''instagram'', ''null'']"

text \<open>The words of an ad name kept by \<open>renderKeywordMining\<close>.\<close>

definition mining_words :: "string \<Rightarrow> string list" where
  "mining_words name =
     filter (\<lambda>w. length w > 2 \<and> to_lower w \<notin> set stop_words) (split_ws (strip_non_word (to_upper name)))"

section \<open>Keyword mining\<close>

record kw_tot =
  kw_spend :: jsnum
  kw_results :: jsnum
  kw_count :: nat

definition kw_zero :: kw_tot where
  "kw_zero = \<lparr>kw_spend = 0, kw_results = 0, kw_count = 0\<rparr>"

text \<open>The \<open>forEach\<close> body: every kept word of the row's ad name gets the row's spend and
  results and one more occurrence.\<close>

definition kw_words :: "row \<Rightarrow> string list" where
  "kw_words r = mining_words (js_or_str (ad_name r) [])"

definition keyword_step :: "kw_tot obj \<Rightarrow> row \<Rightarrow> kw_tot obj" where
  "keyword_step m r =
     foldl (\<lambda>k w. obj_upsert w kw_zero
              (\<lambda>v. v\<lparr>kw_spend := kw_spend v + row_spend r, kw_results := kw_results v + row_results r,
                     kw_count := kw_count v + 1\<rparr>) k)
       m (kw_words r)"

definition keyword_totals :: "row list \<Rightarrow> kw_tot obj" where
  "keyword_totals rows = foldl keyword_step [] rows"

record kw_item =
  ki_word :: string
  ki_tot :: kw_tot
  ki_cpr :: jsnum

text \<open>\<open>sorted\<close>, \<open>best = sorted.slice(0, 4)\<close> and \<open>worst = sorted.slice(-2)\<close>.\<close>

definition keyword_mining :: "row list \<Rightarrow> (kw_item list \<times> kw_item list) option" where
  "keyword_mining after_rows =
     map_option (\<lambda>s. (take 4 s, slice_last 2 s))
       (js_sort_by ki_cpr
         (map (\<lambda>e. \<lparr>ki_word = fst e, ki_tot = snd e,
                     ki_cpr = (if js_pos (kw_results (snd e)) then js_div (kw_spend (snd e)) (kw_results (snd e))
                               else PInf)\<rparr>)
           (filter (\<lambda>e. kw_count (snd e) > 2 \<and> js_gt (kw_results (snd e)) (Fin 5))
              (obj_entries (keyword_totals after_rows)))))"

section \<open>Campaign-type analysis\<close>

record type_tot =
  tt_spend :: jsnum
  tt_results :: jsnum
  tt_reach :: jsnum
  tt_impressions :: jsnum

definition type_zero :: type_tot where
  "type_zero = \<lparr>tt_spend = 0, tt_results = 0, tt_reach = 0, tt_impressions = 0\<rparr>"

text \<open>\<open>aggregateByType\<close>\<close>

definition type_step :: "type_tot obj \<Rightarrow> row \<Rightarrow> type_tot obj" where
  "type_step m r =
     obj_upsert (row_result_type r) type_zero
       (\<lambda>v. v\<lparr>tt_spend := tt_spend v + row_spend r, tt_results := tt_results v + row_results r,
              tt_reach := tt_reach v + row_reach r, tt_impressions := tt_impressions v + row_impressions r\<rparr>) m"

definition aggregate_by_type :: "row list \<Rightarrow> type_tot obj" where
  "aggregate_by_type rows = foldl type_step [] rows"

datatype type_advice = Escalar | Reducir | Evaluar | Mantener | Optimizar

record type_row =
  ty_type :: string
  ty_p1_spend :: jsnum
  ty_p1_results :: jsnum
  ty_p1_cpr :: jsnum
  ty_p2_spend :: jsnum
  ty_p2_results :: jsnum
  ty_p2_cpr :: jsnum
  ty_advice :: type_advice

text \<open>\<open>p.results > 0 ? p.spend / p.results : Infinity\<close>\<close>

definition cpr_or_inf :: "jsnum \<Rightarrow> jsnum \<Rightarrow> jsnum" where
  "cpr_or_inf s r = (if js_pos r then js_div s r else PInf)"

definition type_advice_for :: "string \<Rightarrow> jsnum \<Rightarrow> jsnum \<Rightarrow> type_advice" where
  "type_advice_for t p1cpr p2cpr =
     (if contains ''Conversaciones'' t \<or> contains ''mensajes'' t then Escalar
      else if contains ''Interacci'' t \<and> js_gt p2cpr (Fin 0.05) then Reducir
      else if contains ''Visitas'' t then Evaluar
      else if js_lt p2cpr p1cpr then Mantener else Optimizar)"

text \<open>\<open>type.length > 35 ? type.substring(0, 35) + '...' : type\<close>\<close>

definition type_label :: "string \<Rightarrow> string" where
  "type_label t = (if length t > 35 then take 35 t @ ''...'' else t)"

definition type_row_of :: "type_tot obj \<Rightarrow> type_tot obj \<Rightarrow> string \<Rightarrow> type_row" where
  "type_row_of p1types p2types t =
     (let p1 = (case map_of p1types t of Some v \<Rightarrow> v | None \<Rightarrow> type_zero);
          p2 = (case map_of p2types t of Some v \<Rightarrow> v | None \<Rightarrow> type_zero);
          c1 = cpr_or_inf (tt_spend p1) (tt_results p1); c2 = cpr_or_inf (tt_spend p2) (tt_results p2)
      in \<lparr>ty_type = type_label t, ty_p1_spend = tt_spend p1, ty_p1_results = tt_results p1, ty_p1_cpr = c1,
          ty_p2_spend = tt_spend p2, ty_p2_results = tt_results p2, ty_p2_cpr = c2,
          ty_advice = type_advice_for t c1 c2\<rparr>)"

text \<open>\<open>[...new Set([...Object.keys(p1Types), ...Object.keys(p2Types)])]\<close>: the first
  occurrence of each key, in the order \<open>Object.keys\<close> lists them (array indices first).\<close>

definition all_types :: "type_tot obj \<Rightarrow> type_tot obj \<Rightarrow> string list" where
  "all_types p1types p2types =
     rev (remdups (rev (map fst (obj_entries p1types) @ map fst (obj_entries p2types))))"

definition campaign_type_analysis :: "row list \<Rightarrow> row list \<Rightarrow> type_row list option" where
  "campaign_type_analysis before_rows after_rows =
     (let p1types = aggregate_by_type before_rows; p2types = aggregate_by_type after_rows
      in js_sort_desc_by ty_p2_spend (map (type_row_of p1types p2types) (all_types p1types p2types)))"

section \<open>Creative performance\<close>

record format_tot =
  ft_spend :: jsnum
  ft_conv :: jsnum

datatype creative_format = Reel | Carrusel | Lista | Publicacion | Unboxing

definition creative_formats :: "creative_format list" where
  "creative_formats = [Reel, Carrusel, Lista, Publicacion, Unboxing]"

text \<open>The five patterns: \<open>/reel/i\<close>, \<open>/carrusel/i\<close>, \<open>/lista/i\<close>,
  \<open>/publicaci|instagram:/i\<close>, \<open>/unboxing/i\<close>.\<close>

fun format_test :: "creative_format \<Rightarrow> string \<Rightarrow> bool" where
  "format_test Reel n = contains_ci ''reel'' n"
| "format_test Carrusel n = contains_ci ''carrusel'' n"
| "format_test Lista n = contains_ci ''lista'' n"
| "format_test Publicacion n = (contains_ci ''publicaci'' n \<or> contains_ci ''instagram:'' n)"
| "format_test Unboxing n = contains_ci ''unboxing'' n"

text \<open>\<open>analyzeData\<close> for one period: every row adds its spend, and its results when its
  type is a conversation type, to each pattern its ad name matches.\<close>

definition creative_row_conv :: "row \<Rightarrow> bool" where
  "creative_row_conv r \<longleftrightarrow> contains ''Conversaciones'' (result_type r) \<or> contains ''mensajes'' (result_type r)"

definition analyze_formats :: "row list \<Rightarrow> creative_format \<Rightarrow> format_tot" where
  "analyze_formats rows f =
     foldl (\<lambda>t r. if format_test f (js_or_str (ad_name r) [])
                  then t\<lparr>ft_spend := ft_spend t + row_spend r,
                         ft_conv := (if creative_row_conv r then ft_conv t + row_results r else ft_conv t)\<rparr>
                  else t)
       \<lparr>ft_spend = 0, ft_conv = 0\<rparr> rows"

record format_row =
  fr_format :: creative_format
  fr_p1_cpr :: jsnum
  fr_p2_cpr :: jsnum
  fr_p1 :: format_tot
  fr_p2 :: format_tot

text \<open>\<open>(x === Infinity ? 999 : x)\<close>, the sort key of \<open>formatAnalysis\<close>.\<close>

definition format_sort_key :: "jsnum \<Rightarrow> jsnum" where
  "format_sort_key x = (if x = PInf then Fin 999 else x)"

definition creative_performance :: "row list \<Rightarrow> row list \<Rightarrow> format_row list option" where
  "creative_performance before_rows after_rows =
     js_sort_by (\<lambda>f. format_sort_key (fr_p2_cpr f))
       (filter (\<lambda>f. js_pos (ft_spend (fr_p1 f)) \<or> js_pos (ft_spend (fr_p2 f)))
         (map (\<lambda>fmt. let p1 = analyze_formats before_rows fmt; p2 = analyze_formats after_rows fmt
                     in \<lparr>fr_format = fmt, fr_p1_cpr = cpr_or_inf (ft_spend p1) (ft_conv p1),
                         fr_p2_cpr = cpr_or_inf (ft_spend p2) (ft_conv p2), fr_p1 = p1, fr_p2 = p2\<rparr>)
           creative_formats))"

section \<open>Automatic insights\<close>

text \<open>\<open>x.toFixed(0)\<close> read back as a number (as in \<open>convPercent < 80\<close>): the nearest
  integer, halves away from zero.\<close>

fun to_fixed0 :: "jsnum \<Rightarrow> jsnum" where
  "to_fixed0 (Fin r) = Fin (sgn r * of_int \<lfloor>\<bar>r\<bar> + 1 / 2\<rfloor>)"
| "to_fixed0 x = x"

text \<open>\<open>name.toUpperCase().match(/[...0-9]+/g) || []\<close> of \<open>renderAutoInsights\<close>:
  the maximal runs of word characters.\<close>

fun word_runs_acc :: "string \<Rightarrow> string \<Rightarrow> string list" where
  "word_runs_acc cur [] = (if cur = [] then [] else [rev cur])"
| "word_runs_acc cur (c # s) =
     (if is_word_char c then word_runs_acc (c # cur) s
      else if cur = [] then word_runs_acc [] s else rev cur # word_runs_acc [] s)"

definition word_runs :: "string \<Rightarrow> string list" where
  "word_runs s = word_runs_acc [] (to_upper s)"

text \<open>Insight 2's counts: conversation rows with results add their results to each word
  longer than 3 characters.\<close>

definition insight_keywords :: "row list \<Rightarrow> (string \<times> jsnum) list" where
  "insight_keywords after_rows =
     foldl (\<lambda>m r.
        if contains ''Conversaciones'' (result_type r) \<and> js_gt (row_results r) (Fin 0)
        then foldl (\<lambda>k w. obj_upsert w (Fin 0) (\<lambda>v. js_or v (Fin 0) + row_results r) k) m
               (filter (\<lambda>w. length w > 3) (word_runs (js_or_str (ad_name r) [])))
        else m) [] after_rows"

datatype insight = Reallocate string string jsnum jsnum | TopKeyword string jsnum | ConvShare jsnum
  | Saturation jsnum | CTRImproved jsnum

text \<open>\<open>demoAnalysis\<close>: the after period's demographics with conversions, with their cost per
  conversation and spend, sorted by cost per conversation.\<close>

definition demo_analysis :: "deep_metrics \<Rightarrow> (string \<times> jsnum \<times> jsnum) list option" where
  "demo_analysis a =
     js_sort_by (\<lambda>d. fst (snd d))
       (map (\<lambda>e. (fst e, js_div (dm_spend (snd e)) (dm_conversations (snd e)), dm_spend (snd e)))
          (filter (\<lambda>e. js_pos (dm_conversations (snd e))) (obj_entries (demographics (fst a)))))"

text \<open>Insight 1: with at least four segments, move budget from the last (\<open>worst\<close>) to the
  first (\<open>best\<close>), quoting \<open>((1 - best.cpr / worst.cpr) * 100).toFixed(0)\<close>.\<close>

definition reallocation_insight :: "(string \<times> jsnum \<times> jsnum) list \<Rightarrow> insight list" where
  "reallocation_insight ds =
     (if length ds \<ge> 4
      then [Reallocate (fst (last ds)) (fst (hd ds)) (snd (snd (last ds)))
              (to_fixed0 (js_mul (js_sub (Fin 1) (js_div (fst (snd (hd ds))) (fst (snd (last ds))))) (Fin 100)))]
      else [])"

definition auto_insights :: "deep_metrics \<Rightarrow> deep_metrics \<Rightarrow> row list \<Rightarrow> insight list option" where
  "auto_insights b a after_rows =
     (let kws = insight_keywords after_rows;
          conv_spend = foldl (\<lambda>s r. s + row_spend r) (Fin 0)
                         (filter (\<lambda>r. contains ''Conversaciones'' (result_type r)) after_rows);
          conv_pct = to_fixed0 (js_mul (js_div conv_spend (spend (fst a))) (Fin 100))
      in case (demo_analysis a, js_sort_desc_by snd (obj_entries kws)) of
           (Some ds, Some ks) \<Rightarrow> Some (
              reallocation_insight ds
              @ (case ks of [] \<Rightarrow> [] | k # _ \<Rightarrow> [TopKeyword (fst k) (snd k)])
              @ (if js_lt conv_pct (Fin 80) then [ConvShare conv_pct] else [])
              @ (if js_gt (frequency (snd a)) (Fin 2) then [Saturation (frequency (snd a))] else [])
              @ (if js_gt (ctr (snd a)) (js_mul (ctr (snd b)) (Fin 1.2))
                 then [CTRImproved (to_fixed0 (js_mul (js_sub (js_div (ctr (snd a)) (ctr (snd b))) (Fin 1)) (Fin 100)))]
                 else []))
         | _ \<Rightarrow> None)"

section \<open>Fixtures\<close>

text \<open>An after period with a Reel that spent 50 without a conversation and a Carrusel that
  spent 1500 for one conversation.\<close>

definition creative_rows :: "row list" where
  "creative_rows = [mk_row ''Reel Verano'' ''Conversaciones con mensajes iniciadas'' (CNum 50) (CNum 0),
                    mk_row ''Carrusel Lentes'' ''Conversaciones con mensajes iniciadas'' (CNum 1500) (CNum 1)]"

text \<open>Four segments of the after period, with costs per conversation 1, 2, 4 and 8.\<close>

definition insight_rows :: "row list" where
  "insight_rows =
     map (\<lambda>(sx, ag, s). (mk_row ''Reel Lentes'' ''Conversaciones con mensajes iniciadas'' (CNum s) (CNum 10))
                          \<lparr>sex := sx, age := ag\<rparr>)
       [(''male'', ''18-24'', 10), (''male'', ''25-34'', 20), (''female'', ''18-24'', 40), (''female'', ''25-34'', 80)]"


section \<open>Lemmas\<close>

lemma filter_dropWhile_not: "filter (\<lambda>c. \<not> P c) (dropWhile P s) = filter (\<lambda>c. \<not> P c) s"
  by (induction s) auto

lemma concat_split_ws_acc:
  "concat (split_ws_acc cur s) = rev cur @ filter (\<lambda>c. \<not> is_js_space c) s"
  by (induction cur s rule: split_ws_acc.induct) (simp_all add: filter_dropWhile_not)

lemma split_ws_acc_chars:
  "w \<in> set (split_ws_acc cur s) \<Longrightarrow> set w \<subseteq> set cur \<union> {c \<in> set s. \<not> is_js_space c}"
  by (induction cur s rule: split_ws_acc.induct) (auto split: if_splits dest: set_dropWhileD)

lemma to_upper_char_idem: "to_upper_char (to_upper_char c) = to_upper_char c"
proof -
  have "of_char c < (256::nat)" by (metis of_char_mod_256 mod_less_divisor zero_less_numeral)
  then show ?thesis by (auto simp: to_upper_char_def Let_def)
qed

text \<open>
  Termination and bound: the white-space splitter is defined on every input: its
  domain predicate holds everywhere, because each recursive call shortens the rest of
  the string (its recursion relation lies inside the measure \<open>length s\<close> and is
  well-founded); and it returns at most one piece more than the string has characters.
\<close>

theorem split_ws_terminates:
  "split_ws_acc_dom (cur, s) \<and> length (split_ws_acc cur s) \<le> length s + 1"
proof
  have "{(x, y). split_ws_acc_rel x y} \<subseteq> measure (\<lambda>(cur, s). length s)"
    by (auto elim: split_ws_acc_rel.cases simp: le_imp_less_Suc length_dropWhile_le)
  then have "wfP split_ws_acc_rel"
    unfolding wfp_def by (rule wf_subset [OF wf_measure])
  then show "split_ws_acc_dom (cur, s)" by (rule accp_wfpD)
  show "length (split_ws_acc cur s) \<le> length s + 1"
    by (induction cur s rule: split_ws_acc.induct)
       (auto simp: le_imp_less_Suc length_dropWhile_le intro: order.trans)
qed

text \<open>
  Round trip: the pieces of \<open>s.split(/\s+/)\<close> put back together are \<open>s\<close> without
  its white space; splitting loses nothing else.
\<close>

theorem split_ws_lossless: "concat (split_ws s) = filter (\<lambda>c. \<not> is_js_space c) s"
  by (simp add: split_ws_def concat_split_ws_acc)

lemma strip_upper_word_char:
  assumes "c \<in> set (strip_non_word (to_upper n))" and "\<not> is_js_space c"
  shows "is_word_char c"
proof -
  from assms(1) obtain c0 where "c = to_upper_char c0" and "is_word_char (to_upper_char c) \<or> is_js_space c"
    by (auto simp: strip_non_word_def to_upper_def)
  with assms(2) show ?thesis by (simp add: to_upper_char_idem)
qed

lemma mining_words_word_chars: "w \<in> set (mining_words n) \<Longrightarrow> list_all is_word_char w"
  using split_ws_acc_chars [of w "[]"] strip_upper_word_char
  by (fastforce simp: mining_words_def split_ws_def list_all_iff)

lemma proto_names_not_words: "p \<in> set proto_names \<Longrightarrow> \<not> list_all is_word_char p"
  by (auto simp: proto_names_def is_word_char_def is_upper_az_def spanish_upper_def is_digit_def)

lemma kw_words_not_proto: "w \<in> set (kw_words r) \<Longrightarrow> w \<notin> set proto_names"
  unfolding kw_words_def using mining_words_word_chars proto_names_not_words by blast

lemma count_list_sum: "count_list xs x = sum_list (map (\<lambda>y. if y = x then 1 else 0) xs)"
  by (induction xs) simp_all

lemma kw_fold_field:
  fixes g :: "kw_tot \<Rightarrow> 'a::comm_monoid_add"
  assumes "g kw_zero = 0" and "\<And>v. g (upd v) = g v + \<delta>" and "\<forall>x \<in> set ws. x \<notin> set proto_names"
  shows "g (case map_of (foldl (\<lambda>k x. obj_upsert x kw_zero upd k) m ws) w of None \<Rightarrow> kw_zero | Some v \<Rightarrow> v)
         = g (case map_of m w of None \<Rightarrow> kw_zero | Some v \<Rightarrow> v) + sum_list (map (\<lambda>x. if x = w then \<delta> else 0) ws)"
  using assms(3)
  by (induction ws arbitrary: m) (auto simp: map_of_obj_upsert assms(1,2) add.assoc split: option.splits)

lemma keyword_totals_field:
  fixes g :: "kw_tot \<Rightarrow> 'a::comm_monoid_add"
  assumes "g kw_zero = 0"
    and "\<And>v r. g (v\<lparr>kw_spend := kw_spend v + row_spend r, kw_results := kw_results v + row_results r,
                       kw_count := kw_count v + 1\<rparr>) = g v + \<delta> r"
  shows "g (case map_of (keyword_totals rows) w of None \<Rightarrow> kw_zero | Some v \<Rightarrow> v)
         = sum_list (map (\<lambda>r. sum_list (map (\<lambda>x. if x = w then \<delta> r else 0) (kw_words r))) rows)"
proof -
  have "g (case map_of (foldl keyword_step [] rows) w of None \<Rightarrow> kw_zero | Some v \<Rightarrow> v)
        = g (case map_of [] w of None \<Rightarrow> kw_zero | Some v \<Rightarrow> v)
          + sum_list (map (\<lambda>r. sum_list (map (\<lambda>x. if x = w then \<delta> r else 0) (kw_words r))) rows)"
    by (rule foldl_additive, unfold keyword_step_def, rule kw_fold_field)
       (use assms kw_words_not_proto in auto)
  then show ?thesis by (simp add: keyword_totals_def assms(1))
qed

text \<open>
  C19. Keyword mining conserves the rows: after \<open>renderKeywordMining\<close>'s loop, each word's
  count is the number of its occurrences in the kept words of the rows' ad names, and its
  spend and results are the sums, over those occurrences, of the row's spend and results.
  No kept word is an \<open>Object.prototype\<close> name, so no occurrence is lost.
\<close>

theorem keyword_totals_conservation:
  "kw_count (case map_of (keyword_totals rows) w of None \<Rightarrow> kw_zero | Some v \<Rightarrow> v)
     = sum_list (map (\<lambda>r. count_list (kw_words r) w) rows)
   \<and> kw_spend (case map_of (keyword_totals rows) w of None \<Rightarrow> kw_zero | Some v \<Rightarrow> v)
     = sum_list (map (\<lambda>r. sum_list (map (\<lambda>x. if x = w then row_spend r else 0) (kw_words r))) rows)
   \<and> kw_results (case map_of (keyword_totals rows) w of None \<Rightarrow> kw_zero | Some v \<Rightarrow> v)
     = sum_list (map (\<lambda>r. sum_list (map (\<lambda>x. if x = w then row_results r else 0) (kw_words r))) rows)"
  unfolding count_list_sum by (intro conjI keyword_totals_field) (simp_all add: kw_zero_def)

lemma type_step_keys:
  "set (obj_keys (foldl type_step m rows)) = set (obj_keys m) \<union> (row_result_type ` set rows - set proto_names)"
  by (induction rows arbitrary: m) (auto simp: type_step_def obj_upsert_def)

lemma aggregate_by_type_keys:
  "set (obj_keys (aggregate_by_type rows)) = row_result_type ` set rows - set proto_names"
  using type_step_keys [of "[]" rows] by (simp add: aggregate_by_type_def obj_keys_def)

lemma all_types_distinct_set:
  "distinct (all_types p1 p2) \<and> set (all_types p1 p2) = set (obj_keys p1) \<union> set (obj_keys p2)"
  by (auto simp: all_types_def obj_keys_def set_obj_entries)

lemma type_row_of_type [simp]: "ty_type (type_row_of p1 p2 t) = type_label t"
  by (simp add: type_row_of_def Let_def)

text \<open>
  C20. The campaign-type table lists every result type of either period exactly once (up to
  the 35-character label), and no other; only \<open>Object.prototype\<close> names are lost.
\<close>

theorem campaign_types_once:
  assumes "campaign_type_analysis before_rows after_rows = Some ts"
  shows "mset (map ty_type ts)
         = image_mset type_label (mset_set (row_result_type ` set (before_rows @ after_rows) - set proto_names))"
proof -
  let ?p1 = "aggregate_by_type before_rows" and ?p2 = "aggregate_by_type after_rows"
  let ?all = "all_types ?p1 ?p2"
  have "js_sort_by (\<lambda>x. js_neg (ty_p2_spend x)) (map (type_row_of ?p1 ?p2) ?all) = Some ts"
    using assms by (simp add: campaign_type_analysis_def js_sort_desc_by_def Let_def)
  then have "mset ts = mset (map (type_row_of ?p1 ?p2) ?all)" by (rule js_sort_by_mset)
  then have "mset (map ty_type ts) = mset (map ty_type (map (type_row_of ?p1 ?p2) ?all))"
    by (metis mset_map)
  also have "\<dots> = image_mset type_label (mset ?all)" by (simp add: comp_def)
  also have "mset ?all = mset_set (set ?all)"
    using all_types_distinct_set by (metis mset_set_set)
  also have "set ?all = row_result_type ` set (before_rows @ after_rows) - set proto_names"
    using all_types_distinct_set [of ?p1 ?p2] by (auto simp: aggregate_by_type_keys)
  finally show ?thesis .
qed

lemma to_fixed0_pct:
  "0 \<le> r \<Longrightarrow> r \<le> 100 \<Longrightarrow> js_le (Fin 0) (to_fixed0 (Fin r)) \<and> js_le (to_fixed0 (Fin r)) (Fin 100)"
  by (auto simp: sgn_if floor_le_iff)

lemma demo_analysis_cpr:
  assumes "demo_analysis a = Some ds" and "d \<in> set ds"
    and "\<forall>e \<in> set (demographics (fst a)).
           is_finite (dm_spend (snd e)) \<and> js_le (Fin 0) (dm_spend (snd e)) \<and> is_finite (dm_conversations (snd e))"
  shows "\<exists>x. fst (snd d) = Fin x \<and> 0 \<le> x"
proof -
  from assms(1,2) obtain e where e: "e \<in> set (demographics (fst a))" "js_pos (dm_conversations (snd e))"
    and d: "d = (fst e, js_div (dm_spend (snd e)) (dm_conversations (snd e)), dm_spend (snd e))"
    using js_sort_by_set by (fastforce simp: demo_analysis_def set_obj_entries)
  with assms(3) obtain s c where "dm_spend (snd e) = Fin s" "0 \<le> s" "dm_conversations (snd e) = Fin c" "0 < c"
    by (auto simp: is_finite_iff)
  with d show ?thesis by simp
qed

text \<open>
  C21. The budget-reallocation insight quotes a saving between 0 and 100 percent when the
  segments' spends are finite and non-negative and their conversions finite: the segment it
  moves budget to is the cheapest, the one it moves budget from the dearest. When every
  segment spent nothing the quoted saving is \<open>NaN\<close>.
\<close>

theorem reallocation_savings_bounded:
  assumes "demo_analysis a = Some ds"
    and "Reallocate worst best worst_spend pct \<in> set (reallocation_insight ds)"
    and "\<forall>e \<in> set (demographics (fst a)).
           is_finite (dm_spend (snd e)) \<and> js_le (Fin 0) (dm_spend (snd e)) \<and> is_finite (dm_conversations (snd e))"
  shows "pct = NaN \<or> (js_le (Fin 0) pct \<and> js_le pct (Fin 100))"
proof -
  from assms(2) have len: "4 \<le> length ds"
    and pct: "pct = to_fixed0 (js_mul (js_sub (Fin 1) (js_div (fst (snd (hd ds))) (fst (snd (last ds))))) (Fin 100))"
    by (simp_all add: reallocation_insight_def split: if_splits)
  from len have ne: "ds \<noteq> []" by auto
  then have "hd ds \<in> set ds" "last ds \<in> set ds" by (rule hd_in_set, rule last_in_set)
  with demo_analysis_cpr [OF assms(1) _ assms(3)] obtain x y
    where x: "fst (snd (hd ds)) = Fin x" "0 \<le> x" and y: "fst (snd (last ds)) = Fin y" "0 \<le> y"
    by metis
  from len have "hd ds \<in> set (take 1 ds)" "last ds \<in> set (drop 1 ds)"
    by (cases ds; auto)+
  then have "js_le (fst (snd (hd ds))) (fst (snd (last ds)))"
    by (rule js_sort_by_take_drop [OF assms(1) [unfolded demo_analysis_def]])
  with x y have xy: "x \<le> y" by simp
  show ?thesis
  proof (cases "y = 0")
    case True
    with x xy show ?thesis by (simp add: pct y js_sub_def inf_of_sign_def)
  next
    case False
    with y have "0 < y" by simp
    with x xy have q: "0 \<le> x / y" "x / y \<le> 1" by simp_all
    have e: "(1 - x / y) * 100 = 100 - 100 * (x / y)" by (simp add: algebra_simps)
    have "0 \<le> (1 - x / y) * 100" "(1 - x / y) * 100 \<le> 100" unfolding e using q by simp_all
    then have b: "js_le (Fin 0) (to_fixed0 (Fin ((1 - x / y) * 100)))
                  \<and> js_le (to_fixed0 (Fin ((1 - x / y) * 100))) (Fin 100)"
      by (rule to_fixed0_pct)
    have "pct = to_fixed0 (Fin ((1 - x / y) * 100))"
      using False by (simp add: pct x y js_sub_def)
    with b show ?thesis by blast
  qed
qed

text \<open>
  The creative-format ranking sorts a format without conversions as if its cost per
  conversation were 999: a Reel that spent 50 USD without a conversation is listed before a
  Carrusel that converted once for 1500 USD.
\<close>

theorem unconverted_format_ranked_first:
  "map_option (map (\<lambda>f. (fr_format f, fr_p2_cpr f))) (creative_performance [] creative_rows)
     = Some [(Reel, PInf), (Carrusel, Fin 1500)]"
  by code_simp

theorem campaign_types_once_witness:
  "mset (map ty_type (the (campaign_type_analysis [] creative_rows)))
     = image_mset type_label (mset_set {''Conversaciones con mensajes iniciadas''})"
proof -
  have e: "campaign_type_analysis [] creative_rows = Some (the (campaign_type_analysis [] creative_rows))"
    by code_simp
  have s: "row_result_type ` set ([] @ creative_rows) - set proto_names = {''Conversaciones con mensajes iniciadas''}"
    by (simp add: creative_rows_def mk_row_def row_result_type_def js_or_str_def proto_names_def)
  from campaign_types_once [OF e] s show ?thesis by simp
qed

theorem reallocation_savings_bounded_witness:
  "reallocation_insight (the (demo_analysis (calculate_deep_metrics insight_rows)))
     = [Reallocate ''Mujeres 25-34'' ''Hombres 18-24'' (Fin 80) (Fin 88)]
   \<and> (Fin 88 = NaN \<or> (js_le (Fin 0) (Fin 88) \<and> js_le (Fin 88) (Fin 100)))"
proof -
  let ?a = "calculate_deep_metrics insight_rows"
  have r: "reallocation_insight (the (demo_analysis ?a))
           = [Reallocate ''Mujeres 25-34'' ''Hombres 18-24'' (Fin 80) (Fin 88)]"
    by code_simp
  have e: "demo_analysis ?a = Some (the (demo_analysis ?a))" by code_simp
  have h: "\<forall>e \<in> set (demographics (fst ?a)).
             is_finite (dm_spend (snd e)) \<and> js_le (Fin 0) (dm_spend (snd e)) \<and> is_finite (dm_conversations (snd e))"
    by code_simp
  have "Reallocate ''Mujeres 25-34'' ''Hombres 18-24'' (Fin 80) (Fin 88) \<in> set (reallocation_insight (the (demo_analysis ?a)))"
    by (simp add: r)
  from reallocation_savings_bounded [OF e this h] r show ?thesis by simp
qed

end
