(* ===== verification/GenericMetrics.thy ===== *)
theory GenericMetrics
  imports Classifier "HOL-Library.List_Lexorder" "HOL-Library.Char_ord"
begin

text \<open>
  The computations of the generic analyzer (src/analyzer-generic.js) after
  \<open>startAnalysis\<close> has split the rows: \<open>calculateMetrics\<close>, which folds a cohort into
  totals, ratios and per-segment spend and conversations; \<open>generateAutoDiagnosis\<close> with
  its helper \<open>getResultTypesForData\<close>; and the values each render function computes
  before formatting them (\<open>renderMetricsComparison\<close>, \<open>renderDeepMetrics\<close>,
  \<open>renderStrengthsAnalysis\<close>, \<open>renderResultTypeBreakdown\<close>, \<open>renderAudienceInsights\<close>,
  \<open>renderTopAds\<close>, \<open>renderBenchmarkCompliance\<close>, \<open>renderStrategicConclusion\<close>,
  \<open>renderDemographicsChart\<close>), composed as \<open>runAnalysis\<close> composes them. Percentages and
  costs are the numbers before \<open>toFixed\<close>. Unlike the comparative analyzer this one
  counts a row as a conversation only when its result type is exactly
  \<open>Conversaciones con mensajes iniciadas\<close>, and its cost per conversation is 0, not
  \<open>Infinity\<close>, when there is none.
\<close>

section \<open>calculateMetrics\<close>

record gen_demo =
  gd_spend :: jsnum
  gd_conv :: jsnum

definition gen_demo_zero :: gen_demo where
  "gen_demo_zero = \<lparr>gd_spend = 0, gd_conv = 0\<rparr>"

text \<open>The loop's local variables.\<close>

record gen_acc =
  ga_spend :: jsnum
  ga_results :: jsnum
  ga_conversations :: jsnum
  ga_reach :: jsnum
  ga_impressions :: jsnum
  ga_clicks :: jsnum
  ga_demographics :: "gen_demo obj"

definition gen_acc_zero :: gen_acc where
  "gen_acc_zero = \<lparr>ga_spend = 0, ga_results = 0, ga_conversations = 0, ga_reach = 0,
     ga_impressions = 0, ga_clicks = 0, ga_demographics = []\<rparr>"

definition gen_conv_label :: string where
  "gen_conv_label = ''Conversaciones con mensajes iniciadas''"

text \<open>\<open>row['Tipo de resultado'] === 'Conversaciones con mensajes iniciadas'\<close>\<close>

definition is_gen_conv :: "row \<Rightarrow> bool" where
  "is_gen_conv r \<longleftrightarrow> result_type r = gen_conv_label"

text \<open>\<open>`${gender === 'male' ? 'Hombres' : gender === 'female' ? 'Mujeres' : 'Otro'} ${age}`\<close>
  with \<open>age = row['Edad'] || 'Desconocido'\<close> and \<open>gender = row['Sexo'] || 'Desconocido'\<close>.\<close>

definition gen_demo_key :: "row \<Rightarrow> string" where
  "gen_demo_key r =
     (let g = js_or_str (sex r) ''Desconocido''
      in (if g = ''male'' then ''Hombres'' else if g = ''female'' then ''Mujeres'' else ''Otro'')
         @ '' '' @ js_or_str (age r) ''Desconocido'')"

text \<open>The \<open>data.forEach\<close> body.\<close>

definition gen_step :: "gen_acc \<Rightarrow> row \<Rightarrow> gen_acc" where
  "gen_step m row =
     (let s = row_spend row; r = row_results row; conv = is_gen_conv row
      in m\<lparr>ga_spend := ga_spend m + s,
           ga_results := ga_results m + r,
           ga_reach := ga_reach m + row_reach row,
           ga_impressions := ga_impressions m + row_impressions row,
           ga_clicks := ga_clicks m + row_clicks row,
           ga_conversations := (if conv then ga_conversations m + r else ga_conversations m),
           ga_demographics := obj_upsert (gen_demo_key row) gen_demo_zero
              (\<lambda>v. v\<lparr>gd_spend := gd_spend v + s, gd_conv := (if conv then gd_conv v + r else gd_conv v)\<rparr>)
              (ga_demographics m)\<rparr>)"

text \<open>The returned object; \<open>g_demographics\<close> is \<open>None\<close> for the early return on an empty
  cohort, which has no \<open>demographics\<close> property.\<close>

record gen_metrics =
  g_spend :: jsnum
  g_results :: jsnum
  g_conversations :: jsnum
  g_reach :: jsnum
  g_impressions :: jsnum
  g_clicks :: jsnum
  g_ctr :: jsnum
  g_cpm :: jsnum
  g_cpc :: jsnum
  g_cpl :: jsnum
  g_frequency :: jsnum
  g_conversion_rate :: jsnum
  g_demographics :: "gen_demo obj option"

definition gen_metrics_empty :: gen_metrics where
  "gen_metrics_empty =
     \<lparr>g_spend = Fin 0, g_results = Fin 0, g_conversations = Fin 0, g_reach = Fin 0, g_impressions = Fin 0,
      g_clicks = Fin 0, g_ctr = Fin 0, g_cpm = Fin 0, g_cpc = Fin 0, g_cpl = Fin 0, g_frequency = Fin 0,
      g_conversion_rate = Fin 0, g_demographics = None\<rparr>"

definition gen_derive :: "gen_acc \<Rightarrow> gen_metrics" where
  "gen_derive m =
     \<lparr>g_spend = ga_spend m, g_results = ga_results m, g_conversations = ga_conversations m,
      g_reach = ga_reach m, g_impressions = ga_impressions m, g_clicks = ga_clicks m,
      g_ctr = (if js_pos (ga_impressions m) then js_mul (js_div (ga_clicks m) (ga_impressions m)) (Fin 100) else Fin 0),
      g_cpm = (if js_pos (ga_impressions m) then js_mul (js_div (ga_spend m) (ga_impressions m)) (Fin 1000) else Fin 0),
      g_cpc = (if js_pos (ga_clicks m) then js_div (ga_spend m) (ga_clicks m) else Fin 0),
      g_cpl = (if js_pos (ga_conversations m) then js_div (ga_spend m) (ga_conversations m) else Fin 0),
      g_frequency = (if js_pos (ga_reach m) then js_div (ga_impressions m) (ga_reach m) else Fin 0),
      g_conversion_rate =
        (if js_pos (ga_clicks m) then js_mul (js_div (ga_conversations m) (ga_clicks m)) (Fin 100) else Fin 0),
      g_demographics = Some (ga_demographics m)\<rparr>"

definition calculate_metrics :: "row list \<Rightarrow> gen_metrics" where
  "calculate_metrics data =
     (if data = [] then gen_metrics_empty else gen_derive (foldl gen_step gen_acc_zero data))"

text \<open>The conversations a row adds.\<close>

definition gen_conv_delta :: "row \<Rightarrow> jsnum" where
  "gen_conv_delta r = (if is_gen_conv r then row_results r else 0)"

text \<open>\<open>x.demographics || {}\<close>\<close>

definition demos_or_empty :: "gen_metrics \<Rightarrow> gen_demo obj" where
  "demos_or_empty m = (case g_demographics m of None \<Rightarrow> [] | Some d \<Rightarrow> d)"

section \<open>Auto-diagnosis\<close>

record rtype_count =
  rc_count :: nat
  rc_spend :: jsnum
  rc_results :: jsnum

text \<open>\<open>getResultTypesForData\<close>: rows without a result type are skipped.\<close>

definition result_types_for_data :: "row list \<Rightarrow> rtype_count obj" where
  "result_types_for_data data =
     foldl (\<lambda>m r. if result_type r \<noteq> []
                  then obj_upsert (result_type r) \<lparr>rc_count = 0, rc_spend = 0, rc_results = 0\<rparr>
                         (\<lambda>v. v\<lparr>rc_count := rc_count v + 1, rc_spend := rc_spend v + row_spend r,
                                rc_results := rc_results v + row_results r\<rparr>) m
                  else m) [] data"

text \<open>\<open>Object.entries(types).sort((a, b) => b[1].spend - a[1].spend)[0]\<close>: the outer
  \<open>None\<close> is a comparison with \<open>NaN\<close>, the inner one \<open>undefined\<close>.\<close>

definition main_type :: "rtype_count obj \<Rightarrow> (string \<times> rtype_count) option option" where
  "main_type ts = map_option first_opt (js_sort_desc_by (\<lambda>e. rc_spend (snd e)) (obj_entries ts))"

datatype diagnosis =
    DifferentObjectives string string
  | ZeroConversionsP1
  | EfficiencyImproved jsnum
  | HighFrequency jsnum
  | LowCTR jsnum
  | HighCPM jsnum
  | BestAudience string jsnum
  | WorstAudience string jsnum
  | Projection jsnum

text \<open>The first check, entered when period 1 has no conversions and period 2 has some.\<close>

definition objective_diagnosis :: "row list \<Rightarrow> row list \<Rightarrow> diagnosis list option" where
  "objective_diagnosis before_rows after_rows =
     (case main_type (result_types_for_data before_rows) of
        None \<Rightarrow> None
      | Some m1 \<Rightarrow>
          (case main_type (result_types_for_data after_rows) of
             None \<Rightarrow> None
           | Some m2 \<Rightarrow>
               Some (case (m1, m2) of
                       (Some p1, Some p2) \<Rightarrow>
                         if fst p1 \<noteq> fst p2 then [DifferentObjectives (fst p1) (fst p2)] else [ZeroConversionsP1]
                     | _ \<Rightarrow> [ZeroConversionsP1])))"

text \<open>The segments with more than five conversions, by cost per conversation.\<close>

definition diag_audiences :: "gen_demo obj \<Rightarrow> (string \<times> gen_demo) list option" where
  "diag_audiences d =
     js_sort_by (\<lambda>e. js_div (gd_spend (snd e)) (gd_conv (snd e)))
       (filter (\<lambda>e. js_gt (gd_conv (snd e)) (Fin 5)) (obj_entries d))"

definition audience_diagnosis :: "gen_demo obj option \<Rightarrow> diagnosis list option" where
  "audience_diagnosis d =
     (case d of
        None \<Rightarrow> Some []
      | Some dm \<Rightarrow>
          map_option
            (\<lambda>s. (case s of [] \<Rightarrow> []
                  | best # _ \<Rightarrow> [BestAudience (fst best) (js_div (gd_spend (snd best)) (gd_conv (snd best)))])
                 @ (if length s > 2
                    then [WorstAudience (fst (last s)) (js_div (gd_spend (snd (last s))) (gd_conv (snd (last s))))]
                    else []))
            (diag_audiences dm))"

text \<open>\<open>after.cpl > 0 ? Math.round(CONFIG.client.monthlyBudget / after.cpl) : 0\<close>\<close>

definition projected_conversions :: "gen_config \<Rightarrow> gen_metrics \<Rightarrow> jsnum" where
  "projected_conversions cfg a =
     (if js_pos (g_cpl a) then js_round (js_div (monthly_budget cfg) (g_cpl a)) else Fin 0)"

definition generate_auto_diagnosis ::
  "filters \<Rightarrow> gen_config \<Rightarrow> row list \<Rightarrow> row list \<Rightarrow> gen_metrics \<Rightarrow> gen_metrics \<Rightarrow> diagnosis list option" where
  "generate_auto_diagnosis flt cfg before_rows after_rows b a =
     (let obj = (if js_eq (g_conversations b) (Fin 0) \<and> js_pos (g_conversations a)
                 then objective_diagnosis before_rows after_rows else Some [])
      in case (obj, audience_diagnosis (g_demographics a)) of
           (Some d1, Some d2) \<Rightarrow> Some (d1
              @ (if js_lt (g_cpl a) (g_cpl b) \<and> js_gt (g_conversations a) (g_conversations b)
                 then [EfficiencyImproved (js_mul (js_div (js_sub (g_cpl b) (g_cpl a)) (g_cpl b)) (Fin 100))]
                 else [])
              @ (if js_gt (g_frequency a) (Fin 2.5) then [HighFrequency (g_frequency a)] else [])
              @ (if js_lt (g_ctr a) (ctr_good flt) then [LowCTR (g_ctr a)] else [])
              @ (if js_gt (g_cpm a) (js_mul (cpm_good flt) (Fin 1.5)) then [HighCPM (g_cpm a)] else [])
              @ d2
              @ [Projection (projected_conversions cfg a)])
         | _ \<Rightarrow> None)"

section \<open>Render computations\<close>

datatype gen_metric = Inversion | Conversaciones | CostoConversion | CTRMetric | CPMMetric
  | TasaConversion | Frecuencia

text \<open>A row of \<open>renderMetricsComparison\<close>: \<open>change\<close> (\<open>None\<close> is \<open>'N/A'\<close>) and whether
  \<open>better\<close> names period 2.\<close>

record comparison_row =
  cr_metric :: gen_metric
  cr_change :: "jsnum option"
  cr_p2_better :: bool

text \<open>\<open>(v2 - v1) / v1 * 100\<close>\<close>

definition pct_delta :: "jsnum \<Rightarrow> jsnum \<Rightarrow> jsnum" where
  "pct_delta v1 v2 = js_mul (js_div (js_sub v2 v1) v1) (Fin 100)"

definition change_if_pos :: "jsnum \<Rightarrow> jsnum \<Rightarrow> jsnum option" where
  "change_if_pos v1 v2 = (if js_pos v1 then Some (pct_delta v1 v2) else None)"

definition metrics_comparison :: "gen_config \<Rightarrow> gen_metrics \<Rightarrow> gen_metrics \<Rightarrow> comparison_row list" where
  "metrics_comparison cfg b a =
     [\<lparr>cr_metric = Inversion, cr_change = Some (pct_delta (g_spend b) (g_spend a)),
       cr_p2_better = js_lt (g_spend a) (g_spend b)\<rparr>,
      \<lparr>cr_metric = Conversaciones, cr_change = change_if_pos (g_conversations b) (g_conversations a),
       cr_p2_better = js_gt (g_conversations a) (g_conversations b)\<rparr>,
      \<lparr>cr_metric = CostoConversion, cr_change = change_if_pos (g_cpl b) (g_cpl a),
       cr_p2_better = js_lt (g_cpl a) (g_cpl b)\<rparr>,
      \<lparr>cr_metric = CTRMetric, cr_change = Some (pct_delta (g_ctr b) (g_ctr a)),
       cr_p2_better = js_gt (g_ctr a) (g_ctr b)\<rparr>,
      \<lparr>cr_metric = CPMMetric, cr_change = Some (pct_delta (g_cpm b) (g_cpm a)),
       cr_p2_better = js_lt (g_cpm a) (g_cpm b)\<rparr>,
      \<lparr>cr_metric = TasaConversion, cr_change = change_if_pos (g_conversion_rate b) (g_conversion_rate a),
       cr_p2_better = js_gt (g_conversion_rate a) (g_conversion_rate b)\<rparr>,
      \<lparr>cr_metric = Frecuencia, cr_change = Some (pct_delta (g_frequency b) (g_frequency a)),
       cr_p2_better = js_le (g_frequency a) (bench_frequency cfg)\<rparr>]"

text \<open>\<open>renderDeepMetrics\<close>: reach, impressions and clicks per dollar, conversions per 100
  dollars, each 0 without spend.\<close>

record per_dollar =
  pd_reach :: jsnum
  pd_impressions :: jsnum
  pd_clicks :: jsnum
  pd_conv_per_100 :: jsnum

definition per_spend :: "gen_metrics \<Rightarrow> jsnum \<Rightarrow> jsnum" where
  "per_spend m x = (if js_pos (g_spend m) then js_div x (g_spend m) else Fin 0)"

definition deep_per_dollar :: "gen_metrics \<Rightarrow> per_dollar" where
  "deep_per_dollar m =
     \<lparr>pd_reach = per_spend m (g_reach m), pd_impressions = per_spend m (g_impressions m),
      pd_clicks = per_spend m (g_clicks m),
      pd_conv_per_100 = (if js_pos (g_spend m) then js_mul (js_div (g_conversations m) (g_spend m)) (Fin 100) else Fin 0)\<rparr>"

text \<open>\<open>renderStrengthsAnalysis\<close>: \<open>effMultiplier\<close> and \<open>cplReduction\<close> (\<open>None\<close> is \<open>'N/A'\<close>).\<close>

definition eff_multiplier :: "gen_metrics \<Rightarrow> gen_metrics \<Rightarrow> jsnum option" where
  "eff_multiplier b a =
     (if js_pos (g_conversations b) \<and> js_pos (g_conversations a)
      then Some (js_div (js_div (g_conversations a) (g_spend a)) (js_div (g_conversations b) (g_spend b)))
      else None)"

definition strengths_cpl_reduction :: "gen_metrics \<Rightarrow> gen_metrics \<Rightarrow> jsnum option" where
  "strengths_cpl_reduction b a =
     (if js_pos (g_cpl b) \<and> js_pos (g_cpl a)
      then Some (js_mul (js_div (js_sub (g_cpl b) (g_cpl a)) (g_cpl b)) (Fin 100))
      else None)"

text \<open>\<open>renderResultTypeBreakdown\<close>'s \<open>getResultTypes\<close>, with the default type \<open>'Otro'\<close>.\<close>

definition get_result_types :: "row list \<Rightarrow> rt_tot obj" where
  "get_result_types data =
     foldl (\<lambda>m r. obj_upsert (row_result_type r) rt_zero
                   (\<lambda>v. v\<lparr>rt_spend := rt_spend v + row_spend r, rt_results := rt_results v + row_results r\<rparr>) m)
       [] data"

definition top_result_types :: "rt_tot obj \<Rightarrow> (string \<times> rt_tot) list option" where
  "top_result_types ts = map_option (take 5) (js_sort_desc_by (\<lambda>e. rt_spend (snd e)) (obj_entries ts))"

definition result_type_breakdown ::
  "row list \<Rightarrow> row list \<Rightarrow> string list \<times> ((string \<times> rt_tot) list \<times> (string \<times> rt_tot) list) option" where
  "result_type_breakdown before_rows after_rows =
     (let bts = get_result_types before_rows; ats = get_result_types after_rows
      in (rev (remdups (rev (map fst (obj_entries bts) @ map fst (obj_entries ats)))),
          case (top_result_types bts, top_result_types ats) of
            (Some x, Some y) \<Rightarrow> Some (x, y)
          | _ \<Rightarrow> None))"

text \<open>\<open>renderAudienceInsights\<close>: segments with conversions by cost per conversation, the
  first three and the last three reversed.\<close>

definition gen_audience_insights ::
  "gen_metrics \<Rightarrow> ((string \<times> gen_demo \<times> jsnum) list \<times> (string \<times> gen_demo \<times> jsnum) list) option" where
  "gen_audience_insights a =
     map_option (\<lambda>s. (take 3 s, rev (slice_last 3 s)))
       (js_sort_by (\<lambda>x. snd (snd x))
          (map (\<lambda>e. (fst e, snd e, if js_pos (gd_conv (snd e)) then js_div (gd_spend (snd e)) (gd_conv (snd e)) else PInf))
             (filter (\<lambda>e. js_pos (gd_conv (snd e))) (obj_entries (demos_or_empty a)))))"

text \<open>\<open>renderTopAds\<close>'s \<open>getTopAds\<close>.\<close>

record gen_ad =
  gad_spend :: jsnum
  gad_results :: jsnum
  gad_reach :: jsnum
  gad_ctr_sum :: jsnum
  gad_count :: nat

record gen_ad_item =
  gai_name :: string
  gai_ad :: gen_ad
  gai_ctr :: jsnum
  gai_cpr :: jsnum

definition gen_ads_map :: "row list \<Rightarrow> gen_ad obj" where
  "gen_ads_map data =
     foldl (\<lambda>m r. obj_upsert (js_or_str (ad_name r) ''Sin nombre'')
                   \<lparr>gad_spend = 0, gad_results = 0, gad_reach = 0, gad_ctr_sum = 0, gad_count = 0\<rparr>
                   (\<lambda>v. v\<lparr>gad_spend := gad_spend v + row_spend r, gad_results := gad_results v + row_results r,
                          gad_reach := gad_reach v + row_reach r, gad_ctr_sum := gad_ctr_sum v + num_or_zero (ctr_cell r),
                          gad_count := gad_count v + 1\<rparr>) m)
       [] data"

definition gen_top_ads :: "row list \<Rightarrow> gen_ad_item list option" where
  "gen_top_ads data =
     map_option (take 5)
       (js_sort_desc_by (\<lambda>x. gad_spend (gai_ad x))
          (map (\<lambda>e. \<lparr>gai_name = fst e, gai_ad = snd e,
                      gai_ctr = js_div (gad_ctr_sum (snd e)) (Fin (real (gad_count (snd e)))),
                      gai_cpr = (if js_pos (gad_results (snd e)) then js_div (gad_spend (snd e)) (gad_results (snd e))
                                 else Fin 0)\<rparr>)
             (obj_entries (gen_ads_map data))))"

text \<open>\<open>renderBenchmarkCompliance\<close>: each check with its outcome for period 1 and period 2.\<close>

definition gen_compliance_checks :: "gen_config \<Rightarrow> gen_metrics \<Rightarrow> gen_metrics \<Rightarrow> (gen_metric \<times> bool \<times> bool) list" where
  "gen_compliance_checks cfg b a =
     [(CTRMetric, js_ge (g_ctr b) (bench_ctr cfg), js_ge (g_ctr a) (bench_ctr cfg)),
      (CPMMetric, js_le (g_cpm b) (bench_cpm cfg), js_le (g_cpm a) (bench_cpm cfg)),
      (CostoConversion, js_le (g_cpl b) (bench_cpl cfg) \<or> js_eq (g_cpl b) (Fin 0),
                        js_le (g_cpl a) (bench_cpl cfg) \<or> js_eq (g_cpl a) (Fin 0)),
      (Frecuencia, js_le (g_frequency b) (bench_frequency cfg), js_le (g_frequency a) (bench_frequency cfg))]"

definition gen_compliance_scores :: "gen_config \<Rightarrow> gen_metrics \<Rightarrow> gen_metrics \<Rightarrow> nat \<times> nat" where
  "gen_compliance_scores cfg b a =
     (let cs = gen_compliance_checks cfg b a
      in (length (filter (\<lambda>c. fst (snd c)) cs), length (filter (\<lambda>c. snd (snd c)) cs)))"

text \<open>\<open>renderStrategicConclusion\<close>\<close>

datatype gen_winner = WinP2 | WinP1 | RequiresAnalysis

definition conclusion_winner :: "gen_metrics \<Rightarrow> gen_metrics \<Rightarrow> gen_winner" where
  "conclusion_winner b a =
     (if js_lt (g_cpl a) (g_cpl b) \<and> js_gt (g_conversations a) (g_conversations b) then WinP2
      else if js_lt (g_cpl b) (g_cpl a) \<and> js_gt (g_conversations b) (g_conversations a) then WinP1
      else RequiresAnalysis)"

definition conclusion_cpl_reduction :: "gen_metrics \<Rightarrow> gen_metrics \<Rightarrow> jsnum" where
  "conclusion_cpl_reduction b a =
     (if js_pos (g_cpl b) then js_mul (js_div (js_sub (g_cpl b) (g_cpl a)) (g_cpl b)) (Fin 100) else Fin 0)"

definition conv_multiplier :: "gen_metrics \<Rightarrow> gen_metrics \<Rightarrow> jsnum option" where
  "conv_multiplier b a =
     (if js_pos (g_conversations b) then Some (js_div (g_conversations a) (g_conversations b)) else None)"

text \<open>\<open>renderDemographicsChart\<close>: the sorted union of the segment names and, per name,
  \<open>x.demographics?.[k]?.spend || 0\<close>.\<close>

definition gen_chart_keys :: "gen_metrics \<Rightarrow> gen_metrics \<Rightarrow> string list" where
  "gen_chart_keys b a = sort (remdups (map fst (obj_entries (demos_or_empty b)) @ map fst (obj_entries (demos_or_empty a))))"

definition gen_chart_series :: "gen_metrics \<Rightarrow> string list \<Rightarrow> jsnum list" where
  "gen_chart_series m keys =
     map (\<lambda>k. case map_of (demos_or_empty m) k of Some v \<Rightarrow> js_or (gd_spend v) (Fin 0) | None \<Rightarrow> Fin 0) keys"

section \<open>runAnalysis\<close>

text \<open>What \<open>runAnalysis\<close> computes for the panels, in its order.\<close>

text \<open>\<open>renderExecutiveSummary\<close>: each cohort's CTR and CPM against the configured
  benchmark, in percent, 0 when the metric is not positive.\<close>

definition gen_exec_vs :: "gen_config \<Rightarrow> gen_metrics \<Rightarrow> gen_metrics \<Rightarrow> jsnum \<times> jsnum \<times> jsnum \<times> jsnum" where
  "gen_exec_vs cfg b a =
     (let vs = (\<lambda>v bench. if js_pos v then js_mul (js_div (js_sub v bench) bench) (Fin 100) else Fin 0)
      in (vs (g_ctr b) (bench_ctr cfg), vs (g_ctr a) (bench_ctr cfg),
          vs (g_cpm b) (bench_cpm cfg), vs (g_cpm a) (bench_cpm cfg)))"

record gen_report =
  rep_before :: gen_metrics
  rep_after :: gen_metrics
  rep_exec_vs :: "jsnum \<times> jsnum \<times> jsnum \<times> jsnum"
  rep_comparison :: "comparison_row list"
  rep_per_dollar :: "per_dollar \<times> per_dollar"
  rep_eff_multiplier :: "jsnum option"
  rep_breakdown :: "string list \<times> ((string \<times> rt_tot) list \<times> (string \<times> rt_tot) list) option"
  rep_audiences :: "((string \<times> gen_demo \<times> jsnum) list \<times> (string \<times> gen_demo \<times> jsnum) list) option"
  rep_top_ads :: "gen_ad_item list option \<times> gen_ad_item list option"
  rep_compliance :: "nat \<times> nat"
  rep_winner :: gen_winner
  rep_chart :: "string list"
  rep_diagnosis :: "diagnosis list option"

definition run_analysis :: "filters \<Rightarrow> gen_config \<Rightarrow> row list \<Rightarrow> row list \<Rightarrow> gen_report" where
  "run_analysis flt cfg before_rows after_rows =
     (let b = calculate_metrics before_rows; a = calculate_metrics after_rows
      in \<lparr>rep_before = b, rep_after = a, rep_exec_vs = gen_exec_vs cfg b a,
          rep_comparison = metrics_comparison cfg b a,
          rep_per_dollar = (deep_per_dollar b, deep_per_dollar a), rep_eff_multiplier = eff_multiplier b a,
          rep_breakdown = result_type_breakdown before_rows after_rows,
          rep_audiences = gen_audience_insights a,
          rep_top_ads = (gen_top_ads before_rows, gen_top_ads after_rows),
          rep_compliance = gen_compliance_scores cfg b a, rep_winner = conclusion_winner b a,
          rep_chart = gen_chart_keys b a,
          rep_diagnosis = generate_auto_diagnosis flt cfg before_rows after_rows b a\<rparr>)"

text \<open>\<open>startAnalysis\<close> followed by \<open>runAnalysis\<close> on its cohorts.\<close>

definition analyze ::
  "(string \<Rightarrow> jsdate) \<Rightarrow> int \<Rightarrow> config_form \<Rightarrow> filters \<Rightarrow> row list \<Rightarrow> analysis_error + gen_report" where
  "analyze host tz form flt raw =
     (case start_analysis host tz form flt raw of
        Inl e \<Rightarrow> Inl e
      | Inr (cfg, sr) \<Rightarrow> Inr (run_analysis flt cfg (before_data sr) (after_data sr)))"


section \<open>Fixtures\<close>

text \<open>A cohort of one non-conversation row (spend 5, results 3), and rows of the
  configuration \<open>example_config\<close>'s periods: one of period 2 by its keyword, one of
  period 1, one outside both periods.\<close>

definition no_conv_rows :: "row list" where
  "no_conv_rows = [mk_row ''Alcance'' ''Otro'' (CNum 5) (CNum 3)]"

definition analyze_rows :: "row list" where
  "analyze_rows = [row_on ''BrandCampaign'' ''2026-01-05'', row_on ''Promo'' ''2026-01-05'',
                   row_on ''Old'' ''2025-06-01'']"

section \<open>Lemmas: one step and the whole pass\<close>

lemma gen_demo_key_not_proto [simp]: "gen_demo_key r \<notin> set proto_names"
proof
  assume "gen_demo_key r \<in> set proto_names"
  moreover have "CHR '' '' \<in> set (gen_demo_key r)" by (simp add: gen_demo_key_def Let_def)
  ultimately show False using proto_names_no_space by blast
qed

lemma gen_step_sums [simp]:
  "ga_spend (gen_step m r) = ga_spend m + row_spend r"
  "ga_results (gen_step m r) = ga_results m + row_results r"
  "ga_reach (gen_step m r) = ga_reach m + row_reach r"
  "ga_impressions (gen_step m r) = ga_impressions m + row_impressions r"
  "ga_clicks (gen_step m r) = ga_clicks m + row_clicks r"
  "ga_conversations (gen_step m r) = ga_conversations m + gen_conv_delta r"
  "obj_sum gd_spend (ga_demographics (gen_step m r)) = obj_sum gd_spend (ga_demographics m) + row_spend r"
  "obj_sum gd_conv (ga_demographics (gen_step m r)) = obj_sum gd_conv (ga_demographics m) + gen_conv_delta r"
  by (simp_all add: gen_step_def Let_def gen_conv_delta_def obj_sum_upsert gen_demo_zero_def)

lemmas gen_fold = foldl_additive [where f = gen_step]

lemma gen_fold_sums:
  "ga_spend (foldl gen_step m rs) = ga_spend m + sum_list (map row_spend rs)"
  "ga_results (foldl gen_step m rs) = ga_results m + sum_list (map row_results rs)"
  "ga_reach (foldl gen_step m rs) = ga_reach m + sum_list (map row_reach rs)"
  "ga_impressions (foldl gen_step m rs) = ga_impressions m + sum_list (map row_impressions rs)"
  "ga_clicks (foldl gen_step m rs) = ga_clicks m + sum_list (map row_clicks rs)"
  "ga_conversations (foldl gen_step m rs) = ga_conversations m + sum_list (map gen_conv_delta rs)"
  "obj_sum gd_spend (ga_demographics (foldl gen_step m rs))
     = obj_sum gd_spend (ga_demographics m) + sum_list (map row_spend rs)"
  "obj_sum gd_conv (ga_demographics (foldl gen_step m rs))
     = obj_sum gd_conv (ga_demographics m) + sum_list (map gen_conv_delta rs)"
  by (rule gen_fold; simp)+

lemma gen_acc_zero_simps [simp]:
  "ga_spend gen_acc_zero = 0" "ga_results gen_acc_zero = 0" "ga_reach gen_acc_zero = 0"
  "ga_impressions gen_acc_zero = 0" "ga_clicks gen_acc_zero = 0" "ga_conversations gen_acc_zero = 0"
  "ga_demographics gen_acc_zero = []"
  by (simp_all add: gen_acc_zero_def)

lemma calculate_metrics_totals:
  "g_spend (calculate_metrics rows) = sum_list (map row_spend rows)"
  "g_results (calculate_metrics rows) = sum_list (map row_results rows)"
  "g_reach (calculate_metrics rows) = sum_list (map row_reach rows)"
  "g_impressions (calculate_metrics rows) = sum_list (map row_impressions rows)"
  "g_clicks (calculate_metrics rows) = sum_list (map row_clicks rows)"
  "g_conversations (calculate_metrics rows) = sum_list (map gen_conv_delta rows)"
  by (simp_all add: calculate_metrics_def gen_metrics_empty_def gen_derive_def gen_fold_sums
                    zero_jsnum_def [symmetric])

lemma gen_cpl_no_conversions: "\<not> js_pos (g_conversations m) \<Longrightarrow> m = calculate_metrics rows \<Longrightarrow> g_cpl m = Fin 0"
  by (simp add: calculate_metrics_def gen_metrics_empty_def gen_derive_def split: if_splits)

lemma result_types_fold:
  "result_types (foldl deep_step d rows)
     = foldl (\<lambda>m r. obj_upsert (row_result_type r) rt_zero
                      (\<lambda>v. v\<lparr>rt_spend := rt_spend v + row_spend r, rt_results := rt_results v + row_results r\<rparr>) m)
         (result_types d) rows"
  by (induction rows arbitrary: d) (simp_all add: deep_step_def Let_def)

text \<open>
  C22. The two analyzers agree on a cohort's totals: the generic \<open>calculateMetrics\<close> and the
  comparative \<open>calculateDeepMetrics\<close> give the same spend, results, reach, impressions and
  clicks, the generic result-type breakdown is the comparative one, and the conversations
  agree when every row's result type is classified alike by the exact-label test and the
  stem test.
\<close>

theorem gen_metrics_agree_with_deep:
  "g_spend (calculate_metrics rows) = spend (deep_acc_of rows)
   \<and> g_results (calculate_metrics rows) = results (deep_acc_of rows)
   \<and> g_reach (calculate_metrics rows) = reach (deep_acc_of rows)
   \<and> g_impressions (calculate_metrics rows) = impressions (deep_acc_of rows)
   \<and> g_clicks (calculate_metrics rows) = clicks (deep_acc_of rows)
   \<and> get_result_types rows = result_types (deep_acc_of rows)
   \<and> ((\<forall>r \<in> set rows. is_gen_conv r \<longleftrightarrow> row_is_conv r)
      \<longrightarrow> g_conversations (calculate_metrics rows) = conversations (deep_acc_of rows))"
proof -
  have c: "(\<forall>r \<in> set rows. is_gen_conv r \<longleftrightarrow> row_is_conv r)
           \<longrightarrow> sum_list (map gen_conv_delta rows) = sum_list (map conv_delta rows)"
  proof
    assume h: "\<forall>r \<in> set rows. is_gen_conv r \<longleftrightarrow> row_is_conv r"
    have "map gen_conv_delta rows = map conv_delta rows"
      using h by (auto simp: gen_conv_delta_def conv_delta_def)
    then show "sum_list (map gen_conv_delta rows) = sum_list (map conv_delta rows)" by (rule arg_cong)
  qed
  show ?thesis
    using c by (simp add: calculate_metrics_totals deep_acc_of_foldl deep_fold_sums result_types_fold get_result_types_def)
qed

text \<open>
  C33. Conservation over segments: the generic segments' spend and conversations add up to
  the cohort's spend and conversations; an empty cohort has no segments at all.
\<close>

theorem gen_demographics_conservation:
  "(case g_demographics (calculate_metrics rows) of
      None \<Rightarrow> rows = []
    | Some d \<Rightarrow> obj_sum gd_spend d = g_spend (calculate_metrics rows)
                \<and> obj_sum gd_conv d = g_conversations (calculate_metrics rows))"
  by (simp add: calculate_metrics_def gen_metrics_empty_def gen_derive_def gen_fold_sums)

lemma sum_list_nonneg_js: "\<forall>x \<in> set xs. js_le (Fin 0) x \<Longrightarrow> js_le (Fin 0) (sum_list xs)"
proof (induction xs)
  case Nil then show ?case by (simp add: zero_jsnum_def)
next
  case (Cons x xs)
  then have "js_le (Fin 0) x" "js_le (Fin 0) (sum_list xs)" by simp_all
  then show ?case by (cases x; cases "sum_list xs") (auto simp: js_le_def)
qed

lemma js_div_nonneg_not_neg: "js_le (Fin 0) x \<Longrightarrow> js_pos c \<Longrightarrow> \<not> js_lt (js_div x c) (Fin 0)"
proof -
  have q: "0 \<le> a \<Longrightarrow> 0 < b \<Longrightarrow> \<not> a / b < (0::real)" for a b by (simp add: not_less)
  show "js_le (Fin 0) x \<Longrightarrow> js_pos c \<Longrightarrow> \<not> js_lt (js_div x c) (Fin 0)"
    by (cases x; cases c) (auto simp: js_le_def js_lt_def inf_of_sign_def q)
qed

lemma gen_cpl_not_neg:
  assumes "\<forall>r \<in> set rows. js_le (Fin 0) (row_spend r)"
  shows "\<not> js_lt (g_cpl (calculate_metrics rows)) (Fin 0)"
proof -
  have "js_le (Fin 0) (sum_list (map row_spend rows))"
    using assms by (intro sum_list_nonneg_js) auto
  then show ?thesis
    using js_div_nonneg_not_neg
    by (auto simp: calculate_metrics_def gen_metrics_empty_def gen_derive_def gen_fold_sums)
qed

text \<open>
  C34. The zero policy of the generic cost per conversation: when period 1 has no
  conversations its CPL is 0, so the strategic conclusion never names period 2 the winner,
  whatever period 2 achieves (for non-negative spends).
\<close>

theorem gen_conclusion_never_p2_without_p1_conversions:
  assumes "\<forall>r \<in> set after_rows. js_le (Fin 0) (row_spend r)"
    and "\<not> js_pos (g_conversations (calculate_metrics before_rows))"
  shows "conclusion_winner (calculate_metrics before_rows) (calculate_metrics after_rows) \<noteq> WinP2"
  using gen_cpl_not_neg [OF assms(1)] gen_cpl_no_conversions [OF assms(2) refl]
  by (simp add: conclusion_winner_def)

text \<open>
  A period 2 without conversions beats any period 1 of positive cost per conversation
  on the metrics table's CPL row, and passes the CPL benchmark check.
\<close>

theorem gen_no_conversions_wins_cpl:
  assumes "js_pos (g_cpl b)" and "\<not> js_pos (g_conversations (calculate_metrics after_rows))"
  shows "cr_p2_better (metrics_comparison cfg b (calculate_metrics after_rows) ! 2)
         \<and> snd (snd (gen_compliance_checks cfg b (calculate_metrics after_rows) ! 2))"
  using assms gen_cpl_no_conversions [OF assms(2) refl]
  by (simp add: metrics_comparison_def gen_compliance_checks_def)

lemma sum_list_cohorts:
  fixes f :: "row \<Rightarrow> 'a::comm_monoid_add"
  shows "sum_list (map f (filter (\<lambda>r. g r = Period1) xs)) + sum_list (map f (filter (\<lambda>r. g r = Period2) xs))
         + sum_list (map f (filter (\<lambda>r. g r = Skipped \<or> g r = NoDate) xs)) = sum_list (map f xs)"
proof (induction xs)
  case (Cons x xs)
  then show ?case by (cases "g x") (simp_all add: add_ac)
qed simp

text \<open>
  C23. Composition of \<open>startAnalysis\<close> and \<open>runAnalysis\<close>: when the analysis runs, the
  spend of its two cohorts plus the spend of the rows it skipped or could not date is the
  spend of the filtered rows: no row is counted twice or lost between the classifier and
  the metrics.
\<close>

theorem analyze_spend_accounted:
  assumes "analyze host tz form flt raw = Inr rep"
  shows "\<exists>cfg. load_configuration host tz form = Inr cfg
     \<and> g_spend (rep_before rep) + g_spend (rep_after rep)
       + sum_list (map row_spend (filter (\<lambda>r. classify_gen host tz cfg r = Skipped \<or> classify_gen host tz cfg r = NoDate)
                                   (filter_data flt raw)))
       = sum_list (map row_spend (filter_data flt raw))"
proof -
  from assms obtain cfg sr where sa: "start_analysis host tz form flt raw = Inr (cfg, sr)"
    and rep: "rep = run_analysis flt cfg (before_data sr) (after_data sr)"
    by (auto simp: analyze_def split: sum.splits)
  from sa have cfg: "load_configuration host tz form = Inr cfg"
    and sr: "sr = split_data_by_date_gen host tz cfg (filter_data flt raw)"
    by (auto simp: start_analysis_def Let_def split: if_splits sum.splits)
  show ?thesis
    using cfg sum_list_cohorts [of row_spend "classify_gen host tz cfg" "filter_data flt raw"]
    by (simp add: rep sr run_analysis_def Let_def split_gen_filters calculate_metrics_totals)
qed

section \<open>Witnesses\<close>

theorem gen_metrics_agree_with_deep_witness:
  "g_conversations (calculate_metrics example_rows) = conversations (deep_acc_of example_rows)"
proof -
  have "\<forall>r \<in> set example_rows. is_gen_conv r \<longleftrightarrow> row_is_conv r" by code_simp
  with gen_metrics_agree_with_deep [of example_rows] show ?thesis by blast
qed

theorem gen_conclusion_never_p2_without_p1_conversions_witness:
  "conclusion_winner (calculate_metrics no_conv_rows) (calculate_metrics example_rows) = RequiresAnalysis"
proof -
  have h1: "\<forall>r \<in> set example_rows. js_le (Fin 0) (row_spend r)" by code_simp
  have h2: "\<not> js_pos (g_conversations (calculate_metrics no_conv_rows))" by code_simp
  have "conclusion_winner (calculate_metrics no_conv_rows) (calculate_metrics example_rows) \<noteq> WinP2"
    by (rule gen_conclusion_never_p2_without_p1_conversions [OF h1 h2])
  moreover have "conclusion_winner (calculate_metrics no_conv_rows) (calculate_metrics example_rows) \<noteq> WinP1"
    by code_simp
  ultimately show ?thesis by (cases "conclusion_winner (calculate_metrics no_conv_rows) (calculate_metrics example_rows)") simp_all
qed

theorem gen_no_conversions_wins_cpl_witness:
  "cr_p2_better (metrics_comparison example_config (calculate_metrics example_rows) (calculate_metrics no_conv_rows) ! 2)
   \<and> snd (snd (gen_compliance_checks example_config (calculate_metrics example_rows) (calculate_metrics no_conv_rows) ! 2))"
proof (rule gen_no_conversions_wins_cpl)
  show "js_pos (g_cpl (calculate_metrics example_rows))" by code_simp
  show "\<not> js_pos (g_conversations (calculate_metrics no_conv_rows))" by code_simp
qed

theorem analyze_spend_accounted_witness:
  "\<exists>rep cfg. analyze (\<lambda>_. Invalid) 0 example_form default_filters analyze_rows = Inr rep
     \<and> load_configuration (\<lambda>_. Invalid) 0 example_form = Inr cfg
     \<and> g_spend (rep_before rep) + g_spend (rep_after rep)
       + sum_list (map row_spend (filter (\<lambda>r. classify_gen (\<lambda>_. Invalid) 0 cfg r = Skipped
                                              \<or> classify_gen (\<lambda>_. Invalid) 0 cfg r = NoDate)
                                   (filter_data default_filters analyze_rows)))
       = sum_list (map row_spend (filter_data default_filters analyze_rows))"
proof -
  have e: "analyze (\<lambda>_. Invalid) 0 example_form default_filters analyze_rows
           = Inr (projr (analyze (\<lambda>_. Invalid) 0 example_form default_filters analyze_rows))"
    by code_simp
  from analyze_spend_accounted [OF e] show ?thesis using e by blast
qed

end
