(* ===== verification/Dashboard.thy ===== *)
theory Dashboard
  imports RowAnalyses
begin

text \<open>
  The single-cohort dashboard of src/analyzer.js (\<open>runBrutalAnalysis\<close>): the rows are
  cleaned (an ad name and a truthy spend cell), then seven analyses read the same cleaned
  rows: \<open>calculateKPIs\<close>, \<open>analyzeDemographics\<close>, \<open>analyzeResultTypes\<close>,
  \<open>analyzePerformers\<close>, \<open>buildDemographicMatrix\<close>, \<open>buildTopAdsTable\<close> and
  \<open>mineKeywords\<close>. Each is a fold into an object, as its \<open>forEach\<close> builds it, followed
  by a ranking; the model stops at the values that are printed or charted (before
  \<open>toFixed\<close>). The keyword tokenizer is the one of RowAnalyses with this script's stop
  words, which lack \<open>null\<close>. Costs per result are 0 when there are no results, except in
  the keyword ranking \<open>byCPR\<close>, where they are \<open>Infinity\<close>.
\<close>

section \<open>Cleaning and KPIs\<close>

text \<open>\<open>rawData.filter(row => row['Nombre del anuncio'] && row['Importe gastado (USD)'])\<close>\<close>

definition clean_rows :: "row list \<Rightarrow> row list" where
  "clean_rows raw = filter (\<lambda>r. ad_name r \<noteq> [] \<and> cell_truthy (spend_cell r)) raw"

record kpis =
  k_records :: nat
  k_spend :: jsnum
  k_results :: jsnum
  k_avg_cpr :: jsnum

definition calculate_kpis :: "row list \<Rightarrow> kpis" where
  "calculate_kpis data =
     (let s = foldl (\<lambda>acc r. acc + row_spend r) (Fin 0) data;
          res = foldl (\<lambda>acc r. acc + row_results r) (Fin 0) data
      in \<lparr>k_records = length data, k_spend = s, k_results = res,
          k_avg_cpr = (if js_pos res then js_div s res else Fin 0)\<rparr>)"

section \<open>Segments\<close>

text \<open>\<open>`${gender} ${age}`\<close> with \<open>age = row['Edad'] || 'Unknown'\<close> and the raw \<open>Sexo\<close>
  compared with \<open>'male'\<close> and \<open>'female'\<close>.\<close>

definition dash_key :: "row \<Rightarrow> string" where
  "dash_key r =
     (if sex r = ''male'' then ''Hombres'' else if sex r = ''female'' then ''Mujeres'' else ''Otro'')
     @ '' '' @ js_or_str (age r) ''Unknown''"

record seg_tot =
  sg_spend :: jsnum
  sg_results :: jsnum
  sg_clicks :: jsnum
  sg_impressions :: jsnum
  sg_reach :: jsnum

definition seg_zero :: seg_tot where
  "seg_zero = \<lparr>sg_spend = 0, sg_results = 0, sg_clicks = 0, sg_impressions = 0, sg_reach = 0\<rparr>"

text \<open>\<open>analyzeDemographics\<close>: spend and results per segment, the ten largest by spend.\<close>

definition demo_spend_results :: "row list \<Rightarrow> (jsnum \<times> jsnum) obj" where
  "demo_spend_results data =
     foldl (\<lambda>m r. obj_upsert (dash_key r) (Fin 0, Fin 0)
                   (\<lambda>v. (fst v + row_spend r, snd v + row_results r)) m) [] data"

definition analyze_demographics :: "row list \<Rightarrow> (string \<times> jsnum) list option" where
  "analyze_demographics data =
     map_option (\<lambda>s. map (\<lambda>e. (fst e, fst (snd e))) (take 10 s))
       (js_sort_desc_by (\<lambda>e. fst (snd e)) (obj_entries (demo_spend_results data)))"

text \<open>\<open>buildDemographicMatrix\<close>: every segment's totals.\<close>

definition matrix_step :: "seg_tot obj \<Rightarrow> row \<Rightarrow> seg_tot obj" where
  "matrix_step m r =
     obj_upsert (dash_key r) seg_zero
       (\<lambda>v. v\<lparr>sg_spend := sg_spend v + row_spend r, sg_results := sg_results v + row_results r,
              sg_clicks := sg_clicks v + row_clicks r, sg_impressions := sg_impressions v + row_impressions r,
              sg_reach := sg_reach v + row_reach r\<rparr>) m"

definition demographic_matrix_obj :: "row list \<Rightarrow> seg_tot obj" where
  "demographic_matrix_obj data = foldl matrix_step [] data"

record matrix_row =
  mr_segment :: string
  mr_spend :: jsnum
  mr_results :: jsnum
  mr_cpr :: jsnum
  mr_ctr :: jsnum
  mr_reach :: jsnum

text \<open>\<open>val.results > 0 ? val.spend / val.results : 0\<close> and
  \<open>val.impressions > 0 ? val.clicks / val.impressions * 100 : 0\<close>.\<close>

definition cpr_or_zero :: "jsnum \<Rightarrow> jsnum \<Rightarrow> jsnum" where
  "cpr_or_zero s r = (if js_pos r then js_div s r else Fin 0)"

definition ctr_or_zero :: "jsnum \<Rightarrow> jsnum \<Rightarrow> jsnum" where
  "ctr_or_zero c i = (if js_pos i then js_mul (js_div c i) (Fin 100) else Fin 0)"

definition matrix_row_of :: "string \<times> seg_tot \<Rightarrow> matrix_row" where
  "matrix_row_of e =
     \<lparr>mr_segment = fst e, mr_spend = sg_spend (snd e), mr_results = sg_results (snd e),
      mr_cpr = cpr_or_zero (sg_spend (snd e)) (sg_results (snd e)),
      mr_ctr = ctr_or_zero (sg_clicks (snd e)) (sg_impressions (snd e)), mr_reach = sg_reach (snd e)\<rparr>"

text \<open>The sorted rows and \<open>avgCPR = sorted.reduce((sum, s) => sum + s.cpr, 0) / sorted.length\<close>.\<close>

definition demographic_matrix :: "row list \<Rightarrow> (matrix_row list \<times> jsnum) option" where
  "demographic_matrix data =
     map_option (\<lambda>s. (s, js_div (foldl (\<lambda>acc x. acc + mr_cpr x) (Fin 0) s) (Fin (real (length s)))))
       (js_sort_by mr_cpr (map matrix_row_of (obj_entries (demographic_matrix_obj data))))"

section \<open>Result types\<close>

definition result_type_ctr_obj :: "row list \<Rightarrow> (jsnum \<times> jsnum \<times> jsnum) obj" where
  "result_type_ctr_obj data =
     foldl (\<lambda>m r. obj_upsert (row_result_type r) (Fin 0, Fin 0, Fin 0)
                   (\<lambda>v. (fst v + row_spend r, fst (snd v) + row_clicks r, snd (snd v) + row_impressions r)) m)
       [] data"

text \<open>\<open>analyzeResultTypes\<close>: the six types of highest CTR, labels cut to 25 characters.\<close>

definition analyze_result_types :: "row list \<Rightarrow> (string \<times> jsnum) list option" where
  "analyze_result_types data =
     map_option (take 6)
       (js_sort_desc_by snd
          (map (\<lambda>e. (take 25 (fst e), ctr_or_zero (fst (snd (snd e))) (snd (snd (snd e)))))
             (obj_entries (result_type_ctr_obj data))))"

section \<open>Ads\<close>

text \<open>\<open>analyzePerformers\<close>: spend and results per ad name.\<close>

definition ad_spend_results :: "row list \<Rightarrow> (jsnum \<times> jsnum) obj" where
  "ad_spend_results data =
     foldl (\<lambda>m r. obj_upsert (ad_name r) (Fin 0, Fin 0)
                   (\<lambda>v. (fst v + row_spend r, snd v + row_results r)) m) [] data"

record perf =
  pf_name :: string
  pf_spend :: jsnum
  pf_results :: jsnum
  pf_cpr :: jsnum

definition ads_with_cpr :: "row list \<Rightarrow> perf list" where
  "ads_with_cpr data =
     map (\<lambda>e. \<lparr>pf_name = fst e, pf_spend = fst (snd e), pf_results = snd (snd e),
               pf_cpr = js_div (fst (snd e)) (snd (snd e))\<rparr>)
       (filter (\<lambda>e. js_pos (snd (snd e)) \<and> js_gt (fst (snd e)) (Fin 5)) (obj_entries (ad_spend_results data)))"

text \<open>\<open>topPerformers\<close> (lowest CPR first) and \<open>worstPerformers\<close> (highest first).\<close>

definition analyze_performers :: "row list \<Rightarrow> (perf list \<times> perf list) option" where
  "analyze_performers data =
     (case (js_sort_by pf_cpr (ads_with_cpr data), js_sort_desc_by pf_cpr (ads_with_cpr data)) of
        (Some t, Some w) \<Rightarrow> Some (take 5 t, take 5 w)
      | _ \<Rightarrow> None)"

record ad4 =
  a4_spend :: jsnum
  a4_results :: jsnum
  a4_clicks :: jsnum
  a4_impressions :: jsnum

definition ad4_zero :: ad4 where
  "ad4_zero = \<lparr>a4_spend = 0, a4_results = 0, a4_clicks = 0, a4_impressions = 0\<rparr>"

definition top_ads_obj :: "row list \<Rightarrow> ad4 obj" where
  "top_ads_obj data =
     foldl (\<lambda>m r. obj_upsert (ad_name r) ad4_zero
                   (\<lambda>v. v\<lparr>a4_spend := a4_spend v + row_spend r, a4_results := a4_results v + row_results r,
                          a4_clicks := a4_clicks v + row_clicks r,
                          a4_impressions := a4_impressions v + row_impressions r\<rparr>) m) [] data"

text \<open>\<open>buildTopAdsTable\<close>: the ten ads of highest spend with their CPR and CTR.\<close>

definition top_ads_table :: "row list \<Rightarrow> (string \<times> ad4 \<times> jsnum \<times> jsnum) list option" where
  "top_ads_table data =
     map_option (take 10)
       (js_sort_desc_by (\<lambda>x. a4_spend (fst (snd x)))
          (map (\<lambda>e. (fst e, snd e, cpr_or_zero (a4_spend (snd e)) (a4_results (snd e)),
                     ctr_or_zero (a4_clicks (snd e)) (a4_impressions (snd e))))
             (obj_entries (top_ads_obj data))))"

section \<open>Keyword mining\<close>

definition dash_stop_words :: "string list" where
  "dash_stop_words = [''de'', ''la'', ''el'', ''en'', ''y'', ''a'', ''para'', ''por'', ''con'',
                      ''campa'' @ [CHR 0xF1] @ ''a'', ''interacci'' @ [CHR 0xF3] @ ''n'',
                      ''publicaci'' @ [CHR 0xF3] @ ''n'', ''instagram'']"

definition dash_words :: "string \<Rightarrow> string list" where
  "dash_words name =
     filter (\<lambda>w. length w > 2 \<and> to_lower w \<notin> set dash_stop_words) (split_ws (strip_non_word (to_upper name)))"

record kw5 =
  k5_spend :: jsnum
  k5_results :: jsnum
  k5_clicks :: jsnum
  k5_impressions :: jsnum
  k5_count :: nat

definition kw5_zero :: kw5 where
  "kw5_zero = \<lparr>k5_spend = 0, k5_results = 0, k5_clicks = 0, k5_impressions = 0, k5_count = 0\<rparr>"

definition dash_keyword_step :: "kw5 obj \<Rightarrow> row \<Rightarrow> kw5 obj" where
  "dash_keyword_step m r =
     foldl (\<lambda>k w. obj_upsert w kw5_zero
              (\<lambda>v. v\<lparr>k5_spend := k5_spend v + row_spend r, k5_results := k5_results v + row_results r,
                     k5_clicks := k5_clicks v + row_clicks r, k5_impressions := k5_impressions v + row_impressions r,
                     k5_count := k5_count v + 1\<rparr>) k)
       m (dash_words (js_or_str (ad_name r) []))"

definition dash_keywords :: "row list \<Rightarrow> kw5 obj" where
  "dash_keywords data = foldl dash_keyword_step [] data"

text \<open>\<open>bySpend\<close>, \<open>byCTR\<close>, \<open>byCPR\<close> and \<open>worstCPR\<close>: the first entry of each ranking of
  the words seen more than three times; the outer \<open>None\<close> is a \<open>NaN\<close> comparison, the
  inner one an empty ranking.\<close>

record keyword_cards =
  by_spend :: "(string \<times> kw5) option"
  by_ctr :: "(string \<times> kw5 \<times> jsnum) option"
  by_cpr :: "(string \<times> kw5 \<times> jsnum) option"
  worst_cpr :: "(string \<times> kw5 \<times> jsnum) option"

definition mine_keywords :: "row list \<Rightarrow> keyword_cards option" where
  "mine_keywords data =
     (let es = filter (\<lambda>e. k5_count (snd e) > 3) (obj_entries (dash_keywords data));
          sp = js_sort_desc_by (\<lambda>e. k5_spend (snd e)) es;
          ct = js_sort_desc_by (\<lambda>e. snd (snd e))
                 (map (\<lambda>e. (fst e, snd e, ctr_or_zero (k5_clicks (snd e)) (k5_impressions (snd e))))
                    (filter (\<lambda>e. js_gt (k5_impressions (snd e)) (Fin 1000)) es));
          cp = js_sort_by (\<lambda>e. snd (snd e))
                 (map (\<lambda>e. (fst e, snd e, if js_pos (k5_results (snd e))
                                          then js_div (k5_spend (snd e)) (k5_results (snd e)) else PInf))
                    (filter (\<lambda>e. js_gt (k5_results (snd e)) (Fin 10)) es));
          wc = js_sort_desc_by (\<lambda>e. snd (snd e))
                 (map (\<lambda>e. (fst e, snd e, cpr_or_zero (k5_spend (snd e)) (k5_results (snd e))))
                    (filter (\<lambda>e. js_gt (k5_results (snd e)) (Fin 5)) es))
      in case (sp, ct, cp, wc) of
           (Some a, Some b, Some c, Some d) \<Rightarrow>
             Some \<lparr>by_spend = first_opt a, by_ctr = first_opt b, by_cpr = first_opt c, worst_cpr = first_opt d\<rparr>
         | _ \<Rightarrow> None)"

section \<open>runBrutalAnalysis\<close>

record dashboard =
  db_kpis :: kpis
  db_demographics :: "(string \<times> jsnum) list option"
  db_result_types :: "(string \<times> jsnum) list option"
  db_performers :: "(perf list \<times> perf list) option"
  db_matrix :: "(matrix_row list \<times> jsnum) option"
  db_top_ads :: "(string \<times> ad4 \<times> jsnum \<times> jsnum) list option"
  db_keywords :: "keyword_cards option"

definition run_brutal_analysis :: "row list \<Rightarrow> dashboard" where
  "run_brutal_analysis raw =
     (let data = clean_rows raw
      in \<lparr>db_kpis = calculate_kpis data, db_demographics = analyze_demographics data,
          db_result_types = analyze_result_types data, db_performers = analyze_performers data,
          db_matrix = demographic_matrix data, db_top_ads = top_ads_table data,
          db_keywords = mine_keywords data\<rparr>)"


section \<open>The page\<close>

text \<open>
  The page of src/analyzer.js: a file dropped (when its name ends in \<open>.csv\<close>) or chosen
  goes to \<open>processFile\<close>, which shows the loading section and parses it; when PapaParse
  completes, \<open>rawData\<close> is its rows and a timer schedules \<open>runBrutalAnalysis\<close>; a parse
  error only raises an alert, the loading section staying on screen.
\<close>

datatype dash_section = DashUpload | DashLoading | DashResults

record dash_page =
  dash_raw :: "row list"
  dash_timers :: nat
  dash_shown :: dash_section
  dash_result :: "dashboard option"

definition dash_init :: dash_page where
  "dash_init = \<lparr>dash_raw = [], dash_timers = 0, dash_shown = DashUpload, dash_result = None\<rparr>"

definition dash_process_file :: "row list \<Rightarrow> dash_page \<Rightarrow> dash_page" where
  "dash_process_file rows s = s\<lparr>dash_raw := rows, dash_timers := Suc (dash_timers s), dash_shown := DashLoading\<rparr>"

definition dash_parse_error :: "dash_page \<Rightarrow> dash_page" where
  "dash_parse_error s = s\<lparr>dash_shown := DashLoading\<rparr>"

definition dash_timer :: "dash_page \<Rightarrow> dash_page" where
  "dash_timer s =
     s\<lparr>dash_timers := dash_timers s - 1, dash_shown := DashResults,
       dash_result := Some (run_brutal_analysis (dash_raw s))\<rparr>"

text \<open>\<open>file && file.name.endsWith('.csv')\<close> for a drop; the file input takes any file.\<close>

inductive dash_step :: "dash_page \<Rightarrow> dash_page \<Rightarrow> bool" where
  drop: "ends_with ''.csv'' name \<Longrightarrow> dash_step s (dash_process_file rows s)"
| drop_error: "ends_with ''.csv'' name \<Longrightarrow> dash_step s (dash_parse_error s)"
| input: "dash_step s (dash_process_file rows s)"
| input_error: "dash_step s (dash_parse_error s)"
| timer: "0 < dash_timers s \<Longrightarrow> dash_step s (dash_timer s)"

section \<open>Fixtures\<close>

text \<open>Three ads that qualify for the performers panel.\<close>

definition perf_rows :: "row list" where
  "perf_rows = [mk_row ''Ad A'' ''Otro'' (CNum 10) (CNum 2), mk_row ''Ad B'' ''Otro'' (CNum 30) (CNum 3),
                mk_row ''Ad C'' ''Otro'' (CNum 8) (CNum 4)]"

section \<open>Lemmas\<close>

lemma dash_key_not_proto [simp]: "dash_key r \<notin> set proto_names"
proof
  assume "dash_key r \<in> set proto_names"
  moreover have "CHR '' '' \<in> set (dash_key r)" by (simp add: dash_key_def)
  ultimately show False using proto_names_no_space by blast
qed

lemma foldl_plus_js: "foldl (\<lambda>acc r. acc + g r) z xs = z + sum_list (map g xs)"
  for z :: jsnum by (induction xs arbitrary: z) (simp_all add: add.assoc)

lemma matrix_fold_sums:
  "obj_sum sg_spend (foldl matrix_step m rs) = obj_sum sg_spend m + sum_list (map row_spend rs)"
  "obj_sum sg_results (foldl matrix_step m rs) = obj_sum sg_results m + sum_list (map row_results rs)"
  "obj_sum sg_clicks (foldl matrix_step m rs) = obj_sum sg_clicks m + sum_list (map row_clicks rs)"
  "obj_sum sg_impressions (foldl matrix_step m rs) = obj_sum sg_impressions m + sum_list (map row_impressions rs)"
  "obj_sum sg_reach (foldl matrix_step m rs) = obj_sum sg_reach m + sum_list (map row_reach rs)"
  by (rule foldl_additive; simp add: matrix_step_def obj_sum_upsert seg_zero_def)+

lemma demo_spend_results_sums:
  "obj_sum fst (foldl (\<lambda>m r. obj_upsert (dash_key r) (Fin 0, Fin 0) (\<lambda>v. (fst v + row_spend r, snd v + row_results r)) m) m rs)
     = obj_sum fst m + sum_list (map row_spend rs)"
  "obj_sum snd (foldl (\<lambda>m r. obj_upsert (dash_key r) (Fin 0, Fin 0) (\<lambda>v. (fst v + row_spend r, snd v + row_results r)) m) m rs)
     = obj_sum snd m + sum_list (map row_results rs)"
  by (rule foldl_additive; simp add: obj_sum_upsert zero_jsnum_def)+

text \<open>
  C35. The dashboard's panels agree: the per-segment objects of
  \<open>buildDemographicMatrix\<close> and of \<open>analyzeDemographics\<close> (the latter before the chart
  keeps its ten largest segments and plots their spend) add up to the KPIs' total spend
  and results.
\<close>

theorem dashboard_segments_partition_kpis:
  "obj_sum sg_spend (demographic_matrix_obj data) = k_spend (calculate_kpis data)
   \<and> obj_sum sg_results (demographic_matrix_obj data) = k_results (calculate_kpis data)
   \<and> obj_sum fst (demo_spend_results data) = k_spend (calculate_kpis data)
   \<and> obj_sum snd (demo_spend_results data) = k_results (calculate_kpis data)"
  by (simp add: demographic_matrix_obj_def demo_spend_results_def calculate_kpis_def Let_def
                matrix_fold_sums demo_spend_results_sums foldl_plus_js zero_jsnum_def)

text \<open>
  The two keyword tokenizers agree except on one word: the comparative analyzer's
  words are the dashboard's words without \<open>null\<close> (in any case).
\<close>

theorem keyword_tokenizers_differ_by_null:
  "mining_words n = filter (\<lambda>w. to_lower w \<noteq> ''null'') (dash_words n)"
proof -
  have "set stop_words = insert ''null'' (set dash_stop_words)"
    by (auto simp: stop_words_def dash_stop_words_def)
  then show ?thesis
    by (simp add: mining_words_def dash_words_def conj_commute conj_left_commute)
qed

lemma submset_common:
  assumes "A \<subseteq># C" and "B \<subseteq># C" and "size C < size A + size B"
  shows "set_mset A \<inter> set_mset B \<noteq> {}"
proof
  assume d: "set_mset A \<inter> set_mset B = {}"
  have "A + B \<subseteq># C"
  proof (rule mset_subset_eqI)
    fix x
    show "count (A + B) x \<le> count C x"
    proof (cases "x \<in># A")
      case True
      with d have "count B x = 0" by (auto simp: count_eq_zero_iff)
      with assms(1) show ?thesis by (simp add: mset_subset_eq_count)
    next
      case False
      then have "count A x = 0" by (simp add: count_eq_zero_iff)
      with assms(2) show ?thesis by (simp add: mset_subset_eq_count)
    qed
  qed
  then have "size (A + B) \<le> size C" by (rule size_mset_mono)
  with assms(3) show False by simp
qed

text \<open>
  C36. With at most nine ads that qualify (results and more than 5 USD spend), the top five
  and the worst five performers share an ad: the same ad is listed as one of the best and
  one of the worst.
\<close>

theorem performers_overlap:
  assumes "analyze_performers data = Some (best5, worst5)"
    and "ads_with_cpr data \<noteq> []" and "length (ads_with_cpr data) \<le> 9"
  shows "set best5 \<inter> set worst5 \<noteq> {}"
proof -
  let ?xs = "ads_with_cpr data"
  from assms(1) obtain t w where t: "js_sort_by pf_cpr ?xs = Some t" and w: "js_sort_desc_by pf_cpr ?xs = Some w"
    and tw: "best5 = take 5 t" "worst5 = take 5 w"
    by (auto simp: analyze_performers_def split: option.splits)
  from t have mt: "mset t = mset ?xs" by (rule js_sort_by_mset)
  from w have mw: "mset w = mset ?xs" unfolding js_sort_desc_by_def by (rule js_sort_by_mset)
  have "mset (take 5 t) \<subseteq># mset ?xs" using mt by (metis append_take_drop_id mset_append mset_subset_eq_add_left)
  moreover have "mset (take 5 w) \<subseteq># mset ?xs" using mw by (metis append_take_drop_id mset_append mset_subset_eq_add_left)
  moreover have "length t = length ?xs" "length w = length ?xs"
    using mt mw by (metis size_mset)+
  then have "size (mset ?xs) < size (mset (take 5 t)) + size (mset (take 5 w))"
    using assms(2,3) by (cases "length ?xs \<le> 5") (simp_all add: min_def)
  ultimately have "set_mset (mset (take 5 t)) \<inter> set_mset (mset (take 5 w)) \<noteq> {}"
    by (rule submset_common)
  then show ?thesis by (simp add: tw)
qed

section \<open>Witnesses\<close>

theorem performers_overlap_witness:
  "set (fst (the (analyze_performers perf_rows))) \<inter> set (snd (the (analyze_performers perf_rows))) \<noteq> {}"
proof (rule performers_overlap)
  show "analyze_performers perf_rows
        = Some (fst (the (analyze_performers perf_rows)), snd (the (analyze_performers perf_rows)))"
    by code_simp
  show "ads_with_cpr perf_rows \<noteq> []" by code_simp
  show "length (ads_with_cpr perf_rows) \<le> 9" by code_simp
qed

end
