(* ===== verification/PageForm.thy ===== *)
theory PageForm
  imports Classifier "HOL-Library.List_Lexorder" "HOL-Library.Char_ord"
begin

text \<open>
  The configuration page of the generic analyzer (src/analyzer-generic.js) as the values
  its widgets hold and the handlers that read and write them.
  \<^item> \<open>filter_form\<close> holds the filter widgets; an element that the page lacks is \<open>None\<close>,
    which is what the optional chaining of \<open>loadFilters\<close> guards against. \<open>load_filters\<close>
    is \<open>loadFilters\<close>: the \<open>filters\<close> record it builds (\<open>comparisonMode\<close>, which it also
    reads, is used nowhere).
  \<^item> \<open>apply_preset\<close> is \<open>applyPreset\<close>: the date presets write the date inputs through
    \<open>valueAsDate\<close>, the filter presets write widget values one after the other and stop
    with a \<open>TypeError\<close> at the first missing element (the second component of the
    result), keeping the writes already done. The period names and the alerts are
    labels and messages and are not modelled.
  \<^item> \<open>init_dates\<close> is the default of the date inputs set on \<open>DOMContentLoaded\<close>;
    \<open>auto_detect_date_range\<close> is \<open>autoDetectDateRange\<close>, run after each upload.
  The current time \<open>now\<close> (\<open>new Date()\<close>) and the time-zone offset \<open>tz\<close> are parameters.
\<close>

section \<open>The filter widgets and \<open>loadFilters\<close>\<close>

record filter_form =
  ff_active :: "bool option"
  ff_not_delivering :: "bool option"
  ff_min_spend :: "string option"
  ff_name_contains :: "string option"
  ff_name_excludes :: "string option"
  ff_male :: "bool option"
  ff_female :: "bool option"
  ff_age_boxes :: "(string \<times> bool) list"
  ff_ctr_good :: "string option"
  ff_cpm_good :: "string option"
  ff_cpl_good :: "string option"
  ff_freq_good :: "string option"

text \<open>\<open>el?.checked ?? true\<close>\<close>

definition checked_or_true :: "bool option \<Rightarrow> bool" where
  "checked_or_true b = (case b of None \<Rightarrow> True | Some c \<Rightarrow> c)"

text \<open>\<open>parseFloat(el?.value) || d\<close>: a missing element gives \<open>parseFloat(undefined)\<close>, \<open>NaN\<close>.\<close>

definition value_float_or :: "string option \<Rightarrow> real \<Rightarrow> jsnum" where
  "value_float_or v d = js_or (case v of None \<Rightarrow> NaN | Some s \<Rightarrow> parse_float_str s) (Fin d)"

text \<open>\<open>el?.value?.toLowerCase() || ''\<close>\<close>

definition value_lower :: "string option \<Rightarrow> string" where
  "value_lower v = (case v of None \<Rightarrow> [] | Some s \<Rightarrow> to_lower s)"

definition load_filters :: "filter_form \<Rightarrow> filters" where
  "load_filters f =
     \<lparr>delivery_active = checked_or_true (ff_active f),
      delivery_not_delivering = checked_or_true (ff_not_delivering f),
      min_spend = value_float_or (ff_min_spend f) 0,
      name_contains = value_lower (ff_name_contains f),
      name_excludes = value_lower (ff_name_excludes f),
      ages = map fst (filter snd (ff_age_boxes f)),
      genders = (if ff_male f = Some True then [''male''] else [])
                @ (if ff_female f = Some True then [''female''] else []),
      ctr_good = value_float_or (ff_ctr_good f) 2,
      cpm_good = value_float_or (ff_cpm_good f) 8,
      cpl_good = value_float_or (ff_cpl_good f) 10,
      freq_good = value_float_or (ff_freq_good f) 1.5\<rparr>"

section \<open>The page and \<open>applyPreset\<close>\<close>

record page_form =
  pg_config :: config_form
  pg_filters :: filter_form

datatype preset = MonthVsMonth | WeekVsWeek | BestPerformers | ProblemAds | ResetFilters
  | OtherPreset string

text \<open>
  Statements \<open>document.getElementById(id).value = v\<close> in sequence: each write is the test
  that the element exists and the update; a missing element throws (\<open>True\<close>) and the
  writes after it are not done.
\<close>

fun run_writes ::
  "((filter_form \<Rightarrow> bool) \<times> (filter_form \<Rightarrow> filter_form)) list \<Rightarrow> filter_form \<Rightarrow> filter_form \<times> bool" where
  "run_writes [] f = (f, False)"
| "run_writes (w # ws) f = (if fst w f then run_writes ws (snd w f) else (f, True))"

text \<open>The four date inputs written through \<open>valueAsDate\<close>.\<close>

definition set_dates :: "jsdate \<Rightarrow> jsdate \<Rightarrow> jsdate \<Rightarrow> jsdate \<Rightarrow> config_form \<Rightarrow> config_form" where
  "set_dates s1 e1 s2 e2 f =
     f\<lparr>in_period1_start := value_as_date s1, in_period1_end := value_as_date e1,
       in_period2_start := value_as_date s2, in_period2_end := value_as_date e2\<rparr>"

abbreviation fin_int :: "int \<Rightarrow> jsnum" where
  "fin_int i \<equiv> Fin (real_of_int i)"

definition reset_writes :: "((filter_form \<Rightarrow> bool) \<times> (filter_form \<Rightarrow> filter_form)) list" where
  "reset_writes =
     [(\<lambda>f. ff_active f \<noteq> None, \<lambda>f. f\<lparr>ff_active := Some True\<rparr>),
      (\<lambda>f. ff_not_delivering f \<noteq> None, \<lambda>f. f\<lparr>ff_not_delivering := Some True\<rparr>),
      (\<lambda>f. ff_min_spend f \<noteq> None, \<lambda>f. f\<lparr>ff_min_spend := Some ''0''\<rparr>),
      (\<lambda>f. ff_name_contains f \<noteq> None, \<lambda>f. f\<lparr>ff_name_contains := Some []\<rparr>),
      (\<lambda>f. ff_name_excludes f \<noteq> None, \<lambda>f. f\<lparr>ff_name_excludes := Some []\<rparr>),
      (\<lambda>f. ff_male f \<noteq> None, \<lambda>f. f\<lparr>ff_male := Some True\<rparr>),
      (\<lambda>f. ff_female f \<noteq> None, \<lambda>f. f\<lparr>ff_female := Some True\<rparr>),
      (\<lambda>f. True, \<lambda>f. f\<lparr>ff_age_boxes := map (\<lambda>b. (fst b, True)) (ff_age_boxes f)\<rparr>)]"

definition apply_preset :: "int \<Rightarrow> int \<Rightarrow> preset \<Rightarrow> page_form \<Rightarrow> page_form \<times> bool" where
  "apply_preset tz now p pg =
     (let on_filters = (\<lambda>ws. case run_writes ws (pg_filters pg) of (f, err) \<Rightarrow> (pg\<lparr>pg_filters := f\<rparr>, err))
      in case p of
        MonthVsMonth \<Rightarrow>
          (case local_ymd tz now of
             (y, m, _) \<Rightarrow>
               (pg\<lparr>pg_config := set_dates (date_local tz (fin_int y) (fin_int (m - 2)) (Fin 1))
                                         (date_local tz (fin_int y) (fin_int (m - 1)) (Fin 0))
                                         (date_local tz (fin_int y) (fin_int (m - 1)) (Fin 1))
                                         (time_clip now) (pg_config pg)\<rparr>, False))
      | WeekVsWeek \<Rightarrow>
          (pg\<lparr>pg_config := set_dates (time_clip (now - 14 * ms_per_day)) (time_clip (now - 7 * ms_per_day))
                                    (time_clip (now - 7 * ms_per_day)) (time_clip now) (pg_config pg)\<rparr>, False)
      | BestPerformers \<Rightarrow>
          on_filters [(\<lambda>f. ff_min_spend f \<noteq> None, \<lambda>f. f\<lparr>ff_min_spend := Some ''10''\<rparr>),
                      (\<lambda>f. ff_cpl_good f \<noteq> None, \<lambda>f. f\<lparr>ff_cpl_good := Some ''15''\<rparr>)]
      | ProblemAds \<Rightarrow>
          on_filters [(\<lambda>f. ff_ctr_good f \<noteq> None, \<lambda>f. f\<lparr>ff_ctr_good := Some ''1''\<rparr>),
                      (\<lambda>f. ff_cpl_good f \<noteq> None, \<lambda>f. f\<lparr>ff_cpl_good := Some ''20''\<rparr>)]
      | ResetFilters \<Rightarrow> on_filters reset_writes
      | OtherPreset _ \<Rightarrow> (pg, False))"

text \<open>\<open>DOMContentLoaded\<close>: period 1 from thirty to fifteen days ago, period 2 from fifteen
  days ago to today.\<close>

definition init_dates :: "int \<Rightarrow> config_form \<Rightarrow> config_form" where
  "init_dates now f =
     set_dates (time_clip (now - 30 * ms_per_day)) (time_clip (now - 15 * ms_per_day))
               (time_clip (now - 15 * ms_per_day)) (time_clip now) f"

text \<open>The widgets \<open>resetFilters\<close> writes are all on the page.\<close>

definition widgets_present :: "filter_form \<Rightarrow> bool" where
  "widgets_present f \<longleftrightarrow> ff_active f \<noteq> None \<and> ff_not_delivering f \<noteq> None \<and> ff_min_spend f \<noteq> None
     \<and> ff_name_contains f \<noteq> None \<and> ff_name_excludes f \<noteq> None \<and> ff_male f \<noteq> None \<and> ff_female f \<noteq> None"

text \<open>A page whose markup has empty text fields and none of the filter widgets.\<close>

definition blank_page :: page_form where
  "blank_page =
     \<lparr>pg_config = \<lparr>in_period1_start = [], in_period1_end = [], in_period2_start = [], in_period2_end = [],
                    in_p1_exclude = [], in_p2_include = [], in_bench_ctr = [], in_bench_cpm = [],
                    in_bench_cpl = [], in_bench_freq = [], in_monthly_budget = []\<rparr>,
      pg_filters = \<lparr>ff_active = None, ff_not_delivering = None, ff_min_spend = None, ff_name_contains = None,
                     ff_name_excludes = None, ff_male = None, ff_female = None, ff_age_boxes = [],
                     ff_ctr_good = None, ff_cpm_good = None, ff_cpl_good = None, ff_freq_good = None\<rparr>\<rparr>"

text \<open>A page with every filter widget, the six age boxes, and the values a user left in
  them.\<close>

definition full_page :: page_form where
  "full_page =
     blank_page\<lparr>pg_filters :=
       \<lparr>ff_active = Some False, ff_not_delivering = Some True, ff_min_spend = Some ''25'',
        ff_name_contains = Some ''Promo'', ff_name_excludes = Some [], ff_male = Some False, ff_female = Some True,
        ff_age_boxes = [(''18-24'', False), (''25-34'', True), (''35-44'', True), (''45-54'', False),
                        (''55-64'', False), (''65+'', False)],
        ff_ctr_good = Some ''0'', ff_cpm_good = Some ''9'', ff_cpl_good = None, ff_freq_good = Some ''2''\<rparr>\<rparr>"

section \<open>\<open>autoDetectDateRange\<close>\<close>

record detect_acc =
  min_date :: "int option"
  max_date :: "int option"
  months_data :: "(jsnum \<times> nat) obj"

text \<open>\<open>`${d.getFullYear()}-${String(d.getMonth() + 1).padStart(2, '0')}`\<close>\<close>

definition month_key :: "int \<Rightarrow> int \<Rightarrow> string" where
  "month_key tz t = (case local_ymd tz t of (y, m, _) \<Rightarrow> show_int y @ ''-'' @ pad_left 2 (show_nat (nat m)))"

text \<open>An end date that is \<open>En curso\<close> or missing is today's UTC date.\<close>

definition end_or_today :: "int \<Rightarrow> string \<Rightarrow> string" where
  "end_or_today now e = (if e = ''En curso'' \<or> e = [] then iso_date_string now else e)"

text \<open>The row's start (\<open>Inicio del informe\<close>, else \<open>Inicio\<close>) and end (\<open>Fin del informe\<close>,
  else \<open>Fin\<close>, else today) through \<open>parseDate\<close>.\<close>

definition detect_start :: "(string \<Rightarrow> jsdate) \<Rightarrow> int \<Rightarrow> row \<Rightarrow> int option" where
  "detect_start host tz r = parse_date_gen host tz (js_or_str (report_start r) (start_date r))"

definition detect_end :: "(string \<Rightarrow> jsdate) \<Rightarrow> int \<Rightarrow> int \<Rightarrow> row \<Rightarrow> int option" where
  "detect_end host tz now r = parse_date_gen host tz (end_or_today now (js_or_str (report_end r) (end_date r)))"

definition detect_step :: "(string \<Rightarrow> jsdate) \<Rightarrow> int \<Rightarrow> int \<Rightarrow> detect_acc \<Rightarrow> row \<Rightarrow> detect_acc" where
  "detect_step host tz now acc r =
     (let sd = detect_start host tz r;
          ed = detect_end host tz now r;
          acc1 = (case sd of
                    None \<Rightarrow> acc
                  | Some t \<Rightarrow>
                      acc\<lparr>min_date := Some (case min_date acc of None \<Rightarrow> t | Some m \<Rightarrow> if t < m then t else m),
                          months_data := obj_upsert (month_key tz t) (Fin 0, 0)
                                           (\<lambda>v. (fst v + row_spend r, snd v + 1)) (months_data acc)\<rparr>)
      in case ed of
           None \<Rightarrow> acc1
         | Some t \<Rightarrow> acc1\<lparr>max_date := Some (case max_date acc1 of None \<Rightarrow> t | Some m \<Rightarrow> if m < t then t else m)\<rparr>)"

text \<open>\<open>const [y, m] = key.split('-').map(Number)\<close>: a missing element is \<open>undefined\<close>,
  which arithmetic turns into \<open>NaN\<close>.\<close>

definition nth_num :: "jsnum list \<Rightarrow> nat \<Rightarrow> jsnum" where
  "nth_num ns i = (if i < length ns then ns ! i else NaN)"

text \<open>\<open>new Date(y, m - 1, 1)\<close> and \<open>new Date(y, m, 0)\<close>: the first and the last day of
  the month of a key.\<close>

definition month_bounds :: "int \<Rightarrow> string \<Rightarrow> jsdate \<times> jsdate" where
  "month_bounds tz key =
     (let ns = map to_number_str (split_on CHR ''-'' key); y = nth_num ns 0; m = nth_num ns 1
      in (date_local tz y (js_sub m (Fin 1)) (Fin 1), date_local tz y m (Fin 0)))"

definition detect_init :: detect_acc where
  "detect_init = \<lparr>min_date = None, max_date = None, months_data = []\<rparr>"

definition auto_detect_date_range ::
  "(string \<Rightarrow> jsdate) \<Rightarrow> int \<Rightarrow> int \<Rightarrow> row list \<Rightarrow> config_form \<Rightarrow> config_form" where
  "auto_detect_date_range host tz now rows f =
     (let acc = foldl (detect_step host tz now) detect_init rows
      in case (min_date acc, max_date acc) of
           (Some lo, Some hi) \<Rightarrow>
             (let months = sort (map fst (obj_entries (months_data acc)))
              in if 2 \<le> length months then
                   (case (month_bounds tz (hd months), month_bounds tz (last months)) of
                      ((s1, e1), (s2, e2)) \<Rightarrow> set_dates s1 e1 s2 e2 f)
                 else
                   (let mid = time_clip (js_trunc (real_of_int (lo + hi) / 2))
                    in set_dates (TV lo) mid mid (TV hi) f))
         | _ \<Rightarrow> f)"

section \<open>Lemmas: \<open>loadFilters\<close> and the presets\<close>

lemma value_float_or_truthy: "d \<noteq> 0 \<Longrightarrow> js_truthy (value_float_or v d)"
  by (simp add: value_float_or_def js_or_def)

lemma parse_float_str_zero: "parse_float_str ''0'' = Fin 0"
  by code_simp

lemma parse_float_str_preset_values:
  "parse_float_str ''10'' = Fin 10" "parse_float_str ''15'' = Fin 15"
  "parse_float_str ''1'' = Fin 1" "parse_float_str ''20'' = Fin 20"
  by code_simp+

text \<open>
  The thresholds \<open>loadFilters\<close> reads are never 0 or \<open>NaN\<close>: \<open>parseFloat(v) || d\<close>
  replaces a value typed as 0 by the default, so a threshold of 0 cannot be set.
\<close>

theorem thresholds_never_zero:
  "js_truthy (ctr_good (load_filters f)) \<and> js_truthy (cpm_good (load_filters f))
   \<and> js_truthy (cpl_good (load_filters f)) \<and> js_truthy (freq_good (load_filters f))"
  by (simp add: load_filters_def value_float_or_truthy)

text \<open>
  C31. The \<open>resetFilters\<close> preset, on a page with its widgets, restores every filter of
  \<open>FILTERS\<close>'s initial value (with the six age boxes of the page) and leaves the four
  thresholds as they were typed.
\<close>

theorem reset_preset_restores_filters:
  assumes "widgets_present (pg_filters pg)" "map fst (ff_age_boxes (pg_filters pg)) = ages default_filters"
  shows "snd (apply_preset tz now ResetFilters pg) = False
         \<and> load_filters (pg_filters (fst (apply_preset tz now ResetFilters pg)))
           = default_filters\<lparr>ctr_good := ctr_good (load_filters (pg_filters pg)),
                             cpm_good := cpm_good (load_filters (pg_filters pg)),
                             cpl_good := cpl_good (load_filters (pg_filters pg)),
                             freq_good := freq_good (load_filters (pg_filters pg))\<rparr>"
proof -
  have a: "map fst (filter snd (map (\<lambda>b. (fst b, True)) bs)) = map fst bs" for bs :: "(string \<times> bool) list"
    by (induction bs) auto
  show ?thesis using assms
    by (auto simp: apply_preset_def reset_writes_def widgets_present_def load_filters_def default_filters_def
        checked_or_true_def value_float_or_def value_lower_def parse_float_str_zero to_lower_def a)
qed

text \<open>
  C32. The \<open>bestPerformers\<close> and \<open>problemAds\<close> presets, on a page with the inputs
  they write, raise no error, and \<open>loadFilters\<close> then reads the filters it read before
  with the minimum spend 10 and the CPL threshold 15, respectively the CTR threshold 1 and
  the CPL threshold 20.
\<close>

theorem filter_presets_read_back:
  assumes "ff_min_spend (pg_filters pg) \<noteq> None" "ff_ctr_good (pg_filters pg) \<noteq> None"
    and "ff_cpl_good (pg_filters pg) \<noteq> None"
  shows "\<not> snd (apply_preset tz now BestPerformers pg)
   \<and> load_filters (pg_filters (fst (apply_preset tz now BestPerformers pg)))
     = (load_filters (pg_filters pg))\<lparr>min_spend := Fin 10, cpl_good := Fin 15\<rparr>
   \<and> \<not> snd (apply_preset tz now ProblemAds pg)
   \<and> load_filters (pg_filters (fst (apply_preset tz now ProblemAds pg)))
     = (load_filters (pg_filters pg))\<lparr>ctr_good := Fin 1, cpl_good := Fin 20\<rparr>"
  using assms
  by (auto simp: apply_preset_def load_filters_def value_float_or_def js_or_def parse_float_str_preset_values)

text \<open>
  C29. The month-vs-month preset east of UTC: the first day of the previous month, written
  through \<open>valueAsDate\<close>, is read back by \<open>loadConfiguration\<close> as the midnight a day
  earlier, so period 1 starts on the last day of the month before.
\<close>

theorem month_preset_starts_early:
  assumes "0 < tz" "tz \<le> ms_per_day" "local_ymd tz now = (y, m, d)"
    and "date_local tz (fin_int y) (fin_int (m - 2)) (Fin 1) = TV L"
    and "case civil_from_days (L div ms_per_day) of (yy, _, _) \<Rightarrow> 1 \<le> yy \<and> yy \<le> 9999"
  shows "date_parse host tz (in_period1_start (pg_config (fst (apply_preset tz now MonthVsMonth pg))) @ ''T00:00:00'')
         = time_clip (L - ms_per_day)"
proof -
  have "in_period1_start (pg_config (fst (apply_preset tz now MonthVsMonth pg))) = value_as_date (TV L)"
    using assms(3,4) by (simp add: apply_preset_def set_dates_def)
  then show ?thesis using local_midnight_read_back [OF assms(4) _ assms(2) assms(5)] assms(1)
    by (simp add: ms_per_day_def)
qed

section \<open>Lemmas: \<open>autoDetectDateRange\<close>\<close>

lemma detect_step_min_max:
  "min_date (detect_step host tz now acc r)
     = (case detect_start host tz r of None \<Rightarrow> min_date acc
        | Some t \<Rightarrow> Some (case min_date acc of None \<Rightarrow> t | Some m \<Rightarrow> min t m))"
  "max_date (detect_step host tz now acc r)
     = (case detect_end host tz now r of None \<Rightarrow> max_date acc
        | Some t \<Rightarrow> Some (case max_date acc of None \<Rightarrow> t | Some m \<Rightarrow> max t m))"
  by (simp_all add: detect_step_def Let_def min_def max_def split: option.split)

text \<open>
  C30. The loop of \<open>autoDetectDateRange\<close> finds the earliest start and the latest end of
  the rows: \<open>minDate\<close> is the least start date that \<open>parseDate\<close> reads, \<open>maxDate\<close> the
  greatest end date (today for ads still running), \<open>null\<close> when there is none.
\<close>

theorem detect_range:
  "min_date (foldl (detect_step host tz now) detect_init rows)
     = (if List.map_filter (detect_start host tz) rows = [] then None
        else Some (Min (set (List.map_filter (detect_start host tz) rows))))
   \<and> max_date (foldl (detect_step host tz now) detect_init rows)
     = (if List.map_filter (detect_end host tz now) rows = [] then None
        else Some (Max (set (List.map_filter (detect_end host tz now) rows))))"
proof -
  have mn: "min_date (foldl (detect_step host tz now) acc rs)
         = (if min_date acc = None \<and> List.map_filter (detect_start host tz) rs = [] then None
            else Some (Min (set_option (min_date acc) \<union> set (List.map_filter (detect_start host tz) rs))))" for acc rs
    by (rule foldl_opt_Min) (rule detect_step_min_max(1))
  have mx: "max_date (foldl (detect_step host tz now) acc rs)
         = (if max_date acc = None \<and> List.map_filter (detect_end host tz now) rs = [] then None
            else Some (Max (set_option (max_date acc) \<union> set (List.map_filter (detect_end host tz now) rs))))" for acc rs
    by (rule foldl_opt_Max) (rule detect_step_min_max(2))
  show ?thesis unfolding mn mx by (simp add: detect_init_def)
qed

section \<open>Witnesses\<close>

theorem reset_preset_restores_filters_witness:
  "widgets_present (pg_filters full_page) \<and> map fst (ff_age_boxes (pg_filters full_page)) = ages default_filters
   \<and> snd (apply_preset 0 0 ResetFilters full_page) = False
   \<and> load_filters (pg_filters (fst (apply_preset 0 0 ResetFilters full_page)))
     = default_filters\<lparr>ctr_good := ctr_good (load_filters (pg_filters full_page)),
                       cpm_good := cpm_good (load_filters (pg_filters full_page)),
                       cpl_good := cpl_good (load_filters (pg_filters full_page)),
                       freq_good := freq_good (load_filters (pg_filters full_page))\<rparr>"
proof -
  have w: "widgets_present (pg_filters full_page)" "map fst (ff_age_boxes (pg_filters full_page)) = ages default_filters"
    by (simp_all add: widgets_present_def full_page_def default_filters_def)
  show ?thesis using reset_preset_restores_filters [OF w, of 0 0] w by simp
qed

theorem month_preset_starts_early_witness:
  "0 < (3600000::int) \<and> 3600000 \<le> ms_per_day \<and> local_ymd 3600000 1773100000000 = (2026, 3, 10)
   \<and> date_local 3600000 (fin_int 2026) (fin_int (3 - 2)) (Fin 1) = TV 1769900400000
   \<and> (case civil_from_days (1769900400000 div ms_per_day) of (yy, _, _) \<Rightarrow> 1 \<le> yy \<and> yy \<le> 9999)
   \<and> date_parse (\<lambda>_. Invalid) 3600000
       (in_period1_start (pg_config (fst (apply_preset 3600000 1773100000000 MonthVsMonth blank_page))) @ ''T00:00:00'')
     = time_clip (1769900400000 - ms_per_day)"
proof -
  have h: "local_ymd 3600000 1773100000000 = (2026, 3, 10)"
    "date_local 3600000 (fin_int 2026) (fin_int (3 - 2)) (Fin 1) = TV 1769900400000"
    "civil_from_days (1769900400000 div ms_per_day) = (2026, 1, 31)"
    by code_simp+
  show ?thesis
    using month_preset_starts_early [OF _ _ h(1) h(2), of "\<lambda>_. Invalid" blank_page] h
    by (simp add: ms_per_day_def)
qed

theorem filter_presets_read_back_witness:
  "\<not> snd (apply_preset 0 0 ProblemAds (full_page\<lparr>pg_filters := (pg_filters full_page)\<lparr>ff_cpl_good := Some ''12''\<rparr>\<rparr>))
   \<and> load_filters (pg_filters (fst (apply_preset 0 0 ProblemAds
         (full_page\<lparr>pg_filters := (pg_filters full_page)\<lparr>ff_cpl_good := Some ''12''\<rparr>\<rparr>))))
     = (load_filters ((pg_filters full_page)\<lparr>ff_cpl_good := Some ''12''\<rparr>))\<lparr>ctr_good := Fin 1, cpl_good := Fin 20\<rparr>"
  using filter_presets_read_back [of "full_page\<lparr>pg_filters := (pg_filters full_page)\<lparr>ff_cpl_good := Some ''12''\<rparr>\<rparr>" 0 0]
  by (simp add: full_page_def)

end
