(* ===== verification/AnalyzerApp.thy ===== *)
theory AnalyzerApp
  imports GenericMetrics PageForm
begin

text \<open>
  The page of the generic analyzer (src/analyzer-generic.js) as a state machine. Its state
  is the module's globals \<open>rawData\<close>, \<open>filteredData\<close>, \<open>beforeData\<close> and \<open>afterData\<close>,
  the panel on display (configuration or results, with the report last rendered), whether
  the start button is enabled, the error banner \<open>configError\<close>, and the values of the
  configuration form and the filter widgets (\<open>page_form\<close>). The events are the
  handlers: \<open>handleFileUpload\<close> (PapaParse delivers rows, or fails), \<open>startAnalysis\<close>,
  \<open>resetAnalyzer\<close> and \<open>applyPreset\<close>, and the user's edits of the form, which keep
  the set of widgets the page has. \<open>app_step\<close> relates a state to the state after one
  event; the start button can be clicked only when it is enabled and the reset button only
  while it is shown (on the results panel). The clock \<open>now\<close> is a parameter of each
  event that reads it. The page starts with no data, the configuration panel shown, the
  start button disabled, no error, and the date inputs set by \<open>DOMContentLoaded\<close>; the
  other initial values of the form are those of the page's markup, a parameter.
\<close>

datatype screen = ConfigScreen | ResultsScreen

datatype app_message = CsvReadError | AnalysisError analysis_error

record app =
  raw_data :: "row list"
  filtered_data :: "row list"
  app_before :: "row list"
  app_after :: "row list"
  app_screen :: screen
  start_enabled :: bool
  app_report :: "gen_report option"
  error_banner :: "app_message option"
  detected_objectives :: "rtype_count obj"
  page :: page_form

definition app_init :: "int \<Rightarrow> page_form \<Rightarrow> app" where
  "app_init now pg0 =
     \<lparr>raw_data = [], filtered_data = [], app_before = [], app_after = [], app_screen = ConfigScreen,
      start_enabled = False, app_report = None, error_banner = None, detected_objectives = [],
      page = pg0\<lparr>pg_config := init_dates now (pg_config pg0)\<rparr>\<rparr>"

text \<open>\<open>autoDetectObjectives\<close>: the result types of the rows with their count, spend and
  results (the fold of \<open>getResultTypesForData\<close>), and the five of highest spend that the
  file panel lists.\<close>

definition auto_detect_objectives ::
  "row list \<Rightarrow> rtype_count obj \<times> (string \<times> rtype_count) list option" where
  "auto_detect_objectives rows =
     (let objs = result_types_for_data rows
      in (objs, map_option (take 5) (js_sort_desc_by (\<lambda>e. rc_spend (snd e)) (obj_entries objs))))"

text \<open>\<open>Object.keys(CONFIG.detectedObjectives || {})[0] || 'Unknown'\<close>, the client objective
  of \<open>loadConfiguration\<close>.\<close>

definition client_objective :: "app \<Rightarrow> string" where
  "client_objective s = (case map fst (obj_entries (detected_objectives s)) of [] \<Rightarrow> ''Unknown'' | k # _ \<Rightarrow> k)"

text \<open>\<open>handleFileUpload\<close> once PapaParse has read the rows: \<open>rawData = results.data\<close>, the
  start button enabled, the date inputs filled in by \<open>autoDetectDateRange\<close> and the
  objectives detected. A read error only shows the banner.\<close>

definition app_upload :: "(string \<Rightarrow> jsdate) \<Rightarrow> int \<Rightarrow> int \<Rightarrow> row list \<Rightarrow> app \<Rightarrow> app" where
  "app_upload host tz now rows s =
     s\<lparr>raw_data := rows, start_enabled := True,
       page := (page s)\<lparr>pg_config := auto_detect_date_range host tz now rows (pg_config (page s))\<rparr>,
       detected_objectives := fst (auto_detect_objectives rows)\<rparr>"

definition app_upload_error :: "app \<Rightarrow> app" where
  "app_upload_error s = s\<lparr>error_banner := Some CsvReadError\<rparr>"

text \<open>\<open>startAnalysis\<close>: \<open>loadConfiguration\<close> and \<open>loadFilters\<close> read the form; each early
  return shows its error and keeps what the code had already assigned (\<open>filteredData\<close>
  before the filter check, the cohorts before the empty-cohorts check); \<open>showError\<close>
  never hides the banner again.\<close>

definition app_start :: "(string \<Rightarrow> jsdate) \<Rightarrow> int \<Rightarrow> app \<Rightarrow> app" where
  "app_start host tz s =
     (if raw_data s = [] then s\<lparr>error_banner := Some (AnalysisError NoCsv)\<rparr>
      else case load_configuration host tz (pg_config (page s)) of
        Inl e \<Rightarrow> s\<lparr>error_banner := Some (AnalysisError (ConfigError e))\<rparr>
      | Inr cfg \<Rightarrow>
          let flt = load_filters (pg_filters (page s));
              fd = filter_data flt (raw_data s) in
          if fd = [] then s\<lparr>filtered_data := fd, error_banner := Some (AnalysisError NoDataAfterFilters)\<rparr>
          else
            let sr = split_data_by_date_gen host tz cfg fd in
            if before_data sr = [] \<and> after_data sr = []
            then s\<lparr>filtered_data := fd, app_before := before_data sr, app_after := after_data sr,
                   error_banner := Some (AnalysisError NoDataInPeriods)\<rparr>
            else s\<lparr>filtered_data := fd, app_before := before_data sr, app_after := after_data sr,
                   app_screen := ResultsScreen,
                   app_report := Some (run_analysis flt cfg (before_data sr) (after_data sr))\<rparr>)"

text \<open>\<open>resetAnalyzer\<close>: back to the configuration panel with no data and the start button
  disabled; \<open>filteredData\<close>, the rendered report and the banner are left as they are.\<close>

definition app_reset :: "app \<Rightarrow> app" where
  "app_reset s = s\<lparr>app_screen := ConfigScreen, raw_data := [], app_before := [], app_after := [],
                    start_enabled := False\<rparr>"

text \<open>\<open>applyPreset\<close> from its button: a \<open>TypeError\<close> ends the handler, with the writes
  done before it kept.\<close>

definition app_preset :: "int \<Rightarrow> int \<Rightarrow> preset \<Rightarrow> app \<Rightarrow> app" where
  "app_preset tz now p s = s\<lparr>page := fst (apply_preset tz now p (page s))\<rparr>"

text \<open>The user edits widget values but cannot add or remove widgets, nor rename the age
  boxes.\<close>

definition same_widgets :: "filter_form \<Rightarrow> filter_form \<Rightarrow> bool" where
  "same_widgets f g \<longleftrightarrow>
     (ff_active f = None \<longleftrightarrow> ff_active g = None) \<and> (ff_not_delivering f = None \<longleftrightarrow> ff_not_delivering g = None)
     \<and> (ff_min_spend f = None \<longleftrightarrow> ff_min_spend g = None)
     \<and> (ff_name_contains f = None \<longleftrightarrow> ff_name_contains g = None)
     \<and> (ff_name_excludes f = None \<longleftrightarrow> ff_name_excludes g = None)
     \<and> (ff_male f = None \<longleftrightarrow> ff_male g = None) \<and> (ff_female f = None \<longleftrightarrow> ff_female g = None)
     \<and> map fst (ff_age_boxes f) = map fst (ff_age_boxes g)
     \<and> (ff_ctr_good f = None \<longleftrightarrow> ff_ctr_good g = None) \<and> (ff_cpm_good f = None \<longleftrightarrow> ff_cpm_good g = None)
     \<and> (ff_cpl_good f = None \<longleftrightarrow> ff_cpl_good g = None) \<and> (ff_freq_good f = None \<longleftrightarrow> ff_freq_good g = None)"

inductive app_step :: "(string \<Rightarrow> jsdate) \<Rightarrow> int \<Rightarrow> app \<Rightarrow> app \<Rightarrow> bool" for host tz where
  upload: "app_step host tz s (app_upload host tz now rows s)"
| upload_error: "app_step host tz s (app_upload_error s)"
| start: "start_enabled s \<Longrightarrow> app_step host tz s (app_start host tz s)"
| reset: "app_screen s = ResultsScreen \<Longrightarrow> app_step host tz s (app_reset s)"
| preset: "app_step host tz s (app_preset tz now p s)"
| edit_config: "app_step host tz s (s\<lparr>page := (page s)\<lparr>pg_config := cf\<rparr>\<rparr>)"
| edit_filters: "same_widgets (pg_filters (page s)) ff \<Longrightarrow> app_step host tz s (s\<lparr>page := (page s)\<lparr>pg_filters := ff\<rparr>\<rparr>)"

inductive app_reachable :: "(string \<Rightarrow> jsdate) \<Rightarrow> int \<Rightarrow> app \<Rightarrow> bool" for host tz where
  init: "app_reachable host tz (app_init now pg0)"
| step: "app_reachable host tz s \<Longrightarrow> app_step host tz s t \<Longrightarrow> app_reachable host tz t"

text \<open>The invariant of the page: the results panel always shows a report of two cohorts
  not both empty, and the start button is enabled whenever there is data.\<close>

definition app_inv :: "app \<Rightarrow> bool" where
  "app_inv s \<longleftrightarrow>
     (app_screen s = ResultsScreen \<longrightarrow>
        (\<exists>flt cfg b a. app_report s = Some (run_analysis flt cfg b a) \<and> (b \<noteq> [] \<or> a \<noteq> [])))
     \<and> (raw_data s \<noteq> [] \<longrightarrow> start_enabled s)"

text \<open>A row of period 2 for the configuration \<open>example_form\<close> under every host parser and
  time zone: it is dated in ISO form and its name matches the include keyword.\<close>

definition brand_row :: row where
  "brand_row = row_on ''BrandCampaign'' ''2026-01-05''"

text \<open>An edit of the filter widgets that lets every row with a positive spend and no
  demographic columns through: each widget present is set to its most permissive value.\<close>

definition open_filters :: "filter_form \<Rightarrow> filter_form" where
  "open_filters f =
     f\<lparr>ff_active := map_option (\<lambda>_. True) (ff_active f),
       ff_not_delivering := map_option (\<lambda>_. True) (ff_not_delivering f),
       ff_min_spend := map_option (\<lambda>_. ''0'') (ff_min_spend f),
       ff_name_contains := map_option (\<lambda>_. []) (ff_name_contains f),
       ff_name_excludes := map_option (\<lambda>_. []) (ff_name_excludes f)\<rparr>"

text \<open>Upload of \<open>brand_row\<close>, then the configuration \<open>example_form\<close> and open filters
  typed in.\<close>

definition prepare_brand :: "(string \<Rightarrow> jsdate) \<Rightarrow> int \<Rightarrow> app \<Rightarrow> app" where
  "prepare_brand host tz s =
     (let u = app_upload host tz 0 [brand_row] s;
          c = u\<lparr>page := (page u)\<lparr>pg_config := example_form\<rparr>\<rparr>
      in c\<lparr>page := (page c)\<lparr>pg_filters := open_filters (pg_filters (page c))\<rparr>\<rparr>)"

text \<open>An export with ads started in January and February 2026, one of them on January 31.\<close>

definition month_rows :: "row list" where
  "month_rows = [row_on ''Ad A'' ''2026-01-10'', row_on ''Ad B'' ''2026-02-10'', row_on ''Ad C'' ''2026-01-31'']"

section \<open>Lemmas\<close>

lemma app_step_inv: "app_step host tz s t \<Longrightarrow> app_inv s \<Longrightarrow> app_inv t"
proof (induction rule: app_step.induct)
  case (start s)
  then show ?case
    by (auto simp: app_inv_def app_start_def Let_def split: sum.splits if_splits)
qed (auto simp: app_inv_def app_upload_def app_upload_error_def app_reset_def app_preset_def)

text \<open>
  C24. Invariant of the page: in every reachable state the results panel shows the report
  of two cohorts that are not both empty, and the start button is enabled whenever rows
  are loaded. Rule induction over the reachable states, one case per event.
\<close>

theorem app_reachable_inv: "app_reachable host tz s \<Longrightarrow> app_inv s"
proof (induction rule: app_reachable.induct)
  case (init now pg0)
  show ?case by (simp add: app_inv_def app_init_def)
next
  case (step s t)
  then show ?case by (blast intro: app_step_inv)
qed

lemma brand_row_date: "parse_date_gen host tz (start_date brand_row) = Some 1767571200000"
  by code_simp

lemma example_form_loads: "\<exists>cfg. load_configuration host tz example_form = Inr cfg \<and> p2_include cfg = [''brand'']"
proof -
  have "parse_keywords ''Brand'' = [''brand'']" by code_simp
  then show ?thesis by (simp add: load_configuration_def example_form_def)
qed

lemma brand_row_period2: "p2_include cfg = [''brand''] \<Longrightarrow> classify_gen host tz cfg brand_row = Period2"
proof -
  have "contains_ci ''brand'' (ad_name brand_row)" by code_simp
  then show "p2_include cfg = [''brand''] \<Longrightarrow> classify_gen host tz cfg brand_row = Period2"
    by (simp add: classify_gen_def brand_row_date keyword_test_def)
qed

lemma open_filters_widgets: "same_widgets f (open_filters f)"
  by (simp add: same_widgets_def open_filters_def)

lemma open_filters_pass: "filter_data (load_filters (open_filters f)) [brand_row] = [brand_row]"
proof -
  have "min_spend (load_filters (open_filters f)) = Fin 0"
    by (cases "ff_min_spend f") (simp_all add: load_filters_def open_filters_def value_float_or_def parse_float_str_zero)
  moreover have "name_contains (load_filters (open_filters f)) = []" "name_excludes (load_filters (open_filters f)) = []"
    by (cases "ff_name_contains f"; cases "ff_name_excludes f";
        simp add: load_filters_def open_filters_def value_lower_def to_lower_def)+
  moreover have "delivery brand_row = []" "age brand_row = []" "sex brand_row = []" "row_spend brand_row = Fin 1"
    by (simp_all add: brand_row_def row_on_def mk_row_def row_spend_def)
  ultimately show ?thesis by (simp add: filter_data_def filter_row_def)
qed

lemma prepare_brand_steps:
  "(app_step host tz)\<^sup>*\<^sup>* s (prepare_brand host tz s)" "start_enabled (prepare_brand host tz s)"
proof -
  let ?u = "app_upload host tz 0 [brand_row] s"
  let ?c = "?u\<lparr>page := (page ?u)\<lparr>pg_config := example_form\<rparr>\<rparr>"
  have "app_step host tz s ?u" by (rule app_step.upload)
  moreover have "app_step host tz ?u ?c" by (rule app_step.edit_config)
  moreover have "app_step host tz ?c (?c\<lparr>page := (page ?c)\<lparr>pg_filters := open_filters (pg_filters (page ?c))\<rparr>\<rparr>)"
    by (rule app_step.edit_filters) (rule open_filters_widgets)
  ultimately show "(app_step host tz)\<^sup>*\<^sup>* s (prepare_brand host tz s)"
    unfolding prepare_brand_def Let_def by (meson converse_rtranclp_into_rtranclp rtranclp.rtrancl_refl)
  show "start_enabled (prepare_brand host tz s)" by (simp add: prepare_brand_def app_upload_def)
qed

lemma brand_start_results:
  "app_screen (app_start host tz (prepare_brand host tz s)) = ResultsScreen
   \<and> error_banner (app_start host tz (prepare_brand host tz s)) = error_banner s"
proof -
  obtain cfg where cfg: "load_configuration host tz example_form = Inr cfg" "p2_include cfg = [''brand'']"
    using example_form_loads by blast
  have "after_data (split_data_by_date_gen host tz cfg [brand_row]) = [brand_row]"
    using brand_row_period2 [OF cfg(2)] by (simp add: split_gen_filters)
  then show ?thesis
    by (simp add: app_start_def prepare_brand_def app_upload_def app_upload_error_def cfg open_filters_pass Let_def)
qed

text \<open>
  C25. Liveness: the page never gets stuck: from every state, uploading a file with a row of
  period 2, typing a configuration and pressing start reaches the results panel, whatever
  the host's date parser and time zone.
\<close>

theorem app_results_always_reachable:
  "\<exists>t. (app_step host tz)\<^sup>*\<^sup>* s t \<and> app_screen t = ResultsScreen"
proof -
  have "app_step host tz (prepare_brand host tz s) (app_start host tz (prepare_brand host tz s))"
    by (rule app_step.start) (rule prepare_brand_steps(2))
  then show ?thesis using prepare_brand_steps(1) brand_start_results by (blast intro: rtranclp.rtrancl_into_rtrancl)
qed

lemma reachable_steps: "(app_step host tz)\<^sup>*\<^sup>* s t \<Longrightarrow> app_reachable host tz s \<Longrightarrow> app_reachable host tz t"
  by (induction rule: rtranclp_induct) (auto intro: app_reachable.step)

text \<open>
  C37. The error banner is never cleared: after a start without data, a later successful
  analysis shows its results with the old error message still displayed.
\<close>

theorem stale_error_over_results:
  "\<exists>s. app_reachable host tz s \<and> app_screen s = ResultsScreen \<and> error_banner s = Some (AnalysisError NoCsv)"
proof -
  let ?s1 = "app_upload host tz 0 [] (app_init 0 blank_page)"
  let ?s2 = "app_start host tz ?s1"
  let ?s3 = "prepare_brand host tz ?s2"
  have r1: "app_reachable host tz ?s1" by (rule app_reachable.step [OF app_reachable.init app_step.upload])
  have r2: "app_reachable host tz ?s2"
    by (rule app_reachable.step [OF r1 app_step.start]) (simp add: app_upload_def)
  have e2: "error_banner ?s2 = Some (AnalysisError NoCsv)" by (simp add: app_start_def app_upload_def)
  have r4: "app_reachable host tz (app_start host tz ?s3)"
    by (rule app_reachable.step [OF reachable_steps [OF prepare_brand_steps(1) r2] app_step.start])
       (rule prepare_brand_steps(2))
  with e2 brand_start_results show ?thesis by metis
qed

section \<open>Witnesses\<close>

theorem app_reachable_inv_witness:
  "app_inv (app_start (\<lambda>_. Invalid) 0 (prepare_brand (\<lambda>_. Invalid) 0 (app_init 0 blank_page)))"
proof -
  have "app_reachable (\<lambda>_. Invalid) 0 (app_start (\<lambda>_. Invalid) 0 (prepare_brand (\<lambda>_. Invalid) 0 (app_init 0 blank_page)))"
    by (rule app_reachable.step [OF reachable_steps [OF prepare_brand_steps(1) app_reachable.init] app_step.start])
       (rule prepare_brand_steps(2))
  then show ?thesis by (rule app_reachable_inv)
qed

end
