(* ===== verification/CmpReport.thy ===== *)
theory CmpReport
  imports Classifier Ranking RowAnalyses
begin

text \<open>
  The comparative analyzer's page (src/analyzer-comparative.js) end to end. A file dropped
  on the drop zone (when its name ends in \<open>.csv\<close>) or chosen in the file input goes to
  \<open>processFile\<close>: PapaParse's rows with an ad name become \<open>rawData\<close>, \<open>splitDataByDate\<close>
  fills \<open>beforeData\<close> and \<open>afterData\<close>, and a timer schedules \<open>runDeepAnalysis\<close>, which
  computes the two cohorts' metrics and renders every panel. \<open>deep_report\<close> holds what
  the render functions compute, before formatting; \<open>run_deep_analysis\<close> is
  \<open>runDeepAnalysis\<close> on the two cohorts and \<open>cmp_analysis\<close> the whole pipeline from the
  parsed rows. The page itself is the record \<open>cmp_page\<close> with the step relation
  \<open>cmp_step\<close>: the file events and the timer firing.
\<close>

section \<open>\<open>renderHiddenInsights\<close>: the benchmark flags\<close>

text \<open>\<open>p1CTRvsBench\<close> to \<open>p2FreqvsBench\<close> (\<open>CUMPLE\<close> is \<open>True\<close>), per KPI: before, after.\<close>

definition hidden_bench_flags :: "deep_metrics \<Rightarrow> deep_metrics \<Rightarrow> (bool \<times> bool) list" where
  "hidden_bench_flags b a =
     (let bd = snd b; ad = snd a
      in [(js_ge (ctr bd) (b_avg (mb_ctr meta_benchmarks_2025)), js_ge (ctr ad) (b_avg (mb_ctr meta_benchmarks_2025))),
          (js_le (cpm bd) (b_avg (mb_cpm meta_benchmarks_2025)), js_le (cpm ad) (b_avg (mb_cpm meta_benchmarks_2025))),
          (js_le (cost_per_conversation bd) (b_avg (mb_cpl meta_benchmarks_2025)),
           js_le (cost_per_conversation ad) (b_avg (mb_cpl meta_benchmarks_2025))),
          (js_le (frequency bd) (mb_freq_prospecting meta_benchmarks_2025),
           js_le (frequency ad) (mb_freq_prospecting meta_benchmarks_2025))])"

section \<open>\<open>runDeepAnalysis\<close>\<close>

record deep_report =
  dr_before :: deep_metrics
  dr_after :: deep_metrics
  dr_exec_vs :: "jsnum \<times> jsnum \<times> jsnum \<times> jsnum"
  dr_exec_scores :: "nat \<times> nat"
  dr_table :: "table_row list"
  dr_strengths :: "strength list \<times> strength list"
  dr_types_before :: "type_share list option"
  dr_types_after :: "type_share list option"
  dr_audience :: "(segment list \<times> segment list) option"
  dr_ads_before :: "ad_item list option"
  dr_ads_after :: "ad_item list option"
  dr_keywords :: "(kw_item list \<times> kw_item list) option"
  dr_multipliers :: "jsnum \<times> jsnum \<times> jsnum"
  dr_bench_flags :: "(bool \<times> bool) list"
  dr_projection :: "jsnum \<times> jsnum"
  dr_best_worst :: "(string \<times> jsnum) option option \<times> (string \<times> jsnum) option option"
  dr_recommended :: "(string \<times> jsnum) option option"
  dr_conclusion :: conclusion
  dr_chart :: "string list \<times> jsnum list \<times> jsnum list"
  dr_efficiency :: "efficiency option"
  dr_campaign_types :: "type_row list option"
  dr_formats :: "format_row list option"
  dr_compliance :: "nat \<times> nat"
  dr_insights :: "insight list option"

text \<open>The render functions in the order \<open>runDeepAnalysis\<close> calls them; the panels that
  read the rows (keywords, campaign types, creative formats, automatic insights) read the
  globals \<open>beforeData\<close> and \<open>afterData\<close>.\<close>

definition run_deep_analysis :: "row list \<Rightarrow> row list \<Rightarrow> deep_report" where
  "run_deep_analysis before_rows after_rows =
     (let b = calculate_deep_metrics before_rows; a = calculate_deep_metrics after_rows;
          keys = chart_keys b a
      in \<lparr>dr_before = b, dr_after = a,
          dr_exec_vs = exec_vs_benchmark b a, dr_exec_scores = exec_scores b a,
          dr_table = metrics_table b a, dr_strengths = comparative_strengths b a,
          dr_types_before = type_breakdown (result_types (fst b)),
          dr_types_after = type_breakdown (result_types (fst a)),
          dr_audience = audience_insights a,
          dr_ads_before = top_ads (ads (fst b)), dr_ads_after = top_ads (ads (fst a)),
          dr_keywords = keyword_mining after_rows,
          dr_multipliers = insight_multipliers b a, dr_bench_flags = hidden_bench_flags b a,
          dr_projection = budget_projection a, dr_best_worst = hidden_best_worst b a,
          dr_recommended = recommended_demo a,
          dr_conclusion = strategic_conclusion b a,
          dr_chart = (keys, chart_series b keys, chart_series a keys),
          dr_efficiency = efficiency_matrix a,
          dr_campaign_types = campaign_type_analysis before_rows after_rows,
          dr_formats = creative_performance before_rows after_rows,
          dr_compliance = compliance_scores b a,
          dr_insights = auto_insights b a after_rows\<rparr>)"

text \<open>\<open>processFile\<close> followed by \<open>runDeepAnalysis\<close>, at the current time \<open>now\<close>.\<close>

definition cmp_analysis :: "int \<Rightarrow> int \<Rightarrow> row list \<Rightarrow> deep_report" where
  "cmp_analysis tz now rows =
     (let raw = load_rows_cmp rows; (b, a) = split_data_by_date_cmp tz now raw in run_deep_analysis b a)"

section \<open>The page\<close>

datatype cmp_section = UploadSection | LoadingSection | ResultsSection

record cmp_page =
  cmp_raw :: "row list"
  cmp_before :: "row list"
  cmp_after :: "row list"
  cmp_timers :: nat
  cmp_shown :: cmp_section
  cmp_report :: "deep_report option"

definition cmp_init :: cmp_page where
  "cmp_init = \<lparr>cmp_raw = [], cmp_before = [], cmp_after = [], cmp_timers = 0, cmp_shown = UploadSection,
                cmp_report = None\<rparr>"

text \<open>A file: its name and the rows PapaParse reads from it.\<close>

type_synonym csv_file = "string \<times> row list"

text \<open>\<open>processFile\<close>: the loading section is shown, the rows loaded and split, and one
  more \<open>runDeepAnalysis\<close> scheduled.\<close>

definition process_file :: "int \<Rightarrow> int \<Rightarrow> csv_file \<Rightarrow> cmp_page \<Rightarrow> cmp_page" where
  "process_file tz now f s =
     (let raw = load_rows_cmp (snd f); ba = split_data_by_date_cmp tz now raw
      in s\<lparr>cmp_raw := raw, cmp_before := fst ba, cmp_after := snd ba, cmp_timers := Suc (cmp_timers s),
           cmp_shown := LoadingSection\<rparr>)"

text \<open>\<open>runDeepAnalysis\<close> when a timer fires: the results of the current globals.\<close>

definition run_deep_timer :: "cmp_page \<Rightarrow> cmp_page" where
  "run_deep_timer s =
     s\<lparr>cmp_timers := cmp_timers s - 1, cmp_shown := ResultsSection,
       cmp_report := Some (run_deep_analysis (cmp_before s) (cmp_after s))\<rparr>"

text \<open>\<open>file?.name.endsWith('.csv')\<close> of the drop handler.\<close>

definition is_csv_name :: "string \<Rightarrow> bool" where
  "is_csv_name n \<longleftrightarrow> ends_with ''.csv'' n"

inductive cmp_step :: "int \<Rightarrow> cmp_page \<Rightarrow> cmp_page \<Rightarrow> bool" for tz where
  drop: "is_csv_name (fst f) \<Longrightarrow> cmp_step tz s (process_file tz now f s)"
| input: "cmp_step tz s (process_file tz now f s)"
| timer: "0 < cmp_timers s \<Longrightarrow> cmp_step tz s (run_deep_timer s)"

inductive cmp_reachable :: "int \<Rightarrow> cmp_page \<Rightarrow> bool" for tz where
  init: "cmp_reachable tz cmp_init"
| step: "cmp_reachable tz s \<Longrightarrow> cmp_step tz s t \<Longrightarrow> cmp_reachable tz t"

text \<open>The page's invariant: the cohorts split the loaded rows, every loaded row has an ad
  name, and a report on display is that of the cohorts loaded when its timer fired.\<close>

definition cmp_inv :: "int \<Rightarrow> cmp_page \<Rightarrow> bool" where
  "cmp_inv tz s \<longleftrightarrow>
     mset (cmp_before s) + mset (cmp_after s) = mset (cmp_raw s)
     \<and> (\<forall>r \<in> set (cmp_raw s). ad_name r \<noteq> [])
     \<and> (cmp_shown s = ResultsSection \<longrightarrow>
          (\<exists>b a. cmp_report s = Some (run_deep_analysis b a) \<and> (\<forall>r \<in> set b \<union> set a. ad_name r \<noteq> [])))"

section \<open>Lemmas\<close>

lemma sum_list_filter_split:
  fixes f :: "'a \<Rightarrow> 'b::comm_monoid_add"
  shows "sum_list (map f (filter (\<lambda>x. \<not> P x) xs)) + sum_list (map f (filter P xs)) = sum_list (map f xs)"
    and "length (filter (\<lambda>x. \<not> P x) xs) + length (filter P xs) = length xs"
  by (induction xs) (simp_all add: add_ac)

lemma filter_mset_split: "{#x \<in># M. Q x \<and> \<not> P x#} + {#x \<in># M. Q x \<and> P x#} = {#x \<in># M. Q x#}"
  by (induction M) auto

lemma cmp_analysis_cohorts:
  "dr_before (cmp_analysis tz now rows)
     = calculate_deep_metrics (filter (\<lambda>r. \<not> is_after_cmp tz now r) (load_rows_cmp rows))
   \<and> dr_after (cmp_analysis tz now rows)
     = calculate_deep_metrics (filter (is_after_cmp tz now) (load_rows_cmp rows))"
  by (simp add: cmp_analysis_def run_deep_analysis_def split_data_by_date_cmp_def split_cmp_foldl Let_def)

text \<open>
  C26. Composition of \<open>processFile\<close>, \<open>splitDataByDate\<close> and \<open>runDeepAnalysis\<close>: the two
  cohorts of the report count every row of the file that has an ad name exactly once,
  and their spend, results and conversations add up to those rows'.
\<close>

theorem cmp_analysis_accounts_rows:
  "records (fst (dr_before (cmp_analysis tz now rows))) + records (fst (dr_after (cmp_analysis tz now rows)))
     = length (load_rows_cmp rows)
   \<and> spend (fst (dr_before (cmp_analysis tz now rows))) + spend (fst (dr_after (cmp_analysis tz now rows)))
     = sum_list (map row_spend (load_rows_cmp rows))
   \<and> results (fst (dr_before (cmp_analysis tz now rows))) + results (fst (dr_after (cmp_analysis tz now rows)))
     = sum_list (map row_results (load_rows_cmp rows))
   \<and> conversations (fst (dr_before (cmp_analysis tz now rows)))
     + conversations (fst (dr_after (cmp_analysis tz now rows)))
     = sum_list (map conv_delta (load_rows_cmp rows))"
  using cmp_analysis_cohorts [of tz now rows]
  by (simp add: calculate_deep_metrics_def Let_def deep_fold_sums deep_fold_records sum_list_filter_split)

lemma cmp_step_inv: "cmp_step tz s t \<Longrightarrow> cmp_inv tz s \<Longrightarrow> cmp_inv tz t"
proof (induction rule: cmp_step.induct)
  case (timer s)
  then have "set (cmp_before s) \<union> set (cmp_after s) = set (cmp_raw s)" "\<forall>r \<in> set (cmp_raw s). ad_name r \<noteq> []"
    unfolding cmp_inv_def by (metis set_mset_mset set_mset_union)+
  then show ?case using timer by (auto simp: cmp_inv_def run_deep_timer_def)
qed (auto simp: cmp_inv_def process_file_def split_data_by_date_cmp_def split_cmp_foldl load_rows_cmp_def
    filter_mset_split)

text \<open>
  C27. Invariant of the comparative page: in every reachable state the two cohorts split
  the loaded rows, every loaded row has an ad name, and the results on display are the
  report of two cohorts of named rows.
\<close>

theorem cmp_reachable_inv: "cmp_reachable tz s \<Longrightarrow> cmp_inv tz s"
proof (induction rule: cmp_reachable.induct)
  case init
  show ?case by (simp add: cmp_inv_def cmp_init_def)
next
  case (step s t)
  then show ?case by (blast intro: cmp_step_inv)
qed

text \<open>
  C28. Liveness of the comparative page: from every state, choosing a file and letting its
  timer fire shows the results, with the file's named rows as \<open>rawData\<close> and the report
  of their analysis; a state with another timer pending or a report on display reaches
  it as well.
\<close>

theorem cmp_file_shows_report:
  "\<exists>t. (cmp_step tz)\<^sup>*\<^sup>* s t \<and> cmp_shown t = ResultsSection
       \<and> cmp_raw t = load_rows_cmp rows \<and> cmp_report t = Some (cmp_analysis tz now rows)"
proof -
  let ?u = "process_file tz now (name, rows) s"
  have "cmp_step tz s ?u" by (rule cmp_step.input)
  moreover have "cmp_step tz ?u (run_deep_timer ?u)"
    by (rule cmp_step.timer) (simp add: process_file_def Let_def)
  ultimately have "(cmp_step tz)\<^sup>*\<^sup>* s (run_deep_timer ?u)" by simp
  moreover have "cmp_shown (run_deep_timer ?u) = ResultsSection \<and> cmp_raw (run_deep_timer ?u) = load_rows_cmp rows
       \<and> cmp_report (run_deep_timer ?u) = Some (cmp_analysis tz now rows)"
    by (simp add: run_deep_timer_def process_file_def cmp_analysis_def Let_def split_def)
  ultimately show ?thesis by blast
qed

section \<open>Witnesses\<close>

theorem cmp_reachable_inv_witness:
  "cmp_inv 0 (run_deep_timer (process_file 0 0 (''export.csv'', [mk_row ''Ad'' ''Otro'' (CNum 5) (CNum 1)]) cmp_init))"
proof -
  let ?s = "process_file 0 0 (''export.csv'', [mk_row ''Ad'' ''Otro'' (CNum 5) (CNum 1)]) cmp_init"
  have "cmp_reachable 0 ?s" by (rule cmp_reachable.step [OF cmp_reachable.init cmp_step.input])
  moreover have "0 < cmp_timers ?s" by (simp add: process_file_def cmp_init_def Let_def)
  ultimately have "cmp_reachable 0 (run_deep_timer ?s)" by (blast intro: cmp_reachable.step cmp_step.timer)
  then show ?thesis by (rule cmp_reachable_inv)
qed

end
