(* ===== verification/Spec2Isabelle.thy ===== *)
theory Spec2Isabelle
  imports Classifier Ranking RowAnalyses GenericMetrics Dashboard AnalyzerApp CmpReport
begin

text \<open>
  \<^bold>\<open>A verification library for the Meta Ads analyzers.\<close>

  The repository holds three browser scripts that read a Meta Ads CSV export and render
  a report. src/analyzer-comparative.js compares a before and an after cohort split at a
  fixed cutoff; src/analyzer-generic.js splits by two configured periods with include and
  exclude keywords; src/analyzer.js is a single-cohort dashboard. Each script is a
  pipeline: PapaParse rows, then a filter and a period classifier, then an aggregator
  folding a cohort into totals and per-segment objects, then ratios, rankings and scores
  that the render functions print. The theories follow that pipeline; every definition is
  a translation of the named JavaScript function, with JavaScript's numbers, objects,
  sort and Date semantics made explicit.

  \<^bold>\<open>Theories and what they model.\<close>
  \<^item> Prelude: \<open>jsnum\<close>, the IEEE number with \<open>Infinity\<close> and \<open>NaN\<close> (exact reals for
    finite values), its arithmetic and comparisons (\<open>js_lt\<close> is false on \<open>NaN\<close>),
    truthiness and \<open>||\<close>, \<open>Math.round\<close>; Latin-1 strings with \<open>toLowerCase\<close>,
    \<open>toUpperCase\<close> (the one-to-one Latin-1 letters; the characters whose case mapping
    leaves Latin-1 or has two letters are left unchanged), \<open>includes\<close> and
    \<open>startsWith\<close>.
  \<^item> JsObjects: plain objects as association lists in insertion order, with the
    \<open>if (!o[k]) o[k] = init; o[k].f += x\<close> update (\<open>obj_upsert\<close>; keys inherited from
    \<open>Object.prototype\<close> are truthy and never get an own entry), \<open>Object.entries\<close>
    (array-index keys first, ascending), \<open>Array.prototype.sort\<close> with a numeric
    comparator (\<open>js_sort_by\<close>: the stable sort by key, \<open>None\<close> when a key is \<open>NaN\<close>, where
    the language leaves the order to the engine) and \<open>slice\<close>.
  \<^item> Normalizer: a CSV cell and \<open>parseFloat(x) || 0\<close>; the row record with the columns
    the scripts read.
  \<^item> Dates: \<open>new Date(...)\<close> on ISO strings and on components, local time at a fixed
    offset \<open>tz\<close>; other strings go to the engine's parser, a parameter \<open>host\<close>. The
    calendar date of a time value (\<open>civil_from_days\<close>, the inverse of \<open>MakeDay\<close> by the
    400-, 100- and 4-year cycles), \<open>getFullYear\<close>/\<open>getMonth\<close> (\<open>local_ymd\<close>),
    \<open>toISOString\<close>'s date part and the \<open>valueAsDate\<close> setter of a date input
    (\<open>value_as_date\<close>: it writes the UTC date of the value).
  \<^item> Aggregator: \<open>calculateDeepMetrics\<close> of the comparative script (\<open>deep_step\<close> is the
    \<open>forEach\<close> body) and its derived ratios.
  \<^item> Classifier: both period classifiers (cutoff and configured), \<open>filterData\<close>,
    \<open>loadConfiguration\<close> and \<open>startAnalysis\<close> of the generic script as a sum type of its
    error returns.
  \<^item> Scoring and Ranking: the comparative script's scores, metric-table winners,
    benchmark compliance, strategic conclusion, strengths, projections and its rankings of
    segments, ads and result types.
  \<^item> RowAnalyses: the comparative analyses that go back to the rows: keyword mining (with
    its tokenizer), campaign types, creative formats and the automatic insights.
  \<^item> GenericMetrics: the generic script's \<open>calculateMetrics\<close>, auto-diagnosis and the
    values of each panel, composed by \<open>run_analysis\<close> and, after \<open>startAnalysis\<close>, by
    \<open>analyze\<close>.
  \<^item> Dashboard: src/analyzer.js, \<open>runBrutalAnalysis\<close> and the seven analyses it calls
    (\<open>calculateKPIs\<close>, \<open>analyzeDemographics\<close>, \<open>analyzeResultTypes\<close>,
    \<open>analyzePerformers\<close>, \<open>buildDemographicMatrix\<close>, \<open>buildTopAdsTable\<close>,
    \<open>mineKeywords\<close>), each a fold over the cleaned rows and a ranking, composed into the
    \<open>dashboard\<close> record of what the page prints.
  \<^item> AnalyzerApp: the generic script's page as a state machine. The record \<open>app\<close> holds its
    globals (\<open>rawData\<close>, \<open>filteredData\<close>, \<open>beforeData\<close>, \<open>afterData\<close>), which panel is
    shown, the start button, the report and the error banner; \<open>app_upload\<close>,
    \<open>app_upload_error\<close>, \<open>app_start\<close> and \<open>app_reset\<close> are \<open>handleFileUpload\<close>,
    \<open>showError\<close>, \<open>startAnalysis\<close> and \<open>resetAnalyzer\<close>, and the \<open>inductive\<close>
    \<open>app_step\<close> is the event loop (its start rule guarded by the button's
    \<open>disabled\<close> flag, its reset rule by the visible reset button). Its form is a
    \<open>page_form\<close> of PageForm: uploads run \<open>autoDetectDateRange\<close> on it, presets are
    \<open>applyPreset\<close>, the user may edit it, and the start event reads it through
    \<open>loadConfiguration\<close> and \<open>loadFilters\<close>.
  \<^item> PageForm: the generic script's form, with each widget an option (\<open>None\<close> when the
    element is missing, as \<open>?.\<close> reads it): \<open>loadFilters\<close>, \<open>applyPreset\<close> (its
    writes in order, stopping at a missing element with the TypeError and keeping the
    earlier writes), the default dates of \<open>DOMContentLoaded\<close> and
    \<open>autoDetectDateRange\<close> (a fold for the first and last date and the months seen).
  \<^item> CmpReport: the comparative script's page: \<open>processFile\<close>, the 500 ms timer of
    \<open>runDeepAnalysis\<close> and the report record of every panel's values, as functions
    and as an \<open>inductive\<close> step relation of drop, file-input and timer events (a pending
    timer is a counter). Dashboard closes with the same page model for src/analyzer.js.

  \<^bold>\<open>What the lemmas show.\<close> Each cohort fold conserves its rows: totals are sums of the
  rows' numbers and per-segment, per-ad, per-type and per-keyword totals add up to them
  (Aggregator, RowAnalyses, GenericMetrics). The splits are filters of the rows by one
  decision, so cohorts are disjoint and, with the skipped and undated counters, account
  for every row; the composition of \<open>startAnalysis\<close> and \<open>runAnalysis\<close> loses no spend.
  The sort model is exactly the language's specification of \<open>sort\<close> (refinement). The
  scores and winners are related to the spec's better-direction table, to each other
  (compliance extends the conclusion; the conclusion's score, counted apart, matches its
  good list; each head-to-head strength lies on the side the better direction gives) and
  bounded; the rankings return sorted
  permutations. The white-space splitter terminates (a \<open>function\<close> with a measure)
  and loses only white space. The two analyzers agree on every total except
  conversations, whose classification differs. Where the code departs from the spec the
  theorems say so on concrete inputs: the generic cost per conversation is 0 instead of
  \<open>Infinity\<close>, the comparative metrics table gives conversations to the after cohort
  unconditionally, the creative ranking treats no conversions as cost 999, a segment with
  cost below the mean gives negative savings.
  The dashboard's per-segment objects (of the matrix, and of the chart before its top-ten
  slice) add up to its KPIs, its keyword tokenizer is
  the comparative one without the stop word null, and its top and worst performers
  overlap when there are at most nine qualifying ads. The page's reachable states satisfy
  an invariant (rule induction over \<open>app_step\<close>), from every state an upload and a start
  reach the results (liveness), and a reachable state shows results under a stale error
  banner. A date written through \<open>valueAsDate\<close> reads back, as \<open>loadConfiguration\<close>
  reads it, as the first and last second of its UTC day in local time (round trip); hence
  east of UTC the month preset and \<open>autoDetectDateRange\<close> start every period a day early.
  The detection loop finds the least start and greatest end date; \<open>loadFilters\<close> never
  yields a zero threshold; \<open>resetFilters\<close> restores every filter but the thresholds. On
  the comparative page the report's cohorts account for every named row of the file, and
  every reachable state keeps its cohorts a split of the loaded rows and displays the
  report of two such cohorts (rule induction over \<open>cmp_step\<close>); from every state a
  chosen file and its timer show that file's report (liveness). The \<open>bestPerformers\<close>
  and \<open>problemAds\<close> presets read back through \<open>loadFilters\<close> as the values they write.
  The comparative cutoff is UTC midnight against local row dates: for every offset within
  a day, an ad starting on the cutoff day is \<open>after\<close> exactly at or west of UTC.

  \<^bold>\<open>Bounds and fuel.\<close> No loop needs fuel: every loop of the scripts is a \<open>forEach\<close>
  over a finite array (a \<open>foldl\<close>) or a regular-expression scan (structural recursion or
  the measured \<open>split_ws_acc\<close>). Numbers are exact reals, so the theorems about sums hold
  without rounding; where a claim needs the values finite or non-negative it says so.

  \<^bold>\<open>Not modelled.\<close> The DOM itself, Chart.js and the browser's drag-and-drop and
  file reading (pure I/O: the model starts from the events and from the form's values);
  PapaParse itself (the model starts from its rows); the formatting by \<open>toFixed\<close> and
  \<open>toLocaleString\<close> (the values are modelled before formatting, except where a
  formatted string is compared or bounded, as \<open>to_fixed0\<close>); time zones with daylight
  saving time (the offset \<open>tz\<close> is fixed); the period names and alerts of
  \<open>autoDetectDateRange\<close> (labels and messages); the chart instances the page destroys
  and recreates.
  \<close>

end
